theory Spec2Isabelle
  imports Main
begin

section \<open>Python values and errors\<close>

text \<open>
  The packager is Python 2 code.  Every exception the modelled code can raise is a value
  of \<open>error\<close>; a fallible operation returns \<open>error + 'a\<close>, with \<open>Inl\<close> the raised
  exception.  \<open>PackagerError\<close> and \<open>OutsideOfPackageError\<close> are the classes the
  module declares itself; the others are Python's built-in exceptions.
\<close>

datatype error =
    PackagerError string
  | OutsideOfPackageError
  | KeyError string
  | TypeError string
  | AttributeError string
  | StandardError string

section \<open>Version tuples (\<open>Packager.__makeVersionTuple\<close>)\<close>

text \<open>
  A version tuple is a Python tuple whose members are strings and integers.
\<close>

datatype vword = VStr string | VInt int

definition string_digits :: string where
  "string_digits = ''0123456789''"

text \<open>Python's \<open>int(w)\<close> on a string of decimal digits.\<close>

definition digit_value :: "char \<Rightarrow> int" where
  "digit_value c = int (of_char c) - 48"

definition py_int :: "string \<Rightarrow> int" where
  "py_int w = foldl (\<lambda>a c. 10 * a + digit_value c) 0 w"

text \<open>
  The two inner loops of \<open>__makeVersionTuple\<close>: starting at index \<open>p\<close> with the word
  \<open>w\<close> collected so far, advance while the character is not (is) a digit.  Each returns
  the new index and the word.
\<close>

function scanNonDigits :: "string \<Rightarrow> nat \<Rightarrow> string \<Rightarrow> nat \<times> string" where
  "scanNonDigits version p w =
     (if p < length version \<and> version ! p \<notin> set string_digits
      then scanNonDigits version (p + 1) (w @ [version ! p])
      else (p, w))"
  by pat_completeness auto
termination
  by (relation "measure (\<lambda>(version, p, w). length version - p)") auto

function scanDigits :: "string \<Rightarrow> nat \<Rightarrow> string \<Rightarrow> nat \<times> string" where
  "scanDigits version p w =
     (if p < length version \<and> version ! p \<in> set string_digits
      then scanDigits version (p + 1) (w @ [version ! p])
      else (p, w))"
  by pat_completeness auto
termination
  by (relation "measure (\<lambda>(version, p, w). length version - p)") auto

declare scanNonDigits.simps [simp del]
declare scanDigits.simps [simp del]

text \<open>
  The outer loop, with the list \<open>words\<close> built so far: one non-digit word (possibly empty)
  and then, when there are digits, their integer value.  It terminates because the two
  scans together move the index forward: a scan never moves it back, the first one stops
  at a digit or at the end, and the second one passes at least the digit it starts on.
\<close>

function makeVersionTuple_loop :: "string \<Rightarrow> nat \<Rightarrow> vword list \<Rightarrow> vword list" where
  "makeVersionTuple_loop version p words =
     (if p < length version
      then (let r1 = scanNonDigits version p [];
                words1 = words @ [VStr (snd r1)];
                r2 = scanDigits version (fst r1) [];
                words2 = (if snd r2 \<noteq> [] then words1 @ [VInt (py_int (snd r2))] else words1)
            in makeVersionTuple_loop version (fst r2) words2)
      else words)"
  by pat_completeness auto
termination
proof (relation "measure (\<lambda>(version, p, words). length version - p)")
  show "wf (measure (\<lambda>(version, p, words). length version - p))" by simp
next
  fix version :: string and p :: nat and words r1 words1 r2 words2
  assume less: "p < length version" and r1: "r1 = scanNonDigits version p []"
    and r2: "r2 = scanDigits version (fst r1) []"
  have nondigits_ge: "q \<le> fst (scanNonDigits v q w)" for v q w
  proof (induction v q w rule: scanNonDigits.induct)
    case (1 v q w)
    show ?case
    proof (cases "q < length v \<and> v ! q \<notin> set string_digits")
      case True
      with 1 have "q + 1 \<le> fst (scanNonDigits v (q + 1) (w @ [v ! q]))" by simp
      with True show ?thesis by (subst scanNonDigits.simps) simp
    next
      case False
      then show ?thesis by (subst scanNonDigits.simps) auto
    qed
  qed
  have nondigits_stop:
    "fst (scanNonDigits v q w) < length v \<Longrightarrow> v ! fst (scanNonDigits v q w) \<in> set string_digits"
    for v q w
  proof (induction v q w rule: scanNonDigits.induct)
    case (1 v q w)
    show ?case
    proof (cases "q < length v \<and> v ! q \<notin> set string_digits")
      case True
      have eq: "scanNonDigits v q w = scanNonDigits v (q + 1) (w @ [v ! q])"
        using True by (subst scanNonDigits.simps) simp
      from 1 True eq show ?thesis by simp
    next
      case False
      have eq: "scanNonDigits v q w = (q, w)"
        using False by (subst scanNonDigits.simps) auto
      from 1(2) False eq show ?thesis by auto
    qed
  qed
  have digits_ge: "q \<le> fst (scanDigits v q w)" for v q w
  proof (induction v q w rule: scanDigits.induct)
    case (1 v q w)
    show ?case
    proof (cases "q < length v \<and> v ! q \<in> set string_digits")
      case True
      with 1 have "q + 1 \<le> fst (scanDigits v (q + 1) (w @ [v ! q]))" by simp
      with True show ?thesis by (subst scanDigits.simps) simp
    next
      case False
      then show ?thesis by (subst scanDigits.simps) auto
    qed
  qed
  have digits_gt: "q < fst (scanDigits v q w)"
    if "q < length v" and "v ! q \<in> set string_digits" for v q w
  proof -
    have "q + 1 \<le> fst (scanDigits v (q + 1) (w @ [v ! q]))" by (rule digits_ge)
    with that show ?thesis by (subst scanDigits.simps) simp
  qed
  have "p < fst r2"
  proof (cases "p < fst r1")
    case True
    with digits_ge [of "fst r1" version "[]"] r2 show ?thesis by simp
  next
    case False
    with nondigits_ge [of p version "[]"] r1 have eq: "fst r1 = p" by simp
    with less nondigits_stop [of version p "[]"] r1 have "version ! p \<in> set string_digits"
      by simp
    with less eq r2 digits_gt [of p version "[]"] show ?thesis by simp
  qed
  with less
  show "((version, fst r2, words2), (version, p, words))
          \<in> measure (\<lambda>(version, p, words). length version - p)"
    by simp
qed

declare makeVersionTuple_loop.simps [simp del]

definition makeVersionTuple :: "string \<Rightarrow> vword list" where
  "makeVersionTuple version = makeVersionTuple_loop version 0 []"

text \<open>
  Python 2 comparison.  Strings compare by character code; a number is smaller than any
  string; tuples compare member by member, and a proper prefix is smaller.
\<close>

fun py_str_less :: "string \<Rightarrow> string \<Rightarrow> bool" where
  "py_str_less [] [] = False"
| "py_str_less [] (y # ys) = True"
| "py_str_less (x # xs) [] = False"
| "py_str_less (x # xs) (y # ys) =
     (if x = y then py_str_less xs ys else (of_char x :: nat) < of_char y)"

fun vword_less :: "vword \<Rightarrow> vword \<Rightarrow> bool" where
  "vword_less (VInt a) (VInt b) = (a < b)"
| "vword_less (VInt a) (VStr t) = True"
| "vword_less (VStr s) (VInt b) = False"
| "vword_less (VStr s) (VStr t) = py_str_less s t"

fun tuple_less :: "vword list \<Rightarrow> vword list \<Rightarrow> bool" where
  "tuple_less [] [] = False"
| "tuple_less [] (y # ys) = True"
| "tuple_less (x # xs) [] = False"
| "tuple_less (x # xs) (y # ys) =
     (if x = y then tuple_less xs ys else vword_less x y)"

definition tuple_greater :: "vword list \<Rightarrow> vword list \<Rightarrow> bool" where
  "tuple_greater a b = tuple_less b a"

section \<open>File names (class \<open>Filename\<close>)\<close>

text \<open>
  Modelled from the spec: class \<open>Filename\<close> (Panda3D's file-name class) is used by the
  packager and is not under src/.  The spec speaks of "the target name's extension" and
  of a ".pz-suffixed target" whose "suffix is stripped".  A file name is its string; the
  basename is the text after the last slash, and the extension is the text after the last
  dot of the basename (empty when the basename has no dot).  \<open>setExtension\<close> with an
  empty string removes the extension together with its dot.
\<close>

definition getBasename :: "string \<Rightarrow> string" where
  "getBasename f = rev (takeWhile (\<lambda>c. c \<noteq> CHR ''/'') (rev f))"

definition hasDirname :: "string \<Rightarrow> bool" where
  "hasDirname f = (CHR ''/'' \<in> set f)"

definition getExtension :: "string \<Rightarrow> string" where
  "getExtension f =
     (let b = getBasename f
      in if CHR ''.'' \<in> set b then rev (takeWhile (\<lambda>c. c \<noteq> CHR ''.'') (rev b)) else [])"

definition setExtension :: "string \<Rightarrow> string \<Rightarrow> string" where
  "setExtension f s =
     (if CHR ''.'' \<in> set (getBasename f)
      then (if s = [] then rev (tl (dropWhile (\<lambda>c. c \<noteq> CHR ''.'') (rev f)))
            else rev (dropWhile (\<lambda>c. c \<noteq> CHR ''.'') (rev f)) @ s)
      else (if s = [] then f else f @ ''.'' @ s))"

definition isLocal :: "string \<Rightarrow> bool" where
  "isLocal f = (case f of [] \<Rightarrow> True | c # _ \<Rightarrow> c \<noteq> CHR ''/'')"

text \<open>\<open>Filename(dirname, basename)\<close>: the two joined by one slash.\<close>

definition Filename2 :: "string \<Rightarrow> string \<Rightarrow> string" where
  "Filename2 dirname basename =
     (if dirname = [] then basename
      else if last dirname = CHR ''/'' then dirname @ basename
      else dirname @ ''/'' @ basename)"

text \<open>Python's \<open>str.lower\<close> on ASCII text.\<close>

definition char_lower :: "char \<Rightarrow> char" where
  "char_lower c =
     (let n = (of_char c :: nat) in if 65 \<le> n \<and> n \<le> 90 then char_of (n + 32) else c)"

definition py_lower :: "string \<Rightarrow> string" where
  "py_lower s = map char_lower s"

text \<open>Python's \<open>str.startswith\<close>.\<close>

definition startswith :: "string \<Rightarrow> string \<Rightarrow> bool" where
  "startswith s pre = (take (length pre) s = pre)"

section \<open>XML documents (TinyXML)\<close>

text \<open>
  Modelled from the spec: the XML classes (\<open>TiXmlDocument\<close>, \<open>TiXmlElement\<close>,
  \<open>TiXmlDeclaration\<close>) are not under src/.  The spec gives the "logical shape" of the
  descriptor documents: elements with attributes and child elements.  An element is its
  tag, its attributes in order and its children in order; a document is a list of nodes.
  \<open>SetAttribute\<close> replaces the value of an attribute that is there and appends a new
  one otherwise; \<open>Attribute\<close> is \<open>None\<close> for an attribute that is not there;
  \<open>childElements x t\<close> are the children that the loop
  \<open>FirstChildElement(t)\<close> / \<open>NextSiblingElement(t)\<close> visits.
\<close>

datatype xml = Element string "(string \<times> string) list" "xml list"

datatype xml_node = Declaration string string string | ElementNode xml

fun tag :: "xml \<Rightarrow> string" where
  "tag (Element t attrs children) = t"

fun SetAttribute :: "xml \<Rightarrow> string \<Rightarrow> string \<Rightarrow> xml" where
  "SetAttribute (Element t attrs children) k v =
     (if k \<in> fst ` set attrs
      then Element t (map (\<lambda>item. if fst item = k then (k, v) else item) attrs) children
      else Element t (attrs @ [(k, v)]) children)"

fun Attribute :: "xml \<Rightarrow> string \<Rightarrow> string option" where
  "Attribute (Element t attrs children) k = map_of attrs k"

fun InsertEndChild :: "xml \<Rightarrow> xml \<Rightarrow> xml" where
  "InsertEndChild (Element t attrs children) child = Element t attrs (children @ [child])"

fun childElements :: "xml \<Rightarrow> string \<Rightarrow> xml list" where
  "childElements (Element t attrs children) name = filter (\<lambda>child. tag child = name) children"

fun doc_FirstChildElement :: "xml_node list \<Rightarrow> string \<Rightarrow> xml option" where
  "doc_FirstChildElement [] name = None"
| "doc_FirstChildElement (Declaration a b c # rest) name = doc_FirstChildElement rest name"
| "doc_FirstChildElement (ElementNode x # rest) name =
     (if tag x = name then Some x else doc_FirstChildElement rest name)"

section \<open>Data model\<close>

text \<open>
  The classes of the module as records.  A field keeps the name of the attribute it
  models; \<open>extractFlag\<close> and \<open>fileText\<close> are the attributes \<open>extract\<close> and
  \<open>text\<close> of a \<open>PackFile\<close>.  A \<open>ModuleDef\<close> is the entry of the freezer's
  module table, of which the packager reads three flags.
\<close>

record ModuleDef =
  md_exclude :: bool
  md_forbid :: bool
  md_allowChildren :: bool

text \<open>
  A package that was read from an import descriptor (\<open>readImportDescFile\<close>) carries
  its name, platform, version and host, the packages it requires, the target names of
  its components and its module table.  Only these attributes of a required package are
  read by the packager.
\<close>

datatype req_package = ReqPackage
  (rp_packageName: string)
  (rp_platform: "string option")
  (rp_version: "string option")
  (rp_host: "string option")
  (rp_requires: "req_package list")
  (rp_targetFilenames: "string list")
  (rp_moduleNames: "(string \<times> ModuleDef) list")

text \<open>
  What \<open>notify.warning\<close> logs.  The two mismatch warnings of \<open>requirePackage\<close>
  format the package object itself into the message; they carry the package.
\<close>

datatype notification =
    Warning string
  | VersionMismatchWarning req_package string
  | HostMismatchWarning req_package string

text \<open>
  The value of a config variable: \<open>do_config\<close> stores the keyword arguments it is
  given, whatever their type.  \<open>config_bool\<close> is Python's \<open>bool(v)\<close>.  The version
  of a package is \<open>None\<close>, a string, or the value of the config variable \<open>version\<close>,
  which \<open>close\<close> stores as it is; \<open>truthy_value\<close> is its truth value.
\<close>

datatype config_value = CStr string | CBool bool | CInt int

definition config_bool :: "config_value \<Rightarrow> bool" where
  "config_bool v = (case v of CStr s \<Rightarrow> s \<noteq> [] | CBool b \<Rightarrow> b | CInt i \<Rightarrow> i \<noteq> 0)"

definition truthy_value :: "config_value option \<Rightarrow> bool" where
  "truthy_value v = (case v of None \<Rightarrow> False | Some c \<Rightarrow> config_bool c)"

record PackFile =
  filename :: string
  newName :: string
  deleteTemp :: bool
  explicit :: bool
  compress :: bool
  extractFlag :: bool
  fileText :: "string option"
  unprocessed :: bool
  executable :: bool
  platformSpecific :: bool

text \<open>The keyword arguments of \<open>PackFile.__init__\<close>; \<open>None\<close> is Python's \<open>None\<close>.\<close>

record packfile_args =
  a_newName :: "string option"
  a_deleteTemp :: bool
  a_explicit :: bool
  a_compress :: "bool option"
  a_extract :: "bool option"
  a_text :: "string option"
  a_unprocessed :: "bool option"
  a_executable :: "bool option"
  a_platformSpecific :: "bool option"

record ExcludeFilename =
  localOnly :: bool
  glob :: string
  globCaseSensitive :: bool

text \<open>
  The attribute \<open>platformSpecificConfig\<close> of a package is first assigned in
  \<open>close\<close>: the outer \<open>None\<close> is "not yet assigned", \<open>Some None\<close> is Python's
  \<open>None\<close>.  The three dictionaries are maps; \<open>configs\<close> keeps the order of its
  items, which the descriptor writer walks.  \<open>freezerModules\<close> are the keys of
  \<open>freezer.modules\<close>.  The attributes from \<open>moduleNames\<close> on are assigned by
  \<open>installMultifile\<close> and \<open>readDescFile\<close>, not by \<open>__init__\<close>; every path of
  the module assigns them before it reads them, and the values the model's constructor
  gives them are never read.
\<close>

record package =
  packageName :: string
  platform :: "string option"
  version :: "config_value option"
  host :: "string option"
  p3dApplication :: bool
  solo :: bool
  compressionLevel :: nat
  mainModule :: "(string \<times> string) option"
  requires :: "req_package list"
  configs :: "(string \<times> config_value) list"
  skipFilenames :: "string \<rightharpoonup> bool"
  skipModules :: "string \<rightharpoonup> ModuleDef"
  excludedFilenames :: "ExcludeFilename list"
  files :: "PackFile list"
  sourceFilenames :: "string \<rightharpoonup> PackFile"
  targetFilenames :: "string \<rightharpoonup> PackFile"
  platformSpecificConfig :: "bool option option"
  freezerModules :: "string list"
  moduleNames :: "(string \<times> ModuleDef) list"
  multifile :: "(string \<times> nat) list"
  multifileHeader :: string
  extracts :: "(string \<times> xml) list"
  components :: "(string \<times> string \<times> xml) list"
  packageBasename :: string
  packageDesc :: string
  packageImportDesc :: string
  packageFilename :: string
  packageFullpath :: string
  patchVersion :: string
  patches :: "xml list"

section \<open>The environment\<close>

text \<open>
  What the packager reads and writes outside itself is a parameter of the model.
  \<^item> The file system: \<open>fs_exists\<close>, the results of \<open>Filename.resolveFilename\<close>,
    \<open>makeTrueCase\<close> and \<open>makeCanonical\<close>, of \<open>glob.glob\<close>, \<open>vfs.scanDirectory\<close>
    and \<open>Filename.temporary\<close>, the size, timestamp and hash of a file, and whether a
    rename, a copy or a compression succeeds.
  \<^item> The XML documents on disk (\<open>xmlFiles\<close>): a document that was saved is loaded
    again as it was, and a path without a document does not load.
  \<^item> The Multifile archives on disk (\<open>multifiles\<close>): an archive is the list of its
    subfile names with their compression levels.
  \<^item> The external collaborators of \<open>installMultifile\<close>: \<open>dcImportModules f\<close> are
    the modules that \<open>addDcImports\<close> adds for the dc file \<open>f\<close> (\<open>None\<close> when the
    file does not parse), and \<open>assembleContents\<close> is the part of \<open>installMultifile\<close>
    between the main-module step and \<open>considerPlatform\<close>: the freezer, the scan for
    shared-library dependencies and the passes that write the component and model
    files.  It returns the package it leaves behind, or the message of the exception.
  \<^item> Glob-pattern matching (\<open>GlobPattern.matches\<close>, with the pattern's
    case-sensitivity flag) and the constants of \<open>PandaSystem\<close>.
  \<^item> The configured search paths: \<open>pdefPath\<close> is the config variable pdef-path,
    \<open>searchPathDirs v\<close> the directories of the environment variable \<open>v\<close> that
    exist; \<open>pnmExtensions\<close> are the extensions of the \<open>PNMFileTypeRegistry\<close>.
  \<^item> Two readers: \<open>readImportDesc f\<close> is the package that
    \<open>Package.readImportDescFile\<close> builds from the import descriptor \<open>f\<close> (\<open>None\<close>
    when the file cannot be read), and \<open>findOnHost\<close> is the query of the remote host
    (\<open>__findPackageOnHost\<close>, which goes through the \<open>AppRunner\<close>).  The nested
    \<open>findPackage\<close> calls that reading an import descriptor makes for the packages it
    requires are part of \<open>readImportDesc\<close>; the entries they add to
    \<open>Packager.packages\<close> are not modelled.  The copy of an import descriptor that
    the query of the remote host keeps in the imports directory of the host is outside
    the modelled file system, which is the install directory, the source files and the
    temporary files.
\<close>

record env =
  fs_exists :: "string \<Rightarrow> bool"
  fs_resolveFilename :: "string list \<Rightarrow> string \<Rightarrow> string"
  fs_makeTrueCase :: "string \<Rightarrow> string"
  fs_makeCanonical :: "string \<Rightarrow> string"
  fs_glob :: "string \<Rightarrow> string list"
  fs_scanDirectory :: "string \<Rightarrow> string list"
  fs_temporary :: "string \<Rightarrow> string \<Rightarrow> string"
  fs_getFileSize :: "string \<Rightarrow> nat"
  fs_getTimestamp :: "string \<Rightarrow> nat"
  fs_hashFile :: "string \<Rightarrow> string"
  fs_renameOk :: "string \<Rightarrow> string \<Rightarrow> bool"
  fs_copyOk :: "string \<Rightarrow> string \<Rightarrow> bool"
  fs_compressOk :: "string \<Rightarrow> string \<Rightarrow> bool"
  xmlFiles :: "string \<rightharpoonup> xml_node list"
  multifiles :: "string \<rightharpoonup> (string \<times> nat) list"
  dcImportModules :: "string \<Rightarrow> string list option"
  assembleContents :: "package \<Rightarrow> string + package"
  glob_matches :: "string \<Rightarrow> bool \<Rightarrow> string \<Rightarrow> bool"
  getPlatform :: string
  getPackageVersionString :: string
  getPackageHostUrl :: string
  pdefPath :: "string list"
  searchPathDirs :: "string \<Rightarrow> string list"
  pnmExtensions :: "string list"
  readImportDesc :: "string \<Rightarrow> req_package option"
  findOnHost ::
    "string \<Rightarrow> string option \<Rightarrow> string option \<Rightarrow> string option
       \<Rightarrow> error + req_package option"

section \<open>The packager\<close>

text \<open>
  A \<open>PackageEntry\<close> is an entry of the contents index, with the names of its
  descriptor files.
\<close>

record PackageEntry =
  pe_packageName :: string
  pe_platform :: "string option"
  pe_version :: "config_value option"
  pe_solo :: bool
  pe_descFile :: string
  pe_importDescFile :: "string option"

text \<open>
  The keys of \<open>Packager.packages\<close>: \<open>endPackage\<close> stores a finished package under
  the triple (name, platform, version), \<open>findPackage\<close> looks up and stores under the
  quadruple (name, platform, version, host).
\<close>

datatype pkg_key =
    Key3 string "string option" "config_value option"
  | Key4 string "string option" "string option" "string option"

text \<open>
  The attributes of the \<open>Packager\<close> that the modelled methods read or write;
  \<open>packager_host\<close> and \<open>packager_platform\<close> are its attributes \<open>host\<close> and
  \<open>platform\<close>, and \<open>notify\<close> is the log of the notify category that the packager
  and its packages share.
\<close>

record packager =
  installDir :: string
  packager_host :: string
  installSearch :: "string list"
  executablePath :: "string list"
  packager_platform :: string
  caseSensitive :: bool
  imageExtensions :: "string list"
  executableExtensions :: "string list"
  extractExtensions :: "string list"
  platformSpecificExtensions :: "string list"
  uncompressibleExtensions :: "string list"
  unprocessedExtensions :: "string list"
  excludeSystemFiles :: "string list"
  excludeSystemGlobs :: "string list"
  packageList :: "package list"
  packages :: "pkg_key \<rightharpoonup> req_package"
  contents :: "(string \<times> string option \<times> config_value option) \<rightharpoonup> PackageEntry"
  contentsChanged :: bool
  currentPackage :: "package option"
  notify :: "notification list"

section \<open>Constructors\<close>

text \<open>
  \<open>Package.__init__\<close>, the defaults of the keyword arguments of \<open>PackFile.__init__\<close>,
  and \<open>Packager.__init__\<close> followed by the caller's assignment of \<open>installDir\<close>
  (which \<open>setup\<close> asserts).
\<close>

definition Package_init :: "string \<Rightarrow> package" where
  "Package_init name =
     \<lparr> packageName = name, platform = None, version = None, host = None,
       p3dApplication = False, solo = False, compressionLevel = 0, mainModule = None,
       requires = [], configs = [], skipFilenames = Map.empty, skipModules = Map.empty,
       excludedFilenames = [], files = [], sourceFilenames = Map.empty,
       targetFilenames = Map.empty, platformSpecificConfig = None,
       freezerModules = [], moduleNames = [], multifile = [], multifileHeader = [],
       extracts = [], components = [], packageBasename = [], packageDesc = [],
       packageImportDesc = [], packageFilename = [], packageFullpath = [],
       patchVersion = [], patches = [] \<rparr>"

definition default_args :: packfile_args where
  "default_args =
     \<lparr> a_newName = None, a_deleteTemp = False, a_explicit = False, a_compress = None,
       a_extract = None, a_text = None, a_unprocessed = None, a_executable = None,
       a_platformSpecific = None \<rparr>"

definition Packager_init :: "env \<Rightarrow> string \<Rightarrow> packager" where
  "Packager_init e dir =
     (let win = startswith (getPlatform e) ''win'';
          osx = startswith (getPlatform e) ''osx'';
          exts = (if win then [''dll'', ''pyd'', ''exe'']
                  else if osx then [''so'', ''dylib''] else [''so''])
      in \<lparr> installDir = dir,
           packager_host = getPackageHostUrl e,
           installSearch = pdefPath e,
           executablePath =
             (if win then searchPathDirs e ''PATH''
              else if osx then searchPathDirs e ''DYLD_LIBRARY_PATH''
                     @ searchPathDirs e ''LD_LIBRARY_PATH'' @ searchPathDirs e ''PATH''
                     @ [''/lib'', ''/usr/lib'']
              else searchPathDirs e ''LD_LIBRARY_PATH'' @ searchPathDirs e ''PATH''
                     @ [''/lib'', ''/usr/lib'']),
           packager_platform = getPlatform e,
           caseSensitive = (\<not> win \<and> \<not> osx),
           imageExtensions = pnmExtensions e,
           executableExtensions = exts,
           extractExtensions = exts,
           platformSpecificExtensions = exts,
           uncompressibleExtensions = [''mp3'', ''ogg''],
           unprocessedExtensions = [],
           excludeSystemFiles =
             [''kernel32.dll'', ''user32.dll'', ''wsock32.dll'', ''ws2_32.dll'',
              ''advapi32.dll'', ''opengl32.dll'', ''glu32.dll'', ''gdi32.dll'',
              ''shell32.dll'', ''ntdll.dll'', ''ws2help.dll'', ''rpcrt4.dll'',
              ''imm32.dll'', ''ddraw.dll'', ''shlwapi.dll'', ''secur32.dll'',
              ''dciman32.dll'', ''comdlg32.dll'', ''comctl32.dll'', ''ole32.dll'',
              ''oleaut32.dll'', ''gdiplus.dll'', ''winmm.dll'',
              ''libsystem.b.dylib'', ''libmathcommon.a.dylib'', ''libmx.a.dylib'',
              ''libstdc++.6.dylib''],
           excludeSystemGlobs =
             [''d3dx9_*.dll'', ''linux-gate.so*'', ''libdl.so*'', ''libm.so*'',
              ''libc.so*'', ''libGL.so*'', ''libGLU.so*'', ''libX*.so*''],
           packageList = [],
           packages = Map.empty,
           contents = Map.empty,
           contentsChanged = False,
           currentPackage = None,
           notify = [] \<rparr>)"

section \<open>\<open>Packager.PackFile\<close>\<close>

text \<open>
  The target name a \<open>PackFile\<close> is constructed with: \<open>newName\<close>, or the source file
  name when \<open>newName\<close> is \<open>None\<close> or empty.
\<close>

definition givenName :: "string \<Rightarrow> packfile_args \<Rightarrow> string" where
  "givenName fname kw =
     (case a_newName kw of None \<Rightarrow> fname | Some n \<Rightarrow> if n = [] then fname else n)"

definition PackFile_init :: "env \<Rightarrow> packager \<Rightarrow> string \<Rightarrow> packfile_args \<Rightarrow> PackFile" where
  "PackFile_init e pkgr fname kw =
     (let name0 = givenName fname kw;
          pz = (getExtension name0 = ''pz'');
          name1 = (if pz then setExtension name0 [] else name0);
          ext = getExtension name1;
          compress0 = (if pz \<and> a_compress kw = None then Some True else a_compress kw);
          compress1 = (case compress0 of
                         None \<Rightarrow> ext \<notin> set (uncompressibleExtensions pkgr)
                                   \<and> ext \<notin> set (imageExtensions pkgr)
                       | Some c \<Rightarrow> c);
          executable1 = (case a_executable kw of
                           None \<Rightarrow> ext \<in> set (executableExtensions pkgr)
                         | Some x \<Rightarrow> x);
          extract1 = (case a_extract kw of
                        None \<Rightarrow> executable1 \<or> ext \<in> set (extractExtensions pkgr)
                      | Some x \<Rightarrow> x);
          platformSpecific1 = (case a_platformSpecific kw of
                        None \<Rightarrow> executable1 \<or> ext \<in> set (platformSpecificExtensions pkgr)
                      | Some x \<Rightarrow> x);
          unprocessed1 = (case a_unprocessed kw of
                        None \<Rightarrow> executable1 \<or> ext \<in> set (unprocessedExtensions pkgr)
                      | Some x \<Rightarrow> x);
          filename1 = (if executable1 then fs_resolveFilename e (executablePath pkgr) fname
                       else fname);
          filename2 = fs_makeTrueCase e filename1;
          filename3 = (if fs_exists e filename2 \<or> \<not> isLocal filename2
                       then fs_makeCanonical e filename2 else filename2)
      in \<lparr> filename = filename3, newName = name1, deleteTemp = a_deleteTemp kw,
           explicit = a_explicit kw, compress = compress1, extractFlag = extract1,
           fileText = a_text kw, unprocessed = unprocessed1, executable = executable1,
           platformSpecific = platformSpecific1 \<rparr>)"

section \<open>\<open>Packager.ExcludeFilename\<close>\<close>

definition ExcludeFilename_init :: "env \<Rightarrow> string \<Rightarrow> ExcludeFilename" where
  "ExcludeFilename_init e fname =
     (let lo = (\<not> hasDirname fname);
          fname1 = (if \<not> lo then fs_makeCanonical e fname else fname)
      in \<lparr> localOnly = lo, glob = fname1,
           globCaseSensitive = (\<not> startswith (getPlatform e) ''win''
                                \<and> \<not> startswith (getPlatform e) ''osx'') \<rparr>)"

definition matches :: "env \<Rightarrow> ExcludeFilename \<Rightarrow> string \<Rightarrow> bool" where
  "matches e self fname =
     (if localOnly self then glob_matches e (glob self) (globCaseSensitive self) (getBasename fname)
      else glob_matches e (glob self) (globCaseSensitive self) fname)"

section \<open>\<open>PackFile.isExcluded\<close> and \<open>Package.addFile\<close>\<close>

text \<open>
  \<open>isExcluded\<close> reads \<open>package.platformSpecificConfig\<close> only for a file that is not
  explicit, passed the other tests and is platform-specific; reading the attribute
  before \<open>close\<close> assigned it raises \<open>AttributeError\<close>.
\<close>

definition isExcluded :: "env \<Rightarrow> packager \<Rightarrow> package \<Rightarrow> PackFile \<Rightarrow> error + bool" where
  "isExcluded e pkgr pkg self =
     (if newName self \<in> dom (skipFilenames pkg) then Inr True
      else if \<not> explicit self then
        (let basename0 = getBasename (newName self);
             basename = (if \<not> caseSensitive pkgr then py_lower basename0 else basename0)
         in if basename \<in> set (excludeSystemFiles pkgr) then Inr True
            else if list_ex (\<lambda>exclude. glob_matches e exclude True basename)
                      (excludeSystemGlobs pkgr) then Inr True
            else if list_ex (\<lambda>exclude. matches e exclude (filename self))
                      (excludedFilenames pkg) then Inr True
            else if platformSpecific self then
              (case platformSpecificConfig pkg of
                 None \<Rightarrow> Inl (AttributeError ''platformSpecificConfig'')
               | Some c \<Rightarrow> if c = Some False then Inr True else Inr False)
            else Inr False)
      else Inr False)"

text \<open>
  \<open>addFile\<close> returns the package and the warnings it logged, or the exception raised.
\<close>

definition addFile ::
  "env \<Rightarrow> packager \<Rightarrow> package \<Rightarrow> string \<Rightarrow> packfile_args
     \<Rightarrow> error + (package \<times> notification list)" where
  "addFile e pkgr self fname kw =
     (let file = PackFile_init e pkgr fname kw
      in if filename file \<in> dom (sourceFilenames self) then Inr (self, [])
         else (case targetFilenames self (newName file) of
                 Some file2 \<Rightarrow>
                   Inr (self, [Warning (filename file2 @ '' is shadowing '' @ filename file)])
               | None \<Rightarrow>
                   (let self1 = self\<lparr> sourceFilenames :=
                                       (sourceFilenames self)(filename file \<mapsto> file) \<rparr>
                    in if fileText file = None \<and> \<not> fs_exists e (filename file)
                       then (case isExcluded e pkgr self1 file of
                               Inl err \<Rightarrow> Inl err
                             | Inr excluded \<Rightarrow>
                                 Inr (self1,
                                      if \<not> excluded
                                      then [Warning (''No such file: '' @ filename file)]
                                      else []))
                       else Inr (self1\<lparr> files := files self1 @ [file],
                                        targetFilenames :=
                                          (targetFilenames self1)(newName file \<mapsto> file) \<rparr>,
                                 []))))"

text \<open>
  Two successive calls of \<open>addFile\<close> with the same arguments, as a directive that is
  repeated in a package definition makes them: the package after the second call and the
  warnings of each call.  \<open>files_consistent\<close> holds of every package that
  \<open>addFile\<close> built: no two files of the list have the same source, and every
  file's source is registered in \<open>sourceFilenames\<close>.
\<close>

definition addFile_twice ::
  "env \<Rightarrow> packager \<Rightarrow> package \<Rightarrow> string \<Rightarrow> packfile_args
     \<Rightarrow> error + (package \<times> notification list \<times> notification list)" where
  "addFile_twice e pkgr self fname kw =
     (case addFile e pkgr self fname kw of
        Inl err \<Rightarrow> Inl err
      | Inr (self1, log1) \<Rightarrow>
          (case addFile e pkgr self1 fname kw of
             Inl err \<Rightarrow> Inl err
           | Inr (self2, log2) \<Rightarrow> Inr (self2, log1, log2)))"

definition files_consistent :: "package \<Rightarrow> bool" where
  "files_consistent p =
     (distinct (map filename (files p))
      \<and> list_all (\<lambda>f. filename f \<in> dom (sourceFilenames p)) (files p))"

section \<open>Resolving required packages\<close>

definition truthy :: "string option \<Rightarrow> bool" where
  "truthy v = (case v of None \<Rightarrow> False | Some s \<Rightarrow> s \<noteq> [])"

text \<open>Python's \<open>'%s' % v\<close> for a string or \<open>None\<close>.\<close>

definition py_str :: "string option \<Rightarrow> string" where
  "py_str v = (case v of None \<Rightarrow> ''None'' | Some s \<Rightarrow> s)"

fun findPackageInList :: "string \<Rightarrow> req_package list \<Rightarrow> req_package option" where
  "findPackageInList pname [] = None"
| "findPackageInList pname (package # rest) =
     (if rp_packageName package = pname then Some package
      else findPackageInList pname rest)"

definition packageIsValid :: "req_package \<Rightarrow> req_package list \<Rightarrow> bool" where
  "packageIsValid package reqs =
     (if reqs = [] then True
      else (case findPackageInList ''panda3d'' ([package] @ rp_requires package) of
              None \<Rightarrow> True
            | Some panda1 \<Rightarrow>
                (case findPackageInList ''panda3d'' reqs of
                   None \<Rightarrow> True
                 | Some panda2 \<Rightarrow> rp_version panda1 = rp_version panda2)))"

text \<open>
  \<open>__sortImportPackages\<close> pairs each package's version tuple with the value of the
  name \<open>file\<close>.  The method binds no such name, so it is Python's built-in type
  \<open>file\<close>.  The method sorts the pairs in reverse order and returns their second
  members; it does not touch the list it was given.  A package that is \<open>None\<close> or has
  no version raises.
\<close>

datatype py_builtin = BuiltinFile

fun versionTuples :: "req_package option list \<Rightarrow> error + (vword list \<times> py_builtin) list" where
  "versionTuples [] = Inr []"
| "versionTuples (package # rest) =
     (case package of
        None \<Rightarrow> Inl (AttributeError ''version'')
      | Some p \<Rightarrow>
          (case rp_version p of
             None \<Rightarrow> Inl (TypeError ''len'')
           | Some v \<Rightarrow>
               (case versionTuples rest of
                  Inl err \<Rightarrow> Inl err
                | Inr tuples \<Rightarrow> Inr ((makeVersionTuple v, BuiltinFile) # tuples))))"

text \<open>
  \<open>list.sort(reverse = True)\<close>: a stable sort into descending order.  The second
  members of the pairs are all the same object, so the first members decide.
\<close>

fun insert_reverse ::
  "vword list \<times> py_builtin \<Rightarrow> (vword list \<times> py_builtin) list \<Rightarrow> (vword list \<times> py_builtin) list"
where
  "insert_reverse x [] = [x]"
| "insert_reverse x (y # ys) =
     (if tuple_less (fst x) (fst y) then y # insert_reverse x ys else x # y # ys)"

definition sort_reverse :: "(vword list \<times> py_builtin) list \<Rightarrow> (vword list \<times> py_builtin) list" where
  "sort_reverse tuples = foldr insert_reverse tuples []"

definition sortImportPackages :: "req_package option list \<Rightarrow> error + py_builtin list" where
  "sortImportPackages pkgs =
     (case versionTuples pkgs of
        Inl err \<Rightarrow> Inl err
      | Inr tuples \<Rightarrow> Inr (map snd (sort_reverse tuples)))"

text \<open>The last loop of \<open>__scanPackageDir\<close>: the first package that is not \<open>None\<close> and valid.\<close>

fun firstValid :: "req_package option list \<Rightarrow> req_package list \<Rightarrow> req_package option" where
  "firstValid [] reqs = None"
| "firstValid (package # rest) reqs =
     (case package of
        None \<Rightarrow> firstValid rest reqs
      | Some p \<Rightarrow> if packageIsValid p reqs then Some p else firstValid rest reqs)"

text \<open>
  The packages that \<open>__scanPackageDir\<close> reads, in the order \<open>glob.glob\<close> lists
  their files.
\<close>

definition scanFilelist ::
  "env \<Rightarrow> string \<Rightarrow> string \<Rightarrow> string option \<Rightarrow> string option \<Rightarrow> string list" where
  "scanFilelist e rootDir pname platf vers =
     (let packageDir0 = Filename2 rootDir pname;
          packageDir1 = (case vers of
                           None \<Rightarrow> Filename2 packageDir0 ''*''
                         | Some v \<Rightarrow> if v = [] then Filename2 packageDir0 ''*''
                                     else Filename2 packageDir0 v);
          basename1 = (case vers of
                         None \<Rightarrow> pname @ ''.*''
                       | Some v \<Rightarrow> if v = [] then pname @ ''.*''
                                   else pname @ ''.'' @ v);
          packageDir2 = (case platf of
                           None \<Rightarrow> packageDir1
                         | Some pl \<Rightarrow> if pl = [] then packageDir1 else Filename2 packageDir1 pl);
          basename2 = (case platf of
                         None \<Rightarrow> basename1
                       | Some pl \<Rightarrow> if pl = [] then basename1 else basename1 @ ''.'' @ pl);
          basename3 = basename2 @ ''.import.xml'';
          filelist = fs_glob e (Filename2 packageDir2 basename3)
      in if filelist = [] then fs_glob e (Filename2 rootDir basename3) else filelist)"

definition scanPackageDir ::
  "env \<Rightarrow> string \<Rightarrow> string \<Rightarrow> string option \<Rightarrow> string option \<Rightarrow> string option
     \<Rightarrow> req_package list \<Rightarrow> error + req_package option" where
  "scanPackageDir e rootDir pname platf vers hst reqs =
     (let pkgs = map (readImportDesc e) (scanFilelist e rootDir pname platf vers)
      in case sortImportPackages pkgs of
           Inl err \<Rightarrow> Inl err
         | Inr discarded \<Rightarrow> Inr (firstValid pkgs reqs))"

text \<open>The loop of \<open>findPackage\<close> over the directories of the search list.\<close>

fun searchDirs ::
  "env \<Rightarrow> string list \<Rightarrow> string \<Rightarrow> string option \<Rightarrow> string option \<Rightarrow> string option
     \<Rightarrow> req_package list \<Rightarrow> error + req_package option" where
  "searchDirs e [] pname platf vers hst reqs = Inr None"
| "searchDirs e (dirname # rest) pname platf vers hst reqs =
     (case scanPackageDir e dirname pname platf vers hst reqs of
        Inl err \<Rightarrow> Inl err
      | Inr (Some package) \<Rightarrow> Inr (Some package)
      | Inr None \<Rightarrow>
          (case scanPackageDir e dirname pname None vers hst reqs of
             Inl err \<Rightarrow> Inl err
           | Inr (Some package) \<Rightarrow> Inr (Some package)
           | Inr None \<Rightarrow> searchDirs e rest pname platf vers hst reqs))"

definition key_of :: "req_package \<Rightarrow> pkg_key" where
  "key_of package =
     Key4 (rp_packageName package) (rp_platform package) (rp_version package) (rp_host package)"

text \<open>
  \<open>findPackage\<close> returns the package found (or \<open>None\<close>) and the packager with its
  cache \<open>packages\<close> updated, or the exception raised.
\<close>

definition findPackage ::
  "env \<Rightarrow> packager \<Rightarrow> string \<Rightarrow> string option \<Rightarrow> string option \<Rightarrow> string option
     \<Rightarrow> req_package list \<Rightarrow> error + (req_package option \<times> packager)" where
  "findPackage e self pname platf0 vers hst reqs =
     (let platf = (if \<not> truthy platf0 then Some (packager_platform self) else platf0)
      in case packages self (Key4 pname platf vers hst) of
           Some package \<Rightarrow> Inr (Some package, self)
         | None \<Rightarrow>
             (case searchDirs e (installSearch self) pname platf vers hst reqs of
                Inl err \<Rightarrow> Inl err
              | Inr found1 \<Rightarrow>
                  (case (case found1 of
                           None \<Rightarrow> findOnHost e pname platf vers hst
                         | Some package \<Rightarrow> Inr (Some package)) of
                     Inl err \<Rightarrow> Inl err
                   | Inr None \<Rightarrow> Inr (None, self)
                   | Inr (Some package) \<Rightarrow>
                       (let package1 = (case packages self (key_of package) of
                                          None \<Rightarrow> package
                                        | Some cached \<Rightarrow> cached);
                            packages1 = (packages self)(key_of package \<mapsto> package1)
                        in Inr (Some package1,
                                self\<lparr> packages :=
                                        packages1(Key4 pname platf vers hst \<mapsto> package1) \<rparr>)))))"

text \<open>\<open>Package.requirePackage\<close>: the package's own requirements first, then the package.\<close>

definition requireOne :: "package \<Rightarrow> req_package \<Rightarrow> package" where
  "requireOne self p2 =
     (if p2 \<notin> set (requires self)
      then self\<lparr> requires := requires self @ [p2],
                 skipFilenames := foldl (\<lambda>m fn. m(fn \<mapsto> True)) (skipFilenames self)
                                     (rp_targetFilenames p2),
                 skipModules := foldl (\<lambda>m (moduleName, mdef). m(moduleName \<mapsto> mdef))
                                     (skipModules self) (rp_moduleNames p2) \<rparr>
      else self)"

definition Package_requirePackage :: "package \<Rightarrow> req_package \<Rightarrow> package" where
  "Package_requirePackage self package = foldl requireOne self (rp_requires package @ [package])"

text \<open>
  The commands of the packager return the packager they leave behind and the exception
  they raised, if any.  \<open>mismatchWarnings\<close> are the warnings of
  \<open>Packager.requirePackage\<close> for a package named panda3d whose version, or else
  whose host, is not the one Panda3D was built with; the method goes on after logging.
\<close>

definition mismatchWarnings :: "env \<Rightarrow> req_package \<Rightarrow> notification list" where
  "mismatchWarnings e package =
     (if rp_packageName package = ''panda3d''
      then (if rp_version package \<noteq> Some (getPackageVersionString e)
            then [VersionMismatchWarning package (getPackageVersionString e)]
            else if rp_host package \<noteq> Some (getPackageHostUrl e)
            then [HostMismatchWarning package (getPackageHostUrl e)]
            else [])
      else [])"

definition requirePackage :: "env \<Rightarrow> packager \<Rightarrow> req_package \<Rightarrow> packager \<times> error option" where
  "requirePackage e self package =
     (case currentPackage self of
        None \<Rightarrow> (self, Some OutsideOfPackageError)
      | Some cur \<Rightarrow>
          (self\<lparr> notify := notify self @ mismatchWarnings e package,
                  currentPackage := Some (Package_requirePackage cur package) \<rparr>, None))"

text \<open>
  The keyword dictionary of \<open>do_require\<close> is a list of items with distinct keys.
  \<open>del kw[k]\<close> raises \<open>KeyError\<close> when the key is absent.
\<close>

definition py_del :: "(string \<times> string) list \<Rightarrow> string \<Rightarrow> error + (string \<times> string) list" where
  "py_del kw k =
     (if k \<in> fst ` set kw then Inr (filter (\<lambda>item. fst item \<noteq> k) kw) else Inl (KeyError k))"

text \<open>The loop \<open>for key in ['version', 'host']\<close>: whichever key is found, it deletes \<open>'version'\<close>.\<close>

fun require_cleanup :: "string list \<Rightarrow> (string \<times> string) list \<Rightarrow> error + (string \<times> string) list" where
  "require_cleanup [] kw = Inr kw"
| "require_cleanup (key # keys) kw =
     (if key \<in> fst ` set kw
      then (case py_del kw ''version'' of
              Inl err \<Rightarrow> Inl err
            | Inr kw1 \<Rightarrow> require_cleanup keys kw1)
      else require_cleanup keys kw)"

fun require_loop ::
  "env \<Rightarrow> packager \<Rightarrow> string option \<Rightarrow> string option \<Rightarrow> string list \<Rightarrow> packager \<times> error option"
where
  "require_loop e self vers hst [] = (self, None)"
| "require_loop e self vers hst (pname # rest) =
     (let pversion = (if pname = ''panda3d'' \<and> vers = None
                      then Some (getPackageVersionString e) else vers);
          phost = (if pname = ''panda3d'' \<and> hst = None
                   then Some (getPackageHostUrl e) else hst)
      in case currentPackage self of
           None \<Rightarrow> (self, Some (AttributeError ''requires''))
         | Some cur \<Rightarrow>
             (case findPackage e self pname None pversion phost (requires cur) of
                Inl err \<Rightarrow> (self, Some err)
              | Inr (None, self1) \<Rightarrow>
                  (self1, Some (PackagerError (''Unknown package '' @ pname
                                  @ '', version '' @ [CHR 0x22] @ py_str vers
                                  @ [CHR 0x22])))
              | Inr (Some package, self1) \<Rightarrow>
                  (case requirePackage e self1 package of
                     (self2, Some err) \<Rightarrow> (self2, Some err)
                   | (self2, None) \<Rightarrow> require_loop e self2 vers hst rest)))"

definition do_require ::
  "env \<Rightarrow> packager \<Rightarrow> string list \<Rightarrow> (string \<times> string) list \<Rightarrow> packager \<times> error option" where
  "do_require e self args kw =
     (case currentPackage self of
        None \<Rightarrow> (self, Some OutsideOfPackageError)
      | Some cur \<Rightarrow>
          (case require_cleanup [''version'', ''host''] kw of
             Inl err \<Rightarrow> (self, Some err)
           | Inr [] \<Rightarrow> require_loop e self (map_of kw ''version'') (map_of kw ''host'') args
           | Inr (item # items) \<Rightarrow>
               (self, Some (TypeError (''do_require() got an unexpected keyword argument ''
                                        @ [CHR 0x27] @ fst item @ [CHR 0x27])))))"

section \<open>Descriptor documents\<close>

text \<open>
  \<open>str(n)\<close> of a natural number and of an integer, and the string that
  \<open>__addConfigs\<close> writes for a config value: the value itself, \<open>str(int(v))\<close> of
  a truth value, \<open>str(v)\<close> of a number.
\<close>

definition digit_char :: "nat \<Rightarrow> char" where
  "digit_char n = char_of (48 + n)"

function str_nat :: "nat \<Rightarrow> string" where
  "str_nat n = (if n < 10 then [digit_char n] else str_nat (n div 10) @ [digit_char (n mod 10)])"
  by pat_completeness auto
termination
  by (relation "measure (\<lambda>n. n)") auto

definition str_int :: "int \<Rightarrow> string" where
  "str_int i = (if i < 0 then CHR ''-'' # str_nat (nat (- i)) else str_nat (nat i))"

definition config_string :: "config_value \<Rightarrow> string" where
  "config_string v =
     (case v of
        CStr s \<Rightarrow> s
      | CBool b \<Rightarrow> (if b then ''1'' else ''0'')
      | CInt i \<Rightarrow> str_int i)"

text \<open>
  The version of a package in a message (\<open>'%s' % version\<close>) and in a name:
  \<open>addTruthyValue s sep v\<close> is \<open>s\<close> after \<open>if v: s += sep + v\<close>, which raises
  \<open>TypeError\<close> when \<open>v\<close> is true and not a string.
\<close>

definition format_value :: "config_value option \<Rightarrow> string" where
  "format_value v =
     (case v of
        None \<Rightarrow> ''None''
      | Some (CStr s) \<Rightarrow> s
      | Some (CBool b) \<Rightarrow> (if b then ''True'' else ''False'')
      | Some (CInt i) \<Rightarrow> str_int i)"

definition type_name :: "config_value \<Rightarrow> string" where
  "type_name v = (case v of CStr s \<Rightarrow> ''str'' | CBool b \<Rightarrow> ''bool'' | CInt i \<Rightarrow> ''int'')"

definition addTruthyValue :: "string \<Rightarrow> string \<Rightarrow> config_value option \<Rightarrow> error + string" where
  "addTruthyValue s sep v =
     (case v of
        None \<Rightarrow> Inr s
      | Some c \<Rightarrow>
          if \<not> config_bool c then Inr s
          else (case c of
                  CStr t \<Rightarrow> Inr (s @ sep @ t)
                | _ \<Rightarrow> Inl (TypeError (''cannot concatenate '' @ [CHR 0x27] @ ''str''
                                       @ [CHR 0x27] @ '' and '' @ [CHR 0x27] @ type_name c
                                       @ [CHR 0x27] @ '' objects''))))"

text \<open>
  \<open>getFileSpec\<close>, \<open>__addConfigs\<close> and the loop over \<open>self.requires\<close> that the
  descriptor writers share.  \<open>setIfTruthy\<close> is \<open>if v: x.SetAttribute(k, v)\<close> for a
  string or \<open>None\<close>, \<open>setIfTruthyValue\<close> the same for the version of the package.
  Modelled from the spec: \<open>SetAttribute\<close> takes a string, or an integer that it writes
  in decimal, and a truth value is an integer.  The descriptor writers are reached
  with a version that is a string or false: \<open>installMultifile\<close> raises on any other
  when it builds the name of the package file.  The host of a required package that is
  \<open>None\<close> cannot be set as an attribute.
\<close>

definition getFileSpec :: "env \<Rightarrow> string \<Rightarrow> string \<Rightarrow> string \<Rightarrow> xml" where
  "getFileSpec e element pathname name =
     SetAttribute
       (SetAttribute
          (SetAttribute
             (SetAttribute (Element element [] []) ''filename'' name)
             ''size'' (str_nat (fs_getFileSize e pathname)))
          ''timestamp'' (str_nat (fs_getTimestamp e pathname)))
       ''hash'' (fs_hashFile e pathname)"

definition addConfigs :: "package \<Rightarrow> xml \<Rightarrow> xml" where
  "addConfigs self xpackage =
     (if configs self \<noteq> []
      then InsertEndChild xpackage
             (foldl (\<lambda>xconfig (variable, val). SetAttribute xconfig variable (config_string val))
                (Element ''config'' [] []) (configs self))
      else xpackage)"

definition setIfTruthy :: "xml \<Rightarrow> string \<Rightarrow> string option \<Rightarrow> xml" where
  "setIfTruthy x k v = (case v of None \<Rightarrow> x | Some s \<Rightarrow> if s = [] then x else SetAttribute x k s)"

definition setIfTruthyValue :: "xml \<Rightarrow> string \<Rightarrow> config_value option \<Rightarrow> xml" where
  "setIfTruthyValue x k v =
     (case v of
        None \<Rightarrow> x
      | Some c \<Rightarrow> if config_bool c then SetAttribute x k (config_string c) else x)"

fun addRequires :: "bool \<Rightarrow> req_package list \<Rightarrow> xml \<Rightarrow> error + xml" where
  "addRequires withPlatform [] xpackage = Inr xpackage"
| "addRequires withPlatform (package # rest) xpackage =
     (let x1 = SetAttribute (Element ''requires'' [] []) ''name'' (rp_packageName package);
          x2 = (if withPlatform then setIfTruthy x1 ''platform'' (rp_platform package) else x1);
          x3 = setIfTruthy x2 ''version'' (rp_version package)
      in case rp_host package of
           None \<Rightarrow> Inl (TypeError ''SetAttribute'')
         | Some h \<Rightarrow>
             addRequires withPlatform rest
               (InsertEndChild xpackage (SetAttribute x3 ''host'' h)))"

text \<open>
  \<open>list.sort()\<close>: a stable sort by the given order.  The extract table is a list of
  pairs of a name and an element, sorted by the name.
\<close>

fun insert_by :: "('a \<Rightarrow> 'a \<Rightarrow> bool) \<Rightarrow> 'a \<Rightarrow> 'a list \<Rightarrow> 'a list" where
  "insert_by lt x [] = [x]"
| "insert_by lt x (y # ys) = (if lt y x then y # insert_by lt x ys else x # y # ys)"

definition sort_by :: "('a \<Rightarrow> 'a \<Rightarrow> bool) \<Rightarrow> 'a list \<Rightarrow> 'a list" where
  "sort_by lt xs = foldr (insert_by lt) xs []"

text \<open>
  \<open>readDescFile\<close> assigns the patch-version counter and the list of patch records
  from the descriptor on disk, or \<open>'1'\<close> and the empty list.  \<open>writeDescFile\<close>
  returns the package (its extract table sorted) and the environment with the new
  document, or the exception raised.
\<close>

definition readDescFile :: "env \<Rightarrow> packager \<Rightarrow> package \<Rightarrow> package" where
  "readDescFile e pkgr self =
     (let self1 = self\<lparr> patchVersion := ''1'', patches := [] \<rparr>
      in case xmlFiles e (Filename2 (installDir pkgr) (packageDesc self)) of
           None \<Rightarrow> self1
         | Some doc \<Rightarrow>
             (case doc_FirstChildElement doc ''package'' of
                None \<Rightarrow> self1
              | Some xpackage \<Rightarrow>
                  (let pv0 = Attribute xpackage ''patch_version'';
                       pv = (if \<not> truthy pv0 then Attribute xpackage ''last_patch_version''
                             else pv0);
                       self2 = (case pv of
                                  None \<Rightarrow> self1
                                | Some v \<Rightarrow> if v = [] then self1
                                            else self1\<lparr> patchVersion := v \<rparr>)
                   in self2\<lparr> patches := childElements xpackage ''patch'' \<rparr>)))"

definition writeDescFile :: "env \<Rightarrow> packager \<Rightarrow> package \<Rightarrow> error + (package \<times> env)" where
  "writeDescFile e pkgr self =
     (let x1 = SetAttribute (Element ''package'' [] []) ''name'' (packageName self);
          x2 = setIfTruthy x1 ''platform'' (platform self);
          x3 = setIfTruthyValue x2 ''version'' (version self);
          x4 = SetAttribute x3 ''last_patch_version'' (patchVersion self);
          x5 = addConfigs self x4
      in case addRequires (truthy (platform self)) (requires self) x5 of
           Inl err \<Rightarrow> Inl err
         | Inr x6 \<Rightarrow>
             (let x7 = InsertEndChild x6
                         (getFileSpec e ''uncompressed_archive'' (packageFullpath self)
                            (packageBasename self));
                  x8 = InsertEndChild x7
                         (getFileSpec e ''compressed_archive'' (packageFullpath self @ ''.pz'')
                            (packageBasename self @ ''.pz''));
                  x9 = (if fs_exists e (packageFullpath self @ ''.base'')
                        then InsertEndChild x8
                               (getFileSpec e ''base_version'' (packageFullpath self @ ''.base'')
                                  (packageBasename self @ ''.base''))
                        else x8);
                  x10 = foldl InsertEndChild x9 (patches self);
                  sorted_extracts = sort_by (\<lambda>a b. py_str_less (fst a) (fst b)) (extracts self);
                  x11 = foldl InsertEndChild x10 (map snd sorted_extracts)
              in Inr (self\<lparr> extracts := sorted_extracts \<rparr>,
                      e\<lparr> xmlFiles := (xmlFiles e)
                            (Filename2 (installDir pkgr) (packageDesc self)
                               \<mapsto> [Declaration ''1.0'' ''utf-8'' [], ElementNode x11]) \<rparr>)))"

text \<open>
  \<open>addComponent\<close> is the only place where the extract table grows; the element it
  adds is built by \<open>getFileSpec('extract', ...)\<close>.  \<open>extracts_wf\<close> says that the
  table holds such elements.
\<close>

definition addComponent :: "env \<Rightarrow> package \<Rightarrow> PackFile \<Rightarrow> package" where
  "addComponent e self file =
     (let compressionLevel1 = (if compress file then compressionLevel self else 0);
          self1 = self\<lparr> multifile := multifile self @ [(newName file, compressionLevel1)] \<rparr>;
          self2 = (if extractFlag file
                   then self1\<lparr> extracts := extracts self1 @
                            [(py_lower (newName file),
                              getFileSpec e ''extract'' (filename file) (newName file))] \<rparr>
                   else self1)
      in self2\<lparr> components := components self2 @
            [(''c'', py_lower (newName file),
              SetAttribute (Element ''component'' [] []) ''filename'' (newName file))] \<rparr>)"

definition extracts_wf :: "package \<Rightarrow> bool" where
  "extracts_wf p = list_all (\<lambda>item. tag (snd item) = ''extract'') (extracts p)"

section \<open>Closing a package\<close>

text \<open>
  \<open>Package.close\<close> and the two ways it installs a package.  They return the
  environment, the packager and the package they leave behind, and the exception
  raised, if any.  Creating a directory is not recorded as a change of the
  environment.

  \<open>Filename.temporary\<close> names a file that does not exist, and
  \<open>Multifile.openReadWrite\<close> creates it: an archive with no subfiles
  (\<open>openReadWrite\<close>).  The subfiles are written to it by \<open>repack\<close>, and it is moved
  into the install directory at the end; it stays behind when a step in between
  raises.  A rename that fails leaves the environment as it was.
\<close>

type_synonym build_state = "env \<times> packager \<times> package"

definition openReadWrite :: "env \<Rightarrow> string \<Rightarrow> env" where
  "openReadWrite e f = e\<lparr> fs_exists := (fs_exists e)(f := True),
                          multifiles := (multifiles e)(f \<mapsto> []) \<rparr>"

definition repack :: "env \<Rightarrow> string \<Rightarrow> (string \<times> nat) list \<Rightarrow> env" where
  "repack e f subfiles = e\<lparr> fs_exists := (fs_exists e)(f := True),
                            multifiles := (multifiles e)(f \<mapsto> subfiles) \<rparr>"

definition unlink :: "env \<Rightarrow> string \<Rightarrow> env" where
  "unlink e f = e\<lparr> fs_exists := (fs_exists e)(f := False),
                   multifiles := (multifiles e)(f := None),
                   xmlFiles := (xmlFiles e)(f := None) \<rparr>"

definition renameTo :: "env \<Rightarrow> string \<Rightarrow> string \<Rightarrow> env" where
  "renameTo e a b = e\<lparr> fs_exists := (fs_exists e)(a := False, b := True),
                       multifiles := (multifiles e)(b := multifiles e a, a := None),
                       xmlFiles := (xmlFiles e)(b := xmlFiles e a, a := None) \<rparr>"

definition cleanup :: "env \<Rightarrow> package \<Rightarrow> env" where
  "cleanup e self =
     foldl (\<lambda>e1 file. if deleteTemp file then unlink e1 (filename file) else e1) e (files self)"

fun platformSpecificFiles ::
  "env \<Rightarrow> packager \<Rightarrow> package \<Rightarrow> PackFile list \<Rightarrow> bool \<Rightarrow> error + bool" where
  "platformSpecificFiles e pkgr self [] acc = Inr acc"
| "platformSpecificFiles e pkgr self (file # rest) acc =
     (case isExcluded e pkgr self file of
        Inl err \<Rightarrow> Inl err
      | Inr excluded \<Rightarrow>
          platformSpecificFiles e pkgr self rest
            (if \<not> excluded \<and> platformSpecific file then True else acc))"

definition considerPlatform :: "env \<Rightarrow> packager \<Rightarrow> package \<Rightarrow> error + package" where
  "considerPlatform e pkgr self =
     (case platformSpecificConfig self of
        None \<Rightarrow> Inl (AttributeError ''platformSpecificConfig'')
      | Some cfg \<Rightarrow>
          (case platformSpecificFiles e pkgr self (files self) (cfg = Some True) of
             Inl err \<Rightarrow> Inl err
           | Inr specific \<Rightarrow>
               Inr (if specific \<and> cfg \<noteq> Some False \<and> \<not> truthy (platform self)
                    then self\<lparr> platform := Some (getPlatform e) \<rparr>
                    else self)))"

fun notExcluded :: "env \<Rightarrow> packager \<Rightarrow> package \<Rightarrow> PackFile list \<Rightarrow> error + PackFile list" where
  "notExcluded e pkgr self [] = Inr []"
| "notExcluded e pkgr self (file # rest) =
     (case isExcluded e pkgr self file of
        Inl err \<Rightarrow> Inl err
      | Inr excluded \<Rightarrow>
          (case notExcluded e pkgr self rest of
             Inl err \<Rightarrow> Inl err
           | Inr kept \<Rightarrow> Inr (if excluded then kept else file # kept)))"

definition withTruthy :: "string \<Rightarrow> string \<Rightarrow> string option \<Rightarrow> string" where
  "withTruthy s sep v = (case v of None \<Rightarrow> s | Some t \<Rightarrow> if t = [] then s else s @ sep @ t)"

definition installSolo :: "env \<Rightarrow> packager \<Rightarrow> package \<Rightarrow> build_state \<times> error option" where
  "installSolo e pkgr self =
     (case considerPlatform e pkgr self of
        Inl err \<Rightarrow> ((e, pkgr, self), Some err)
      | Inr self1 \<Rightarrow>
          (case addTruthyValue (withTruthy (packageName self1) ''/'' (platform self1))
                  ''/'' (version self1) of
             Inl err \<Rightarrow> ((e, pkgr, self1), Some err)
           | Inr packageDir \<Rightarrow>
          (let installPath = Filename2 (installDir pkgr) packageDir;
               e1 = foldl unlink e (fs_scanDirectory e installPath)
           in case notExcluded e1 pkgr self1 (files self1) of
                Inl err \<Rightarrow> ((e1, pkgr, self1), Some err)
              | Inr [] \<Rightarrow> ((e1, pkgr, self1), None)
              | Inr [file] \<Rightarrow>
                  (let targetPath = Filename2 installPath (newName file);
                       copied = fs_copyOk e1 (filename file) targetPath;
                       e2 = (if copied then e1\<lparr> fs_exists := (fs_exists e1)(targetPath := True) \<rparr>
                             else e1);
                       pe = \<lparr> pe_packageName = packageName self1, pe_platform = platform self1,
                              pe_version = version self1, pe_solo = True,
                              pe_descFile = Filename2 packageDir (newName file),
                              pe_importDescFile = None \<rparr>;
                       pkgr1 = pkgr\<lparr> notify := notify pkgr @
                                 (if copied then []
                                  else [Warning (''Could not copy '' @ filename file @ '' to ''
                                                 @ targetPath)]),
                               contents := (contents pkgr)
                                 ((packageName self1, platform self1, version self1) \<mapsto> pe),
                               contentsChanged := True \<rparr>
                   in ((cleanup e2 self1, pkgr1, self1), None))
              | Inr (file # file2 # others) \<Rightarrow>
                  ((e1, pkgr, self1),
                   Some (PackagerError (''Multiple files in '' @ [CHR 0x22] @ ''solo''
                           @ [CHR 0x22] @ '' package '' @ packageName self1))))))"

text \<open>
  The first loop of \<open>installMultifile\<close>, which hands the dc and py files to the
  freezer.  \<open>rsplit1_head sep s\<close> is Python's \<open>s.rsplit(sep, 1)[0]\<close>.
\<close>

definition rsplit1_head :: "char \<Rightarrow> string \<Rightarrow> string" where
  "rsplit1_head sep s =
     (if sep \<in> set s then rev (tl (dropWhile (\<lambda>c. c \<noteq> sep) (rev s))) else s)"

definition endswith :: "string \<Rightarrow> string \<Rightarrow> bool" where
  "endswith s suffix = (length suffix \<le> length s \<and> drop (length s - length suffix) s = suffix)"

definition addModule :: "string list \<Rightarrow> string \<Rightarrow> string list" where
  "addModule modules m = (if m \<in> set modules then modules else modules @ [m])"

definition addPyFile :: "package \<Rightarrow> PackFile \<Rightarrow> package" where
  "addPyFile self file =
     (let name1 = rsplit1_head CHR ''.'' (newName file);
          moduleName0 = map (\<lambda>c. if c = CHR ''/'' then CHR ''.'' else c) name1;
          moduleName = (if endswith moduleName0 ''.__init__''
                        then rsplit1_head CHR ''.'' moduleName0 else moduleName0)
      in if moduleName \<in> set (freezerModules self) then self
         else self\<lparr> freezerModules := freezerModules self @ [moduleName] \<rparr>)"

fun scanModules ::
  "env \<Rightarrow> packager \<Rightarrow> package \<Rightarrow> PackFile list \<Rightarrow> package \<times> error option" where
  "scanModules e pkgr self [] = (self, None)"
| "scanModules e pkgr self (file # rest) =
     (case isExcluded e pkgr self file of
        Inl err \<Rightarrow> (self, Some err)
      | Inr excluded \<Rightarrow>
          if excluded then scanModules e pkgr self rest
          else if unprocessed file then scanModules e pkgr self rest
          else if getExtension (newName file) = ''dc''
          then (case dcImportModules e (filename file) of
                  None \<Rightarrow>
                    (self, Some (StandardError (''Unable to parse '' @ filename file @ ''.'')))
                | Some names \<Rightarrow>
                    scanModules e pkgr
                      (self\<lparr> freezerModules := foldl addModule (freezerModules self) names \<rparr>)
                      rest)
          else if getExtension (newName file) = ''py''
          then scanModules e pkgr (addPyFile self file) rest
          else scanModules e pkgr self rest)"

text \<open>
  \<open>makeP3dInfo\<close> adds the subfile \<open>p3d_info.xml\<close>; \<open>writeImportDescFile\<close> writes
  the import descriptor with the sorted component table; \<open>publishMultifile\<close> is the
  branch of \<open>installMultifile\<close> for a package that is not an application;
  \<open>finishMultifile\<close> is \<open>installMultifile\<close> from \<open>considerPlatform\<close> on.
\<close>

definition makeP3dInfo :: "package \<Rightarrow> error + package" where
  "makeP3dInfo self =
     (case mainModule self of
        None \<Rightarrow> Inl (TypeError ''mainModule'')
      | Some main \<Rightarrow>
          (let x1 = SetAttribute (Element ''package'' [] []) ''name'' (packageName self);
               x2 = setIfTruthy x1 ''platform'' (platform self);
               x3 = setIfTruthyValue x2 ''version'' (version self);
               x4 = SetAttribute x3 ''main_module'' (snd main);
               x5 = addConfigs self x4
           in case addRequires False (requires self) x5 of
                Inl err \<Rightarrow> Inl err
              | Inr x6 \<Rightarrow> Inr (self\<lparr> multifile := multifile self @ [(''p3d_info.xml'', 0)] \<rparr>)))"

definition component_less :: "string \<times> string \<times> xml \<Rightarrow> string \<times> string \<times> xml \<Rightarrow> bool" where
  "component_less a b =
     (py_str_less (fst a) (fst b)
      \<or> (fst a = fst b \<and> py_str_less (fst (snd a)) (fst (snd b))))"

definition writeImportDescFile :: "env \<Rightarrow> packager \<Rightarrow> package \<Rightarrow> error + (package \<times> env)" where
  "writeImportDescFile e pkgr self =
     (let x1 = SetAttribute (Element ''package'' [] []) ''name'' (packageName self);
          x2 = setIfTruthy x1 ''platform'' (platform self);
          x3 = setIfTruthyValue x2 ''version'' (version self)
      in case host self of
           None \<Rightarrow> Inl (TypeError ''SetAttribute'')
         | Some h \<Rightarrow>
             (case addRequires (truthy (platform self)) (requires self)
                     (SetAttribute x3 ''host'' h) of
                Inl err \<Rightarrow> Inl err
              | Inr x5 \<Rightarrow>
                  (let sorted_components = sort_by component_less (components self);
                       x6 = foldl InsertEndChild x5 (map (\<lambda>c. snd (snd c)) sorted_components)
                   in Inr (self\<lparr> components := sorted_components \<rparr>,
                           e\<lparr> xmlFiles := (xmlFiles e)
                                 (Filename2 (installDir pkgr) (packageImportDesc self)
                                    \<mapsto> [Declaration ''1.0'' ''utf-8'' [], ElementNode x6]) \<rparr>))))"

definition publishMultifile :: "env \<Rightarrow> packager \<Rightarrow> package \<Rightarrow> build_state \<times> error option" where
  "publishMultifile e pkgr self =
     (let compressedPath = Filename2 (installDir pkgr) (packageFilename self @ ''.pz'')
      in if \<not> fs_compressOk e (packageFullpath self) compressedPath
         then ((e, pkgr, self), Some (PackagerError (''Unable to write '' @ compressedPath)))
         else (let e1 = e\<lparr> fs_exists := (fs_exists e)(compressedPath := True) \<rparr>;
                   self1 = readDescFile e1 pkgr self
               in case writeDescFile e1 pkgr self1 of
                    Inl err \<Rightarrow> ((e1, pkgr, self1), Some err)
                  | Inr (self2, e2) \<Rightarrow>
                      (case writeImportDescFile e2 pkgr self2 of
                         Inl err \<Rightarrow> ((e2, pkgr, self2), Some err)
                       | Inr (self3, e3) \<Rightarrow>
                           (let pe = \<lparr> pe_packageName = packageName self3,
                                       pe_platform = platform self3,
                                       pe_version = version self3, pe_solo = False,
                                       pe_descFile = packageDesc self3,
                                       pe_importDescFile = Some (packageImportDesc self3) \<rparr>;
                                pkgr1 = pkgr\<lparr> contents := (contents pkgr)
                                          ((packageName self3, platform self3, version self3)
                                             \<mapsto> pe),
                                        contentsChanged := True \<rparr>
                            in ((cleanup e3 self3, pkgr1, self3), None)))))"

definition finishMultifile ::
  "env \<Rightarrow> packager \<Rightarrow> package \<Rightarrow> string \<Rightarrow> build_state \<times> error option" where
  "finishMultifile e pkgr self multifileFilename =
     (case considerPlatform e pkgr self of
        Inl err \<Rightarrow> ((e, pkgr, self), Some err)
      | Inr self1 \<Rightarrow>
          (case addTruthyValue (packageName self1) ''.'' (version self1) of
             Inl err \<Rightarrow> ((e, pkgr, self1\<lparr> packageBasename := packageName self1 \<rparr>), Some err)
           | Inr basev \<Rightarrow>
          (case addTruthyValue (packageName self1) ''/'' (version self1) of
             Inl err \<Rightarrow> ((e, pkgr, self1\<lparr> packageBasename := basev \<rparr>), Some err)
           | Inr dirv \<Rightarrow>
          (let app = p3dApplication self1;
               base0 = withTruthy basev ''.'' (platform self1);
               dir0 = withTruthy dirv ''/'' (platform self1);
               base1 = (if app then base0 @ ''.p3d'' else base0 @ ''.mf'');
               dir1 = (if app then [] else dir0 @ ''/'');
               self2 = self1\<lparr> packageBasename := base1,
                              packageDesc := dir1 @ base0 @ ''.xml'',
                              packageImportDesc := dir1 @ base0 @ ''.import.xml'',
                              packageFilename := dir1 @ base1,
                              packageFullpath := Filename2 (installDir pkgr) (dir1 @ base1) \<rparr>
           in case (if app then makeP3dInfo self2 else Inr self2) of
                Inl err \<Rightarrow> ((e, pkgr, self2), Some err)
              | Inr self3 \<Rightarrow>
                  (let full = packageFullpath self3;
                       e1 = repack e multifileFilename (multifile self3);
                       e2 = (if \<not> app \<and> \<not> fs_exists e1 (full @ ''.base'') \<and> fs_exists e1 full
                                \<and> fs_renameOk e1 full (full @ ''.base'')
                             then renameTo e1 full (full @ ''.base'') else e1)
                   in if \<not> fs_renameOk e2 multifileFilename full
                      then ((e2, pkgr, self3),
                            Some (StandardError (''Cannot move '' @ multifileFilename @ '' to ''
                                                 @ full)))
                      else (let e3 = renameTo e2 multifileFilename full
                            in if app then ((cleanup e3 self3, pkgr, self3), None)
                               else publishMultifile e3 pkgr self3))))))"

text \<open>
  \<open>installMultifile\<close> up to the main-module step.  The check of the main module
  comes after the temporary Multifile is opened and the dc and py files are scanned.
\<close>

definition installMultifile :: "env \<Rightarrow> packager \<Rightarrow> package \<Rightarrow> build_state \<times> error option" where
  "installMultifile e pkgr self =
     (let self0 = self\<lparr> multifile := [],
                         multifileHeader := (if p3dApplication self
                                             then ''#! /usr/bin/env panda3d'' @ [CHR 0x0A] else []) \<rparr>;
          multifileFilename = fs_temporary e (packageName self @ ''.'') ''.mf'';
          e1 = openReadWrite e multifileFilename;
          self1 = self0\<lparr> extracts := [], components := [] \<rparr>
      in case scanModules e1 pkgr self1 (files self1) of
           (self2, Some err) \<Rightarrow> ((e1, pkgr, self2), Some err)
         | (self2, None) \<Rightarrow>
             if mainModule self2 = None \<and> p3dApplication self2
             then ((e1, pkgr, self2),
                   Some (PackagerError (''No main_module specified for application ''
                                         @ packageName self2)))
             else (let self3 = (case mainModule self2 of
                                  None \<Rightarrow> self2
                                | Some main \<Rightarrow>
                                    self2\<lparr> freezerModules :=
                                             addModule (freezerModules self2) (snd main) \<rparr>)
                   in case assembleContents e1 self3 of
                        Inl msg \<Rightarrow> ((e1, pkgr, self3), Some (StandardError msg))
                      | Inr self4 \<Rightarrow> finishMultifile e1 pkgr self4 multifileFilename))"

text \<open>
  The steps of \<open>Package.close\<close>: the host and the two config variables
  (\<open>closeConfigs\<close>), the version of the panda3d package (\<open>closeVersion\<close>), the
  implicit requirement of an application (\<open>closeRequire\<close>), the inherited version
  and the choice of the install method (\<open>closeInstall\<close>).  The package being closed
  is the packager's current package: \<open>endPackage\<close>, the only caller, closes
  \<open>self.currentPackage\<close>.
\<close>

definition closeConfigs :: "packager \<Rightarrow> package \<Rightarrow> package" where
  "closeConfigs pkgr self =
     (let self1 = (if \<not> truthy (host self) then self\<lparr> host := Some (packager_host pkgr) \<rparr>
                   else self);
          self2 = (case map_of (configs self1) ''version'' of
                     None \<Rightarrow> self1
                   | Some v \<Rightarrow>
                       self1\<lparr> version := Some v,
                              configs := filter (\<lambda>item. fst item \<noteq> ''version'') (configs self1) \<rparr>)
      in case map_of (configs self2) ''platform_specific'' of
           None \<Rightarrow> self2\<lparr> platformSpecificConfig := Some None \<rparr>
         | Some v \<Rightarrow>
             self2\<lparr> platformSpecificConfig := Some (Some (config_bool v)),
                    configs := filter (\<lambda>item. fst item \<noteq> ''platform_specific'')
                                 (configs self2) \<rparr>)"

definition inheritVersion :: "package \<Rightarrow> package" where
  "inheritVersion self =
     (if \<not> p3dApplication self \<and> \<not> truthy_value (version self)
      then (case find (\<lambda>p2. rp_packageName p2 = ''panda3d'' \<and> truthy (rp_version p2))
                   (requires self) of
              None \<Rightarrow> self
            | Some p2 \<Rightarrow> self\<lparr> version := map_option CStr (rp_version p2) \<rparr>)
      else self)"

definition closeRequire :: "env \<Rightarrow> packager \<Rightarrow> package \<Rightarrow> packager \<times> error option" where
  "closeRequire e pkgr self =
     (if p3dApplication self
      then do_require e (pkgr\<lparr> currentPackage := Some (self\<lparr> compressionLevel := 6 \<rparr>) \<rparr>)
             [''panda3d''] []
      else (pkgr\<lparr> currentPackage := Some self \<rparr>, None))"

definition closeVersion :: "env \<Rightarrow> package \<Rightarrow> package" where
  "closeVersion e self =
     (if packageName self = ''panda3d'' \<and> version self = None
      then self\<lparr> version := Some (CStr (getPackageVersionString e)) \<rparr> else self)"

definition closeInstall ::
  "env \<Rightarrow> package \<Rightarrow> packager \<times> error option \<Rightarrow> build_state \<times> error option" where
  "closeInstall e self required =
     (case required of
        (pkgr1, Some err) \<Rightarrow>
          ((e, pkgr1, case currentPackage pkgr1 of None \<Rightarrow> self | Some cur \<Rightarrow> cur), Some err)
      | (pkgr1, None) \<Rightarrow>
          (let self6 = inheritVersion
                         (case currentPackage pkgr1 of None \<Rightarrow> self | Some cur \<Rightarrow> cur)
           in if solo self6 then installSolo e pkgr1 self6
              else installMultifile e pkgr1 self6))"

definition Package_close :: "env \<Rightarrow> packager \<Rightarrow> package \<Rightarrow> build_state \<times> error option" where
  "Package_close e pkgr self =
     (let self4 = closeVersion e (closeConfigs pkgr self)
      in if packageName self4 = ''panda3d''
            \<and> version self4 \<noteq> Some (CStr (getPackageVersionString e))
         then ((e, pkgr, self4),
               Some (PackagerError (''mismatched Panda3D version: requested ''
                       @ format_value (version self4) @ '', but Panda3D is built as ''
                       @ getPackageVersionString e)))
         else if packageName self4 = ''panda3d'' \<and> host self4 \<noteq> Some (getPackageHostUrl e)
         then ((e, pkgr, self4),
               Some (PackagerError (''mismatched Panda3D host: requested ''
                       @ py_str (host self4) @ '', but Panda3D is built as ''
                       @ getPackageHostUrl e)))
         else closeInstall e self4 (closeRequire e pkgr self4))"

section \<open>Predicates of the statements\<close>

text \<open>
  \<open>same_declaration a b\<close>: the two packages agree on what the package definition
  declared.  \<open>mainModuleError name\<close> is the exception of the main-module check;
  \<open>otherError\<close> holds of every other exception.
\<close>

definition same_declaration :: "package \<Rightarrow> package \<Rightarrow> bool" where
  "same_declaration a b =
     (packageName b = packageName a \<and> p3dApplication b = p3dApplication a \<and> solo b = solo a
      \<and> mainModule b = mainModule a \<and> files b = files a)"

definition mainModuleError :: "string \<Rightarrow> error" where
  "mainModuleError name = PackagerError (''No main_module specified for application '' @ name)"

definition otherError :: "error \<Rightarrow> bool" where
  "otherError err = (\<forall>name. err \<noteq> mainModuleError name)"

section \<open>An example environment\<close>

text \<open>
  A small file system on a Linux host, used to run the model on concrete inputs.  Its
  glob matcher knows \<open>*\<close> and \<open>?\<close>.
\<close>

fun glob_match :: "string \<Rightarrow> string \<Rightarrow> bool" where
  "glob_match [] s = (s = [])"
| "glob_match (p # ps) [] = (p = CHR ''*'' \<and> glob_match ps [])"
| "glob_match (p # ps) (c # s) =
     (if p = CHR ''*'' then glob_match ps (c # s) \<or> glob_match (p # ps) s
      else (p = CHR ''?'' \<or> p = c) \<and> glob_match ps s)"

definition example_env :: env where
  "example_env =
     \<lparr> fs_exists = (\<lambda>f. f \<in> set [''/src/readme.txt'', ''/src/notes.txt'', ''/src/a.txt'',
                                   ''/src/b.txt'', ''/data/music.ogg.pz'']),
       fs_resolveFilename = (\<lambda>path f. f),
       fs_makeTrueCase = (\<lambda>f. f),
       fs_makeCanonical = (\<lambda>f. f),
       fs_glob = (\<lambda>pattern. []),
       fs_scanDirectory = (\<lambda>d. []),
       fs_temporary = (\<lambda>prefix suffix. ''/tmp/'' @ prefix @ ''0'' @ suffix),
       fs_getFileSize = (\<lambda>f. 1024),
       fs_getTimestamp = (\<lambda>f. 1257894000),
       fs_hashFile = (\<lambda>f. ''d41d8cd98f00b204e9800998ecf8427e''),
       fs_renameOk = (\<lambda>a b. True),
       fs_copyOk = (\<lambda>a b. True),
       fs_compressOk = (\<lambda>a b. True),
       xmlFiles = Map.empty,
       multifiles = Map.empty,
       dcImportModules = (\<lambda>f. Some []),
       assembleContents = (\<lambda>p. Inr p),
       glob_matches = (\<lambda>pat cs s. if cs then glob_match pat s
                                   else glob_match (py_lower pat) (py_lower s)),
       getPlatform = ''linux_i386'',
       getPackageVersionString = ''1.7.0'',
       getPackageHostUrl = ''http://runtime.panda3d.org/'',
       pdefPath = [],
       searchPathDirs = (\<lambda>v. []),
       pnmExtensions = [''png'', ''jpg''],
       readImportDesc = (\<lambda>f. None),
       findOnHost = (\<lambda>n p v h. Inr None) \<rparr>"

definition example_packager :: packager where
  "example_packager = Packager_init example_env ''/install''"

definition kw_music :: packfile_args where
  "kw_music = default_args\<lparr> a_newName := Some ''audio/music.ogg.pz'', a_explicit := True \<rparr>"

definition kw_a :: packfile_args where
  "kw_a = default_args\<lparr> a_newName := Some ''a.txt'', a_explicit := True \<rparr>"

definition file_a :: PackFile where
  "file_a = \<lparr> filename = ''/src/a.txt'', newName = ''a.txt'', deleteTemp = False,
       explicit = True, compress = True, extractFlag = False, fileText = None,
       unprocessed = False, executable = False, platformSpecific = False \<rparr>"

definition pkg_a :: package where
  "pkg_a = (Package_init ''demo'')
     \<lparr> files := [file_a],
       sourceFilenames := [''/src/a.txt'' \<mapsto> file_a],
       targetFilenames := [''a.txt'' \<mapsto> file_a] \<rparr>"

definition kw_readme :: packfile_args where
  "kw_readme = default_args\<lparr> a_newName := Some ''readme.txt'', a_explicit := True \<rparr>"

definition kw_notes :: packfile_args where
  "kw_notes = default_args\<lparr> a_newName := Some ''notes.txt'', a_explicit := False \<rparr>"

definition pkg_excl :: package where
  "pkg_excl = (Package_init ''demo'')
     \<lparr> excludedFilenames := [ExcludeFilename_init example_env ''*.txt''],
       platformSpecificConfig := Some None \<rparr>"

definition models_1_0 :: req_package where
  "models_1_0 = ReqPackage ''models'' (Some ''linux_i386'') (Some ''1.0'')
                  (Some ''http://runtime.panda3d.org/'') [] [] []"

definition models_2_0 :: req_package where
  "models_2_0 = ReqPackage ''models'' (Some ''linux_i386'') (Some ''2.0'')
                  (Some ''http://runtime.panda3d.org/'') [] [] []"

definition panda3d_1_0 :: req_package where
  "panda3d_1_0 = ReqPackage ''panda3d'' (Some ''linux_i386'') (Some ''1.0'')
                  (Some ''http://runtime.panda3d.org/'') [] [] []"

definition panda3d_1_7_0 :: req_package where
  "panda3d_1_7_0 = ReqPackage ''panda3d'' (Some ''linux_i386'') (Some ''1.7.0'')
                  (Some ''http://runtime.panda3d.org/'') [] [] []"

definition search_env :: env where
  "search_env = example_env
     \<lparr> fs_glob := (\<lambda>pattern.
          if pattern = ''/pkgs/models/*/linux_i386/models.*.linux_i386.import.xml''
          then [''/pkgs/models/1.0/linux_i386/models.1.0.linux_i386.import.xml'',
                ''/pkgs/models/2.0/linux_i386/models.2.0.linux_i386.import.xml'']
          else if pattern = ''/pkgs/panda3d/1.0/linux_i386/panda3d.1.0.linux_i386.import.xml''
          then [''/pkgs/panda3d/1.0/linux_i386/panda3d.1.0.linux_i386.import.xml'']
          else if pattern = ''/pkgs/panda3d/1.7.0/linux_i386/panda3d.1.7.0.linux_i386.import.xml''
          then [''/pkgs/panda3d/1.7.0/linux_i386/panda3d.1.7.0.linux_i386.import.xml'']
          else []),
       pdefPath := [''/pkgs''],
       dcImportModules := (\<lambda>f.
          if f = ''/src/viewer.dc'' then Some [''direct.distributed.DistributedObject'']
          else None),
       readImportDesc := (\<lambda>f.
          if f = ''/pkgs/models/1.0/linux_i386/models.1.0.linux_i386.import.xml''
          then Some models_1_0
          else if f = ''/pkgs/models/2.0/linux_i386/models.2.0.linux_i386.import.xml''
          then Some models_2_0
          else if f = ''/pkgs/panda3d/1.0/linux_i386/panda3d.1.0.linux_i386.import.xml''
          then Some panda3d_1_0
          else if f = ''/pkgs/panda3d/1.7.0/linux_i386/panda3d.1.7.0.linux_i386.import.xml''
          then Some panda3d_1_7_0
          else None) \<rparr>"

definition search_packager :: packager where
  "search_packager = (Packager_init search_env ''/install'')
     \<lparr> currentPackage := Some (Package_init ''app'') \<rparr>"

definition search_packager_1_0 :: packager where
  "search_packager_1_0 = search_packager
     \<lparr> packages :=
         [Key4 ''panda3d'' (Some ''linux_i386'') (Some ''1.0'') (Some ''http://runtime.panda3d.org/'')
            \<mapsto> panda3d_1_0] \<rparr>"

definition search_packager_1_7_0 :: packager where
  "search_packager_1_7_0 = search_packager
     \<lparr> packages :=
         [Key4 ''panda3d'' (Some ''linux_i386'') (Some ''1.7.0'') (Some ''http://runtime.panda3d.org/'')
            \<mapsto> panda3d_1_7_0] \<rparr>"

definition old_descriptor :: "xml_node list" where
  "old_descriptor =
     [Declaration ''1.0'' ''utf-8'' [],
      ElementNode
        (Element ''package'' [(''name'', ''models''), (''last_patch_version'', ''3'')]
           [Element ''uncompressed_archive'' [(''filename'', ''models.mf'')] [],
            Element ''patch'' [(''filename'', ''models.1.patch'')] [],
            Element ''extract'' [(''filename'', ''a.txt'')] [],
            Element ''patch'' [(''filename'', ''models.2.patch'')] []])]"

definition desc_env :: env where
  "desc_env = example_env\<lparr> xmlFiles := [''/install/models/models.xml'' \<mapsto> old_descriptor] \<rparr>"

definition pkg_models :: package where
  "pkg_models = (Package_init ''models'')
     \<lparr> extracts := [(''a.txt'', Element ''extract'' [(''filename'', ''a.txt'')] [])],
       packageBasename := ''models.mf'',
       packageDesc := ''models/models.xml'',
       packageFullpath := ''/install/models/models.mf'' \<rparr>"

definition pkg_models_3 :: package where
  "pkg_models_3 = pkg_models
     \<lparr> patchVersion := ''3'',
       patches := [Element ''patch'' [(''filename'', ''models.1.patch'')] [],
                   Element ''patch'' [(''filename'', ''models.2.patch'')] []] \<rparr>"

definition file_main_py :: PackFile where
  "file_main_py = \<lparr> filename = ''/src/main.py'', newName = ''main.py'', deleteTemp = False,
       explicit = True, compress = True, extractFlag = False, fileText = None,
       unprocessed = False, executable = False, platformSpecific = False \<rparr>"

definition file_viewer_dc :: PackFile where
  "file_viewer_dc = \<lparr> filename = ''/src/viewer.dc'', newName = ''viewer.dc'', deleteTemp = False,
       explicit = True, compress = True, extractFlag = False, fileText = None,
       unprocessed = False, executable = False, platformSpecific = False \<rparr>"

definition viewer_app :: package where
  "viewer_app = (Package_init ''viewer'')
     \<lparr> p3dApplication := True,
       files := [file_main_py, file_viewer_dc],
       sourceFilenames := [''/src/main.py'' \<mapsto> file_main_py, ''/src/viewer.dc'' \<mapsto> file_viewer_dc],
       targetFilenames := [''main.py'' \<mapsto> file_main_py, ''viewer.dc'' \<mapsto> file_viewer_dc] \<rparr>"

definition viewer_solo :: package where
  "viewer_solo = (Package_init ''viewer'')\<lparr> p3dApplication := True, solo := True \<rparr>"

text \<open>
  \<open>endPackage\<close> closes the current package of the packager.
\<close>

definition viewer_packager :: packager where
  "viewer_packager = search_packager\<lparr> currentPackage := Some viewer_app \<rparr>"

definition solo_packager :: packager where
  "solo_packager = search_packager\<lparr> currentPackage := Some viewer_solo \<rparr>"

definition models_library :: package where
  "models_library = Package_init ''models''"

definition library_packager :: packager where
  "library_packager = example_packager\<lparr> currentPackage := Some models_library \<rparr>"

section \<open>Properties\<close>

subsection \<open>Version tuples\<close>

lemma makeVersionTuple_1_2_10:
  "makeVersionTuple ''1.2.10'' = [VStr '''', VInt 1, VStr ''.'', VInt 2, VStr ''.'', VInt 10]"
  by code_simp

lemma makeVersionTuple_1_2_9:
  "makeVersionTuple ''1.2.9'' = [VStr '''', VInt 1, VStr ''.'', VInt 2, VStr ''.'', VInt 9]"
  by code_simp

lemma makeVersionTuple_1_2:
  "makeVersionTuple ''1.2'' = [VStr '''', VInt 1, VStr ''.'', VInt 2]"
  by code_simp

lemma makeVersionTuple_1_10:
  "makeVersionTuple ''1.10'' = [VStr '''', VInt 1, VStr ''.'', VInt 10]"
  by code_simp

lemma makeVersionTuple_1_9:
  "makeVersionTuple ''1.9'' = [VStr '''', VInt 1, VStr ''.'', VInt 9]"
  by code_simp

lemma makeVersionTuple_1_2b:
  "makeVersionTuple ''1.2b'' = [VStr [], VInt 1, VStr ''.'', VInt 2, VStr ''b'']"
  by code_simp

lemma makeVersionTuple_1_2a:
  "makeVersionTuple ''1.2a'' = [VStr [], VInt 1, VStr ''.'', VInt 2, VStr ''a'']"
  by code_simp

lemma tuple_less_prefix:
  "tuple_less (pre @ x # xs) (pre @ y # ys) = (if x = y then tuple_less xs ys else vword_less x y)"
  by (induction pre) simp_all

text \<open>
  The loops of \<open>__makeVersionTuple\<close> on a run of characters that are not digits
  followed by a run of digits, and the tuple of a string after any prefix already
  scanned.
\<close>

lemma scanNonDigits_run:
  "list_all (\<lambda>c. c \<notin> set string_digits) w \<Longrightarrow> rest = [] \<or> hd rest \<in> set string_digits \<Longrightarrow>
   scanNonDigits (pre @ w @ rest) (length pre) acc = (length pre + length w, acc @ w)"
proof (induction w arbitrary: pre acc)
  case Nil
  then show ?case
    by (subst scanNonDigits.simps) (cases rest; simp add: nth_append)
next
  case (Cons c w)
  from Cons.prems have c: "c \<notin> set string_digits"
    and w: "list_all (\<lambda>c. c \<notin> set string_digits) w" by simp_all
  have "scanNonDigits ((pre @ [c]) @ w @ rest) (length (pre @ [c])) (acc @ [c])
          = (length (pre @ [c]) + length w, (acc @ [c]) @ w)"
    by (rule Cons.IH [OF w Cons.prems(2)])
  then have ih: "scanNonDigits (pre @ c # w @ rest) (Suc (length pre)) (acc @ [c])
          = (Suc (length pre + length w), acc @ c # w)"
    by simp
  show ?case
    by (subst scanNonDigits.simps) (simp add: c ih nth_append)
qed

lemma scanDigits_run:
  "list_all (\<lambda>c. c \<in> set string_digits) d \<Longrightarrow> rest = [] \<or> hd rest \<notin> set string_digits \<Longrightarrow>
   scanDigits (pre @ d @ rest) (length pre) acc = (length pre + length d, acc @ d)"
proof (induction d arbitrary: pre acc)
  case Nil
  then show ?case
    by (subst scanDigits.simps) (cases rest; simp add: nth_append)
next
  case (Cons c d)
  from Cons.prems have c: "c \<in> set string_digits"
    and d: "list_all (\<lambda>c. c \<in> set string_digits) d" by simp_all
  have "scanDigits ((pre @ [c]) @ d @ rest) (length (pre @ [c])) (acc @ [c])
          = (length (pre @ [c]) + length d, (acc @ [c]) @ d)"
    by (rule Cons.IH [OF d Cons.prems(2)])
  then have ih: "scanDigits (pre @ c # d @ rest) (Suc (length pre)) (acc @ [c])
          = (Suc (length pre + length d), acc @ c # d)"
    by simp
  show ?case
    by (subst scanDigits.simps) (simp add: c ih nth_append)
qed

lemma loop_step_digits:
  assumes w: "list_all (\<lambda>c. c \<notin> set string_digits) w"
    and d: "list_all (\<lambda>c. c \<in> set string_digits) d" and ne: "d \<noteq> []"
    and r: "rest = [] \<or> hd rest \<notin> set string_digits"
  shows "makeVersionTuple_loop (pre @ w @ d @ rest) (length pre) words
       = makeVersionTuple_loop (pre @ w @ d @ rest) (length pre + length w + length d)
           (words @ [VStr w, VInt (py_int d)])"
proof -
  from d ne have "hd (d @ rest) \<in> set string_digits"
    by (cases d) simp_all
  then have "d @ rest = [] \<or> hd (d @ rest) \<in> set string_digits" ..
  from scanNonDigits_run [OF w this, of pre "[]"]
  have r1: "scanNonDigits (pre @ w @ d @ rest) (length pre) [] = (length pre + length w, w)"
    by simp
  from scanDigits_run [OF d r, of "pre @ w" "[]"]
  have r2: "scanDigits (pre @ w @ d @ rest) (length pre + length w) []
              = (length pre + length w + length d, d)"
    by simp
  show ?thesis
    by (subst makeVersionTuple_loop.simps) (simp add: r1 r2 ne Let_def)
qed

lemma loop_step_end:
  assumes w: "list_all (\<lambda>c. c \<notin> set string_digits) w" and ne: "w \<noteq> []"
  shows "makeVersionTuple_loop (pre @ w) (length pre) words = words @ [VStr w]"
proof -
  from scanNonDigits_run [OF w, of "[]" pre "[]"]
  have r1: "scanNonDigits (pre @ w) (length pre) [] = (length pre + length w, w)"
    by simp
  have r2: "scanDigits (pre @ w) (length pre + length w) [] = (length pre + length w, [])"
    by (subst scanDigits.simps) simp
  have stop: "makeVersionTuple_loop (pre @ w) (length pre + length w) ws = ws" for ws
    by (subst makeVersionTuple_loop.simps) simp
  show ?thesis
    by (subst makeVersionTuple_loop.simps) (simp add: r1 r2 ne Let_def stop)
qed

lemma loop_prefix:
  "makeVersionTuple_loop (pre @ s) (length pre) words = words @ makeVersionTuple s"
proof (induction "length s" arbitrary: s pre words rule: less_induct)
  case less
  define w where "w = takeWhile (\<lambda>c. c \<notin> set string_digits) s"
  define s1 where "s1 = dropWhile (\<lambda>c. c \<notin> set string_digits) s"
  define d where "d = takeWhile (\<lambda>c. c \<in> set string_digits) s1"
  define rest where "rest = dropWhile (\<lambda>c. c \<in> set string_digits) s1"
  have s: "s = w @ d @ rest"
    by (simp add: w_def s1_def d_def rest_def)
  have w: "list_all (\<lambda>c. c \<notin> set string_digits) w"
    unfolding w_def list_all_iff by (auto dest: set_takeWhileD)
  have d: "list_all (\<lambda>c. c \<in> set string_digits) d"
    unfolding d_def list_all_iff by (auto dest: set_takeWhileD)
  have r: "rest = [] \<or> hd rest \<notin> set string_digits"
    unfolding rest_def using hd_dropWhile [of "\<lambda>c. c \<in> set string_digits" s1] by auto
  show ?case
  proof (cases "d = []")
    case False
    from False s have shorter: "length rest < length s" by (cases d) simp_all
    have l: "makeVersionTuple_loop (pre @ s) (length pre) words
               = (words @ [VStr w, VInt (py_int d)]) @ makeVersionTuple rest"
      unfolding s
      using loop_step_digits [OF w d False r, of pre words]
        less [OF shorter, of "pre @ w @ d" "words @ [VStr w, VInt (py_int d)]"]
      by (simp add: add.assoc)
    have "makeVersionTuple s = [VStr w, VInt (py_int d)] @ makeVersionTuple rest"
      unfolding s makeVersionTuple_def [of "w @ d @ rest"]
      using loop_step_digits [OF w d False r, of "[]" "[]"]
        less [OF shorter, of "w @ d" "[VStr w, VInt (py_int d)]"]
      by (simp add: add.assoc)
    with l show ?thesis by simp
  next
    case True
    have "rest = []"
    proof (rule ccontr)
      assume "rest \<noteq> []"
      with r have nd: "hd rest \<notin> set string_digits" by simp
      have "d @ rest = s1" by (simp add: d_def rest_def)
      with True have "s1 = rest" by simp
      with \<open>rest \<noteq> []\<close> have "s1 \<noteq> []" by simp
      then have "hd s1 \<in> set string_digits"
        unfolding s1_def using hd_dropWhile [of "\<lambda>c. c \<notin> set string_digits" s] by auto
      with \<open>s1 = rest\<close> nd show False by simp
    qed
    with True s have sw: "s = w" by simp
    show ?thesis
    proof (cases "w = []")
      case True
      with sw show ?thesis
        by (simp add: makeVersionTuple_def) (subst makeVersionTuple_loop.simps, simp)+
    next
      case False
      from loop_step_end [OF w False, of pre words] loop_step_end [OF w False, of "[]" "[]"]
      show ?thesis by (simp add: sw makeVersionTuple_def)
    qed
  qed
qed

text \<open>
  C6: the version tuple of a string holds its runs of digits as integers and its other
  runs as strings.  In general: a string that begins with a run \<open>w\<close> of characters
  that are not digits (possibly empty), followed by a run \<open>d\<close> of digits that ends
  at the end of the string or before a character that is not a digit, has the tuple
  that begins with the string \<open>w\<close> and the integer \<open>int(d)\<close>, followed by the tuple
  of the rest; a string with no digit has itself as its tuple.  So the tuples of
  "1.2.10", "1.2.9", "1.2", "1.10" and "1.9" are as listed.  Tuples are compared member
  by member: where two tuples first differ, two integers are compared by value and two
  strings by their characters.  So "1.2.10" > "1.2.9" > "1.2" and "1.10" > "1.9" as
  version tuples, while the strings themselves compare the other way,
  "1.2.10" < "1.2.9" and "1.10" < "1.9".  Runs that are not digits compare as strings:
  "1.2b" > "1.2a".
\<close>

theorem C6_version_tuple_order:
  "makeVersionTuple ''1.2.10'' = [VStr [], VInt 1, VStr ''.'', VInt 2, VStr ''.'', VInt 10]
   \<and> makeVersionTuple ''1.2.9'' = [VStr [], VInt 1, VStr ''.'', VInt 2, VStr ''.'', VInt 9]
   \<and> makeVersionTuple ''1.2'' = [VStr [], VInt 1, VStr ''.'', VInt 2]
   \<and> makeVersionTuple ''1.10'' = [VStr [], VInt 1, VStr ''.'', VInt 10]
   \<and> makeVersionTuple ''1.9'' = [VStr [], VInt 1, VStr ''.'', VInt 9]
   \<and> tuple_greater (makeVersionTuple ''1.2.10'') (makeVersionTuple ''1.2.9'')
   \<and> tuple_greater (makeVersionTuple ''1.2.9'') (makeVersionTuple ''1.2'')
   \<and> tuple_greater (makeVersionTuple ''1.10'') (makeVersionTuple ''1.9'')
   \<and> py_str_less ''1.2.10'' ''1.2.9'' \<and> py_str_less ''1.10'' ''1.9''
   \<and> makeVersionTuple ''1.2b'' = [VStr [], VInt 1, VStr ''.'', VInt 2, VStr ''b'']
   \<and> makeVersionTuple ''1.2a'' = [VStr [], VInt 1, VStr ''.'', VInt 2, VStr ''a'']
   \<and> tuple_greater (makeVersionTuple ''1.2b'') (makeVersionTuple ''1.2a'')
   \<and> tuple_greater (pre @ VInt a # xs) (pre @ VInt b # ys)
       = (if a = b then tuple_greater xs ys else b < a)
   \<and> tuple_greater (pre @ VStr s # xs) (pre @ VStr t # ys)
       = (if s = t then tuple_greater xs ys else py_str_less t s)
   \<and> (list_all (\<lambda>c. c \<notin> set string_digits) w
        \<and> list_all (\<lambda>c. c \<in> set string_digits) d \<and> d \<noteq> []
        \<and> (rest = [] \<or> hd rest \<notin> set string_digits)
        \<longrightarrow> makeVersionTuple (w @ d @ rest)
              = VStr w # VInt (py_int d) # makeVersionTuple rest)
   \<and> (list_all (\<lambda>c. c \<notin> set string_digits) w \<and> w \<noteq> [] \<longrightarrow> makeVersionTuple w = [VStr w])
   \<and> makeVersionTuple [] = []"
proof -
  have ints: "tuple_greater (pre @ VInt a # xs) (pre @ VInt b # ys)
       = (if a = b then tuple_greater xs ys else b < a)"
    unfolding tuple_greater_def tuple_less_prefix by auto
  have strs: "tuple_greater (pre @ VStr s # xs) (pre @ VStr t # ys)
       = (if s = t then tuple_greater xs ys else py_str_less t s)"
    unfolding tuple_greater_def tuple_less_prefix by auto
  have conc: "tuple_greater (makeVersionTuple ''1.2.10'') (makeVersionTuple ''1.2.9'')
     \<and> tuple_greater (makeVersionTuple ''1.2.9'') (makeVersionTuple ''1.2'')
     \<and> tuple_greater (makeVersionTuple ''1.10'') (makeVersionTuple ''1.9'')
     \<and> tuple_greater (makeVersionTuple ''1.2b'') (makeVersionTuple ''1.2a'')"
    unfolding makeVersionTuple_1_2_10 makeVersionTuple_1_2_9 makeVersionTuple_1_2
      makeVersionTuple_1_10 makeVersionTuple_1_9 makeVersionTuple_1_2b makeVersionTuple_1_2a
    by (simp add: tuple_greater_def)
  have lex: "py_str_less ''1.2.10'' ''1.2.9''" "py_str_less ''1.10'' ''1.9''"
    by simp_all
  have runs: "list_all (\<lambda>c. c \<notin> set string_digits) w
        \<and> list_all (\<lambda>c. c \<in> set string_digits) d \<and> d \<noteq> []
        \<and> (rest = [] \<or> hd rest \<notin> set string_digits)
        \<longrightarrow> makeVersionTuple (w @ d @ rest)
              = VStr w # VInt (py_int d) # makeVersionTuple rest"
  proof (intro impI, elim conjE)
    assume a: "list_all (\<lambda>c. c \<notin> set string_digits) w"
      "list_all (\<lambda>c. c \<in> set string_digits) d" "d \<noteq> []"
      "rest = [] \<or> hd rest \<notin> set string_digits"
    from loop_step_digits [OF a, of "[]" "[]"]
      loop_prefix [of "w @ d" rest "[VStr w, VInt (py_int d)]"]
    show "makeVersionTuple (w @ d @ rest) = VStr w # VInt (py_int d) # makeVersionTuple rest"
      by (simp add: makeVersionTuple_def)
  qed
  have word: "list_all (\<lambda>c. c \<notin> set string_digits) w \<and> w \<noteq> [] \<longrightarrow> makeVersionTuple w = [VStr w]"
    using loop_step_end [of w "[]" "[]"] by (simp add: makeVersionTuple_def)
  have empty: "makeVersionTuple [] = []"
    by (simp add: makeVersionTuple_def) (subst makeVersionTuple_loop.simps, simp)
  from ints strs conc lex runs word empty show ?thesis
    by (simp only: makeVersionTuple_1_2_10 makeVersionTuple_1_2_9 makeVersionTuple_1_2
      makeVersionTuple_1_10 makeVersionTuple_1_9 makeVersionTuple_1_2b makeVersionTuple_1_2a
      simp_thms)
qed

text \<open>
  The tuple of "rc12-beta", from its runs "rc", "12" and "-beta".
\<close>

theorem C6_version_tuple_order_witness:
  "list_all (\<lambda>c. c \<notin> set string_digits) ''rc''
   \<and> list_all (\<lambda>c. c \<in> set string_digits) ''12'' \<and> ''12'' \<noteq> []
   \<and> hd ''-beta'' \<notin> set string_digits
   \<and> list_all (\<lambda>c. c \<notin> set string_digits) ''-beta''
   \<and> py_int ''12'' = 12
   \<and> makeVersionTuple ''rc12-beta'' = [VStr ''rc'', VInt 12, VStr ''-beta'']"
proof -
  have h: "list_all (\<lambda>c. c \<notin> set string_digits) ''rc''"
    "list_all (\<lambda>c. c \<in> set string_digits) ''12''"
    "hd ''-beta'' \<notin> set string_digits"
    "list_all (\<lambda>c. c \<notin> set string_digits) ''-beta''"
    by (simp_all add: string_digits_def)
  have i: "py_int ''12'' = 12"
    by (simp add: py_int_def digit_value_def)
  from C6_version_tuple_order [where w = "''rc''" and d = "''12''" and rest = "''-beta''"] h
  have 1: "makeVersionTuple (''rc'' @ ''12'' @ ''-beta'')
             = VStr ''rc'' # VInt (py_int ''12'') # makeVersionTuple ''-beta''"
    by simp
  from C6_version_tuple_order [where w = "''-beta''"] h
  have 2: "makeVersionTuple ''-beta'' = [VStr ''-beta'']"
    by simp
  from 1 2 h i show ?thesis by simp
qed

subsection \<open>A file name that ends in \<open>.pz\<close>\<close>

text \<open>
  The example packager and its environment, evaluated.
\<close>

lemma example_packager_simps:
  "caseSensitive example_packager = True"
  "imageExtensions example_packager = [''png'', ''jpg'']"
  "executableExtensions example_packager = [''so'']"
  "extractExtensions example_packager = [''so'']"
  "platformSpecificExtensions example_packager = [''so'']"
  "uncompressibleExtensions example_packager = [''mp3'', ''ogg'']"
  "unprocessedExtensions example_packager = []"
  "executablePath example_packager = [''/lib'', ''/usr/lib'']"
  by (simp_all add: example_packager_def Packager_init_def example_env_def startswith_def Let_def)

lemma example_env_simps:
  "fs_exists example_env f = (f \<in> set [''/src/readme.txt'', ''/src/notes.txt'', ''/src/a.txt'',
                                   ''/src/b.txt'', ''/data/music.ogg.pz''])"
  "fs_resolveFilename example_env path f = f"
  "fs_makeTrueCase example_env f = f"
  "fs_makeCanonical example_env f = f"
  "glob_matches example_env pat True s = glob_match pat s"
  by (simp_all add: example_env_def)

lemma getBasename_pz: "getBasename (b @ ''.pz'') = getBasename b @ ''.pz''"
  by (simp add: getBasename_def)

lemma getExtension_pz: "getExtension (b @ ''.pz'') = ''pz''"
  by (simp add: getExtension_def getBasename_pz)

lemma setExtension_pz: "setExtension (b @ ''.pz'') [] = b"
  by (simp add: setExtension_def getBasename_pz)

text \<open>
  C7: a \<open>PackFile\<close> built with no \<open>compress\<close> argument, whose target name (the
  \<open>newName\<close> argument, or the file name when none is given) ends in \<open>.pz\<close>, has
  \<open>compress = True\<close>, and its stored target name is the given one without the suffix.
  Each of the flags \<open>executable\<close>, \<open>extract\<close>, \<open>platformSpecific\<close> and
  \<open>unprocessed\<close> is the argument when it is given, and is otherwise derived from the
  extension of the stored name, the one that remains after \<open>.pz\<close> is removed.
\<close>

theorem C7_pz_suffix:
  assumes "a_compress kw = None" and "givenName fname kw = base @ ''.pz''"
  shows "compress (PackFile_init e pkgr fname kw) = True
     \<and> newName (PackFile_init e pkgr fname kw) = base
     \<and> executable (PackFile_init e pkgr fname kw) =
         (case a_executable kw of
            None \<Rightarrow> getExtension base \<in> set (executableExtensions pkgr)
          | Some x \<Rightarrow> x)
     \<and> extractFlag (PackFile_init e pkgr fname kw) =
         (case a_extract kw of
            None \<Rightarrow> executable (PackFile_init e pkgr fname kw)
                     \<or> getExtension base \<in> set (extractExtensions pkgr)
          | Some x \<Rightarrow> x)
     \<and> platformSpecific (PackFile_init e pkgr fname kw) =
         (case a_platformSpecific kw of
            None \<Rightarrow> executable (PackFile_init e pkgr fname kw)
                     \<or> getExtension base \<in> set (platformSpecificExtensions pkgr)
          | Some x \<Rightarrow> x)
     \<and> unprocessed (PackFile_init e pkgr fname kw) =
         (case a_unprocessed kw of
            None \<Rightarrow> executable (PackFile_init e pkgr fname kw)
                     \<or> getExtension base \<in> set (unprocessedExtensions pkgr)
          | Some x \<Rightarrow> x)"
  using assms
  by (simp add: PackFile_init_def Let_def getExtension_pz setExtension_pz split: option.split)

text \<open>
  The file \<open>/data/music.ogg.pz\<close> stored as \<open>audio/music.ogg.pz\<close>: the extension
  \<open>ogg\<close> is one of the uncompressible extensions, and the file is compressed all the
  same.
\<close>

theorem C7_pz_suffix_witness:
  "a_compress kw_music = None
   \<and> givenName ''/data/music.ogg.pz'' kw_music = ''audio/music.ogg'' @ ''.pz''
   \<and> getExtension ''audio/music.ogg'' \<in> set (uncompressibleExtensions example_packager)
   \<and> compress (PackFile_init example_env example_packager ''/data/music.ogg.pz'' kw_music) = True
   \<and> newName (PackFile_init example_env example_packager ''/data/music.ogg.pz'' kw_music)
       = ''audio/music.ogg''
   \<and> executable (PackFile_init example_env example_packager ''/data/music.ogg.pz'' kw_music)
       = False"
proof -
  have h1: "a_compress kw_music = None"
    by (simp add: kw_music_def default_args_def)
  have h2: "givenName ''/data/music.ogg.pz'' kw_music = ''audio/music.ogg'' @ ''.pz''"
    by (simp add: kw_music_def default_args_def givenName_def)
  have h3: "a_executable kw_music = None"
    by (simp add: kw_music_def default_args_def)
  have h4: "getExtension ''audio/music.ogg'' = ''ogg''"
    by (simp add: getExtension_def getBasename_def)
  from C7_pz_suffix [OF h1 h2, of example_env example_packager] h1 h2 h3 h4
  show ?thesis
    by (simp add: example_packager_simps)
qed

subsection \<open>A target name that is taken\<close>

text \<open>
  C1: when the target name of the new file is already a key of \<open>targetFilenames\<close>,
  \<open>addFile\<close> returns normally and leaves the package as it was: the list of files,
  both name tables and every other attribute are unchanged, so the first file added
  under that name is retained and no entry is overwritten.
\<close>

theorem C1_target_collision:
  assumes "targetFilenames pkg (newName (PackFile_init e pkgr fname kw)) = Some file2"
  shows "\<exists>msgs. addFile e pkgr pkg fname kw = Inr (pkg, msgs)"
  using assms by (simp add: addFile_def Let_def)

lemma PackFile_a: "PackFile_init example_env example_packager ''/src/a.txt'' kw_a = file_a"
  by (simp add: PackFile_init_def kw_a_def default_args_def givenName_def Let_def
      getExtension_def getBasename_def example_packager_simps example_env_simps file_a_def isLocal_def)

lemma PackFile_b: "PackFile_init example_env example_packager ''/src/b.txt'' kw_a
    = file_a\<lparr> filename := ''/src/b.txt'' \<rparr>"
  by (simp add: PackFile_init_def kw_a_def default_args_def givenName_def Let_def
      getExtension_def getBasename_def example_packager_simps example_env_simps file_a_def isLocal_def)

lemma pkg_a_reached:
  "addFile example_env example_packager (Package_init ''demo'') ''/src/a.txt'' kw_a = Inr (pkg_a, [])"
  by (simp add: addFile_def PackFile_a Let_def pkg_a_def Package_init_def file_a_def example_env_simps)

text \<open>
  The package \<open>pkg_a\<close> holds \<open>/src/a.txt\<close> under the name \<open>data.txt\<close>; adding
  \<open>/src/b.txt\<close>, a different source, under the same name leaves it unchanged.
\<close>

theorem C1_target_collision_witness:
  "targetFilenames pkg_a (newName (PackFile_init example_env example_packager ''/src/b.txt'' kw_a))
     = Some file_a
   \<and> filename file_a \<noteq> filename (PackFile_init example_env example_packager ''/src/b.txt'' kw_a)
   \<and> (\<exists>msgs. addFile example_env example_packager pkg_a ''/src/b.txt'' kw_a = Inr (pkg_a, msgs))"
proof -
  have h: "targetFilenames pkg_a
             (newName (PackFile_init example_env example_packager ''/src/b.txt'' kw_a)) = Some file_a"
    by (simp add: PackFile_b pkg_a_def file_a_def)
  have d: "filename file_a \<noteq> filename (PackFile_init example_env example_packager ''/src/b.txt'' kw_a)"
    by (simp add: PackFile_b file_a_def)
  from h d C1_target_collision [OF h] show ?thesis by simp
qed

subsection \<open>The same source file twice\<close>

text \<open>
  C2 does not hold of every source file.  The source \<open>/src/b.txt\<close> is added twice to
  \<open>pkg_a\<close>, where its target name is taken by \<open>/src/a.txt\<close>.  Each of the two
  calls logs the warning, so the second is not silent, and the package holds no
  \<open>PackFile\<close> for the source afterwards: \<open>addFile\<close> returns on the collision of the
  target names before it enters the source in \<open>sourceFilenames\<close>.
\<close>

theorem C2_counterexample:
  "addFile_twice example_env example_packager pkg_a ''/src/b.txt'' kw_a
     = Inr (pkg_a, [Warning ''/src/a.txt is shadowing /src/b.txt''],
                   [Warning ''/src/a.txt is shadowing /src/b.txt''])
   \<and> filter (\<lambda>f. filename f = ''/src/b.txt'') (files pkg_a) = []
   \<and> sourceFilenames pkg_a ''/src/b.txt'' = None"
  by (simp add: addFile_twice_def addFile_def PackFile_b Let_def pkg_a_def file_a_def Package_init_def)

text \<open>
  In a consistent package the files have distinct sources, each entered in
  \<open>sourceFilenames\<close>; \<open>addFile\<close> keeps a package consistent.
\<close>

lemma distinct_filter_le_1:
  "distinct (map f xs) \<Longrightarrow> length (filter (\<lambda>x. f x = k) xs) \<le> 1"
proof (induction xs)
  case Nil
  then show ?case by simp
next
  case (Cons a xs)
  show ?case
  proof (cases "f a = k")
    case True
    from Cons.prems have "f a \<notin> f ` set xs" by simp
    with True have "\<forall>x\<in>set xs. f x \<noteq> k" by blast
    then have "filter (\<lambda>x. f x = k) xs = []"
      by (simp add: filter_empty_conv)
    with True show ?thesis by simp
  next
    case False
    with Cons show ?thesis by simp
  qed
qed

lemma consistent_unknown_source:
  "files_consistent p \<Longrightarrow> k \<notin> dom (sourceFilenames p) \<Longrightarrow>
   filter (\<lambda>f. filename f = k) (files p) = []"
  by (auto simp: files_consistent_def list_all_iff filter_empty_conv)

lemma addFile_consistent:
  assumes "files_consistent p" and "addFile e pkgr p fname kw = Inr (p1, w1)"
  shows "files_consistent p1"
proof -
  let ?file = "PackFile_init e pkgr fname kw"
  have fresh: "filename ?file \<notin> dom (sourceFilenames p) \<Longrightarrow>
               filename ?file \<notin> filename ` set (files p)"
    using consistent_unknown_source [OF assms(1), of "filename ?file"]
    by (auto simp: filter_empty_conv)
  from assms fresh show ?thesis
    by (auto simp: addFile_def Let_def files_consistent_def list_all_iff
        split: if_splits option.splits sum.splits)
qed

text \<open>
  C2, for a first call that is not rejected on its target name: the source is known
  already, or the target name is free.  Then a second call with the same canonical
  source file name returns the package of the first call unchanged and logs nothing,
  and the package holds at most one \<open>PackFile\<close> for the source.  When the source was
  new, it holds exactly one if the file exists or has inline text, and none if the
  file is missing and has no text: \<open>addFile\<close> enters a missing file in
  \<open>sourceFilenames\<close> and does not append it to the list of files.
\<close>

theorem C2_second_addFile:
  assumes cons: "files_consistent p"
    and first: "addFile e pkgr p fname kw = Inr (p1, w1)"
    and accepted: "filename (PackFile_init e pkgr fname kw) \<in> dom (sourceFilenames p)
                   \<or> newName (PackFile_init e pkgr fname kw) \<notin> dom (targetFilenames p)"
    and same: "filename (PackFile_init e pkgr fname2 kw2) = filename (PackFile_init e pkgr fname kw)"
  shows "addFile e pkgr p1 fname2 kw2 = Inr (p1, [])
     \<and> length (filter (\<lambda>f. filename f = filename (PackFile_init e pkgr fname kw)) (files p1)) \<le> 1
     \<and> (filename (PackFile_init e pkgr fname kw) \<notin> dom (sourceFilenames p) \<longrightarrow>
          length (filter (\<lambda>f. filename f = filename (PackFile_init e pkgr fname kw)) (files p1))
            = (if fileText (PackFile_init e pkgr fname kw) = None
                  \<and> \<not> fs_exists e (filename (PackFile_init e pkgr fname kw))
               then 0 else 1))"
proof -
  let ?file = "PackFile_init e pkgr fname kw"
  have reg: "filename ?file \<in> dom (sourceFilenames p1)"
    using first accepted
    by (auto simp: addFile_def Let_def split: if_splits option.splits sum.splits)
  have again: "addFile e pkgr p1 fname2 kw2 = Inr (p1, [])"
    using reg same by (simp add: addFile_def Let_def)
  have cons1: "files_consistent p1"
    using cons first by (rule addFile_consistent)
  then have "distinct (map filename (files p1))"
    by (simp add: files_consistent_def)
  then have le: "length (filter (\<lambda>f. filename f = filename ?file) (files p1)) \<le> 1"
    by (rule distinct_filter_le_1)
  have none_before: "filename ?file \<notin> dom (sourceFilenames p) \<Longrightarrow>
      filter (\<lambda>f. filename f = filename ?file) (files p) = []"
    using cons by (rule consistent_unknown_source)
  have cnt: "filename ?file \<notin> dom (sourceFilenames p) \<Longrightarrow>
      length (filter (\<lambda>f. filename f = filename ?file) (files p1))
        = (if fileText ?file = None \<and> \<not> fs_exists e (filename ?file) then 0 else 1)"
    using first accepted none_before
    by (auto simp: addFile_def Let_def split: if_splits option.splits sum.splits)
  from again le cnt show ?thesis by blast
qed

text \<open>
  \<open>/src/a.txt\<close> added twice to an empty package: one \<open>PackFile\<close>.
\<close>

theorem C2_second_addFile_witness:
  "files_consistent (Package_init ''demo'')
   \<and> addFile example_env example_packager (Package_init ''demo'') ''/src/a.txt'' kw_a
       = Inr (pkg_a, [])
   \<and> filename (PackFile_init example_env example_packager ''/src/a.txt'' default_args)
       = filename (PackFile_init example_env example_packager ''/src/a.txt'' kw_a)
   \<and> addFile example_env example_packager pkg_a ''/src/a.txt'' default_args = Inr (pkg_a, [])
   \<and> length (filter (\<lambda>f. filename f = ''/src/a.txt'') (files pkg_a)) = 1"
proof -
  have c: "files_consistent (Package_init ''demo'')"
    by (simp add: files_consistent_def Package_init_def)
  have a: "filename (PackFile_init example_env example_packager ''/src/a.txt'' kw_a)
             \<in> dom (sourceFilenames (Package_init ''demo''))
           \<or> newName (PackFile_init example_env example_packager ''/src/a.txt'' kw_a)
             \<notin> dom (targetFilenames (Package_init ''demo''))"
    by (simp add: Package_init_def)
  have s: "filename (PackFile_init example_env example_packager ''/src/a.txt'' default_args)
             = filename (PackFile_init example_env example_packager ''/src/a.txt'' kw_a)"
    by (simp add: PackFile_init_def Let_def example_env_simps example_packager_simps
        default_args_def kw_a_def givenName_def getExtension_def getBasename_def isLocal_def)
  have n: "filename (PackFile_init example_env example_packager ''/src/a.txt'' kw_a)
             \<notin> dom (sourceFilenames (Package_init ''demo''))"
    by (simp add: Package_init_def)
  from C2_second_addFile [OF c pkg_a_reached a s] n c s pkg_a_reached
  show ?thesis
    by (simp add: PackFile_a file_a_def example_env_simps)
qed

subsection \<open>Explicitly added files\<close>

text \<open>
  C3: for a \<open>PackFile\<close> with \<open>explicit = True\<close>, \<open>isExcluded\<close> returns normally,
  and returns \<open>True\<close> if and only if the target name of the file is a key of the
  package's \<open>skipFilenames\<close>.  Neither the exclusion patterns of the packager and of
  the package nor the rule for platform-specific files enters the result.
\<close>

theorem C3_explicit:
  "explicit f \<Longrightarrow> isExcluded e pkgr pkg f = Inr (newName f \<in> dom (skipFilenames pkg))"
  by (simp add: isExcluded_def)

text \<open>
  The package \<open>pkg_excl\<close> excludes \<open>*.txt\<close>.  \<open>/src/readme.txt\<close> is added
  explicitly, \<open>/src/notes.txt\<close> is not.
\<close>

lemma PackFile_readme:
  "PackFile_init example_env example_packager ''/src/readme.txt'' kw_readme
     = file_a\<lparr> filename := ''/src/readme.txt'', newName := ''readme.txt'' \<rparr>"
  by (simp add: PackFile_init_def kw_readme_def default_args_def givenName_def Let_def
      getExtension_def getBasename_def example_packager_simps example_env_simps file_a_def isLocal_def)

lemma PackFile_notes:
  "PackFile_init example_env example_packager ''/src/notes.txt'' kw_notes
     = file_a\<lparr> filename := ''/src/notes.txt'', newName := ''notes.txt'', explicit := False \<rparr>"
  by (simp add: PackFile_init_def kw_notes_def default_args_def givenName_def Let_def
      getExtension_def getBasename_def example_packager_simps example_env_simps file_a_def isLocal_def)

lemma example_packager_excludes:
  "excludeSystemFiles example_packager =
             [''kernel32.dll'', ''user32.dll'', ''wsock32.dll'', ''ws2_32.dll'',
              ''advapi32.dll'', ''opengl32.dll'', ''glu32.dll'', ''gdi32.dll'',
              ''shell32.dll'', ''ntdll.dll'', ''ws2help.dll'', ''rpcrt4.dll'',
              ''imm32.dll'', ''ddraw.dll'', ''shlwapi.dll'', ''secur32.dll'',
              ''dciman32.dll'', ''comdlg32.dll'', ''comctl32.dll'', ''ole32.dll'',
              ''oleaut32.dll'', ''gdiplus.dll'', ''winmm.dll'',
              ''libsystem.b.dylib'', ''libmathcommon.a.dylib'', ''libmx.a.dylib'',
              ''libstdc++.6.dylib'']"
  "excludeSystemGlobs example_packager =
             [''d3dx9_*.dll'', ''linux-gate.so*'', ''libdl.so*'', ''libm.so*'',
              ''libc.so*'', ''libGL.so*'', ''libGLU.so*'', ''libX*.so*'']"
  by (simp_all add: example_packager_def Packager_init_def Let_def)

lemma notes_not_system:
  "''notes.txt'' \<notin> set (excludeSystemFiles example_packager)"
  by (simp add: example_packager_excludes)

lemma notes_not_system_glob:
  "\<not> list_ex (\<lambda>exclude. glob_matches example_env exclude True ''notes.txt'')
       (excludeSystemGlobs example_packager)"
  by (simp add: example_packager_excludes example_env_simps)

lemma excl_txt:
  "ExcludeFilename_init example_env ''*.txt''
     = \<lparr> localOnly = True, glob = ''*.txt'', globCaseSensitive = True \<rparr>"
  by (simp add: ExcludeFilename_init_def Let_def hasDirname_def example_env_def startswith_def)

text \<open>
  The explicit file \<open>/src/readme.txt\<close> matches the exclusion pattern \<open>*.txt\<close> of
  the package and is not excluded; the file \<open>/src/notes.txt\<close>, which is not
  explicit, is excluded.
\<close>

theorem C3_explicit_witness:
  "explicit (PackFile_init example_env example_packager ''/src/readme.txt'' kw_readme)
   \<and> matches example_env (ExcludeFilename_init example_env ''*.txt'')
        (filename (PackFile_init example_env example_packager ''/src/readme.txt'' kw_readme))
   \<and> isExcluded example_env example_packager pkg_excl
        (PackFile_init example_env example_packager ''/src/readme.txt'' kw_readme) = Inr False
   \<and> isExcluded example_env example_packager pkg_excl
        (PackFile_init example_env example_packager ''/src/notes.txt'' kw_notes) = Inr True"
proof -
  have h: "explicit (PackFile_init example_env example_packager ''/src/readme.txt'' kw_readme)"
    by (simp add: PackFile_readme file_a_def)
  have m: "matches example_env (ExcludeFilename_init example_env ''*.txt'')
        (filename (PackFile_init example_env example_packager ''/src/readme.txt'' kw_readme))"
    by (simp add: PackFile_readme excl_txt matches_def example_env_simps getBasename_def file_a_def)
  have n: "isExcluded example_env example_packager pkg_excl
        (PackFile_init example_env example_packager ''/src/notes.txt'' kw_notes) = Inr True"
    using notes_not_system notes_not_system_glob
    by (simp add: PackFile_notes isExcluded_def pkg_excl_def Package_init_def excl_txt
        matches_def example_env_simps example_packager_simps Let_def
        getBasename_def file_a_def)
  from C3_explicit [OF h, of example_env example_packager pkg_excl] h m n
  show ?thesis
    by (simp add: pkg_excl_def Package_init_def)
qed

subsection \<open>Scanning a directory of the search path\<close>

text \<open>
  The directory \<open>/pkgs\<close> of the environment \<open>search_env\<close> holds the versions 1.0 and
  2.0 of the package \<open>models\<close>, listed by \<open>glob\<close> in this order.  The sort of the
  two candidates builds its result from the built-in \<open>file\<close>.
\<close>

lemma scanFilelist_models:
  "scanFilelist search_env ''/pkgs'' ''models'' (Some ''linux_i386'') None
     = [''/pkgs/models/1.0/linux_i386/models.1.0.linux_i386.import.xml'',
        ''/pkgs/models/2.0/linux_i386/models.2.0.linux_i386.import.xml'']"
  by (simp add: scanFilelist_def Let_def Filename2_def search_env_def)

lemma read_models:
  "readImportDesc search_env ''/pkgs/models/1.0/linux_i386/models.1.0.linux_i386.import.xml''
     = Some models_1_0"
  "readImportDesc search_env ''/pkgs/models/2.0/linux_i386/models.2.0.linux_i386.import.xml''
     = Some models_2_0"
  by (simp_all add: search_env_def)

lemma makeVersionTuple_1_0: "makeVersionTuple ''1.0'' = [VStr [], VInt 1, VStr ''.'', VInt 0]"
  by code_simp

lemma makeVersionTuple_2_0: "makeVersionTuple ''2.0'' = [VStr [], VInt 2, VStr ''.'', VInt 0]"
  by code_simp

lemma sort_models:
  "sortImportPackages [Some models_1_0, Some models_2_0] = Inr [BuiltinFile, BuiltinFile]"
  by (simp add: sortImportPackages_def models_1_0_def models_2_0_def sort_reverse_def
      makeVersionTuple_1_0 makeVersionTuple_2_0)

text \<open>
  C4 fails in the code.  A scan of \<open>/pkgs\<close> for the package \<open>models\<close> with no version
  given returns version 1.0, the first candidate in the order of \<open>glob\<close>, although
  version 2.0 is present, is valid with respect to the packages already required
  (there are none) and has the greater version tuple.  The candidates are examined in
  the order of the directory listing, not in descending order of their versions:
  \<open>__scanPackageDir\<close> discards the result of \<open>__sortImportPackages\<close>.
\<close>

theorem C4_scan_returns_first_listed:
  "scanPackageDir search_env ''/pkgs'' ''models'' (Some ''linux_i386'') None None []
     = Inr (Some models_1_0)
   \<and> rp_version models_1_0 = Some ''1.0'' \<and> rp_version models_2_0 = Some ''2.0''
   \<and> packageIsValid models_2_0 []
   \<and> tuple_greater (makeVersionTuple ''2.0'') (makeVersionTuple ''1.0'')"
  by (simp add: scanPackageDir_def scanFilelist_models read_models sort_models
      packageIsValid_def makeVersionTuple_1_0 makeVersionTuple_2_0 tuple_greater_def)
     (simp add: models_1_0_def models_2_0_def)

subsection \<open>The keyword arguments of \<open>do_require\<close>\<close>

text \<open>
  The loop \<open>for key in ['version', 'host']: if key in kw: del kw['version']\<close> raises
  \<open>KeyError\<close> on every dictionary with the key \<open>host\<close>: when its second round
  deletes the key \<open>version\<close>, the key is absent, or was deleted by the first round.
\<close>

lemma require_cleanup_host:
  assumes "''host'' \<in> fst ` set kw"
  shows "require_cleanup [''version'', ''host''] kw = Inl (KeyError ''version'')"
proof (cases "''version'' \<in> fst ` set kw")
  case True
  have "''host'' \<in> fst ` set (filter (\<lambda>item. fst item \<noteq> ''version'') kw)"
    using assms by force
  moreover have "''version'' \<notin> fst ` set (filter (\<lambda>item. fst item \<noteq> ''version'') kw)"
    by auto
  ultimately show ?thesis
    using True by (simp add: py_del_def)
next
  case False
  with assms show ?thesis
    by (simp add: py_del_def)
qed

text \<open>
  C10, inside a package definition: a call of \<open>do_require\<close> with a keyword argument
  \<open>host\<close> raises \<open>KeyError('version')\<close>, with or without a keyword \<open>version\<close>,
  and leaves the packager as it was: no package is looked up and none is required.
\<close>

theorem C10_host_keyword:
  assumes "currentPackage pkgr = Some cur" and "''host'' \<in> fst ` set kw"
  shows "do_require e pkgr args kw = (pkgr, Some (KeyError ''version''))"
  using assms by (simp add: do_require_def require_cleanup_host del: require_cleanup.simps)

text \<open>
  C10 does not hold outside a package definition: there the same call raises
  \<open>OutsideOfPackageError\<close>, from the guard that precedes the loop.
\<close>

theorem C10_counterexample:
  "do_require example_env example_packager [''panda3d''] [(''host'', ''http://example.org/'')]
     = (example_packager, Some OutsideOfPackageError)"
  by (simp add: do_require_def example_packager_def Packager_init_def Let_def)

text \<open>
  A call with both keywords, while the package \<open>app\<close> is open.
\<close>

theorem C10_host_keyword_witness:
  "currentPackage search_packager = Some (Package_init ''app'')
   \<and> ''host'' \<in> fst ` set [(''version'', ''1.7.0''), (''host'', ''http://example.org/'')]
   \<and> do_require search_env search_packager [''panda3d'']
        [(''version'', ''1.7.0''), (''host'', ''http://example.org/'')]
      = (search_packager, Some (KeyError ''version''))"
proof -
  have c: "currentPackage search_packager = Some (Package_init ''app'')"
    by (simp add: search_packager_def)
  have h: "''host'' \<in> fst ` set [(''version'', ''1.7.0''), (''host'', ''http://example.org/'')]"
    by simp
  from C10_host_keyword [OF c h] c h show ?thesis by simp
qed

subsection \<open>Requiring the panda3d package\<close>

text \<open>
  \<open>findPackage\<close> changes the table of known packages only, and
  \<open>Package.requirePackage\<close> appends the package it is given.
\<close>

lemma findPackage_keeps:
  assumes "findPackage e pkgr n pl v h reqs = Inr (r, pkgr1)"
  shows "currentPackage pkgr1 = currentPackage pkgr \<and> notify pkgr1 = notify pkgr"
  using assms
  by (auto simp: findPackage_def Let_def split: option.splits sum.splits)

lemma requireOne_mem: "p2 \<in> set (requires (requireOne self p2))"
  by (simp add: requireOne_def)

lemma Package_requirePackage_mem:
  "package \<in> set (requires (Package_requirePackage cur package))"
  by (simp add: Package_requirePackage_def requireOne_mem)

text \<open>
  C5, as the code has it.  \<open>do_require('panda3d')\<close> is called while the package
  \<open>cur\<close> is open, with no keyword or with the keyword \<open>version\<close>; \<open>pv\<close> is the
  version the package is looked up under: the version string of the running panda3d
  when none is given (the requirement is pinned to it), the given one otherwise.  The
  host is that of the running panda3d.  When the lookup finds no package, the call
  raises \<open>PackagerError\<close> (unknown package).  When it finds one, the call returns
  normally, the package is among the requirements of the current package, and the log
  gains the warnings of \<open>mismatchWarnings\<close>, one if the version of the package found
  differs from that of the running panda3d: a different version is not fatal.
\<close>

theorem C5_require_panda3d:
  assumes cur: "currentPackage pkgr = Some cur"
    and kw: "kw = [] \<and> pv = getPackageVersionString e \<or> kw = [(''version'', pv)]"
    and found: "findPackage e pkgr ''panda3d'' None (Some pv) (Some (getPackageHostUrl e))
                  (requires cur) = Inr (found, pkgr1)"
  shows "case found of
           None \<Rightarrow>
             do_require e pkgr [''panda3d''] kw
               = (pkgr1, Some (PackagerError (''Unknown package panda3d, version ''
                     @ [CHR 0x22] @ py_str (map_of kw ''version'') @ [CHR 0x22])))
         | Some package \<Rightarrow>
             do_require e pkgr [''panda3d''] kw
               = (pkgr1\<lparr> notify := notify pkgr @ mismatchWarnings e package,
                          currentPackage := Some (Package_requirePackage cur package) \<rparr>, None)
             \<and> package \<in> set (requires (Package_requirePackage cur package))"
proof -
  have keep: "currentPackage pkgr1 = Some cur" "notify pkgr1 = notify pkgr"
    using findPackage_keeps [OF found] cur by simp_all
  from kw show ?thesis
  proof
    assume a: "kw = [] \<and> pv = getPackageVersionString e"
    with cur found keep show ?thesis
      by (cases found)
         (simp_all add: do_require_def requirePackage_def mismatchWarnings_def
            Package_requirePackage_mem Let_def)
  next
    assume a: "kw = [(''version'', pv)]"
    with cur found keep show ?thesis
      by (cases found)
         (simp_all add: do_require_def requirePackage_def mismatchWarnings_def
            Package_requirePackage_mem Let_def py_del_def)
  qed
qed

text \<open>
  The environment \<open>search_env\<close> runs panda3d 1.7.0 and has the versions 1.0 and
  1.7.0 of the panda3d package on its search path.
\<close>

lemma search_packager_simps:
  "currentPackage search_packager = Some (Package_init ''app'')"
  "packages search_packager = Map.empty"
  "installSearch search_packager = [''/pkgs'']"
  "packager_platform search_packager = ''linux_i386''"
  "notify search_packager = []"
  by (simp_all add: search_packager_def Packager_init_def Let_def search_env_def example_env_def)

lemma search_env_simps:
  "getPackageVersionString search_env = ''1.7.0''"
  "getPackageHostUrl search_env = ''http://runtime.panda3d.org/''"
  by (simp_all add: search_env_def example_env_def)

lemma makeVersionTuple_1_7_0:
  "makeVersionTuple ''1.7.0'' = [VStr [], VInt 1, VStr ''.'', VInt 7, VStr ''.'', VInt 0]"
  by code_simp

lemma scan_panda3d_1_0:
  "scanPackageDir search_env ''/pkgs'' ''panda3d'' (Some ''linux_i386'') (Some ''1.0'') h []
     = Inr (Some panda3d_1_0)"
  by (simp add: scanPackageDir_def scanFilelist_def Filename2_def Let_def search_env_def
      sortImportPackages_def panda3d_1_0_def makeVersionTuple_1_0 sort_reverse_def
      packageIsValid_def)

lemma scan_panda3d_1_7_0:
  "scanPackageDir search_env ''/pkgs'' ''panda3d'' (Some ''linux_i386'') (Some ''1.7.0'') h []
     = Inr (Some panda3d_1_7_0)"
  by (simp add: scanPackageDir_def scanFilelist_def Filename2_def Let_def search_env_def
      sortImportPackages_def panda3d_1_7_0_def makeVersionTuple_1_7_0 sort_reverse_def
      packageIsValid_def)

lemma find_panda3d_1_0:
  "findPackage search_env search_packager ''panda3d'' None (Some ''1.0'')
     (Some ''http://runtime.panda3d.org/'') []
   = Inr (Some panda3d_1_0, search_packager_1_0)"
  by (simp add: findPackage_def truthy_def search_packager_simps scan_panda3d_1_0 Let_def
      key_of_def search_packager_1_0_def)
     (simp add: panda3d_1_0_def)

lemma find_panda3d_1_7_0:
  "findPackage search_env search_packager ''panda3d'' None (Some ''1.7.0'')
     (Some ''http://runtime.panda3d.org/'') []
   = Inr (Some panda3d_1_7_0, search_packager_1_7_0)"
  by (simp add: findPackage_def truthy_def search_packager_simps scan_panda3d_1_7_0 Let_def
      key_of_def search_packager_1_7_0_def)
     (simp add: panda3d_1_7_0_def)

lemma Package_init_requires: "requires (Package_init n) = []"
  by (simp add: Package_init_def)

lemma require_into_app:
  "Package_requirePackage (Package_init ''app'') (ReqPackage n pl v h [] [] [])
     = (Package_init ''app'')\<lparr> requires := [ReqPackage n pl v h [] [] []] \<rparr>"
  by (simp add: Package_requirePackage_def requireOne_def Package_init_def)

text \<open>
  C5 does not hold as stated: requiring panda3d in version 1.0 under a running
  panda3d 1.7.0 returns normally.  The package is required, and the mismatch of the
  versions is logged as a warning.
\<close>

theorem C5_counterexample:
  "getPackageVersionString search_env = ''1.7.0''
   \<and> do_require search_env search_packager [''panda3d''] [(''version'', ''1.0'')]
       = (search_packager_1_0
            \<lparr> notify := [VersionMismatchWarning panda3d_1_0 ''1.7.0''],
              currentPackage := Some ((Package_init ''app'')\<lparr> requires := [panda3d_1_0] \<rparr>) \<rparr>,
          None)"
proof -
  have r: "Package_requirePackage (Package_init ''app'') panda3d_1_0
             = (Package_init ''app'')\<lparr> requires := [panda3d_1_0] \<rparr>"
    unfolding panda3d_1_0_def by (rule require_into_app)
  have w: "mismatchWarnings search_env panda3d_1_0 = [VersionMismatchWarning panda3d_1_0 ''1.7.0'']"
    by (simp add: mismatchWarnings_def search_env_simps) (simp add: panda3d_1_0_def)
  have c: "currentPackage search_packager_1_0 = Some (Package_init ''app'')"
    "notify search_packager_1_0 = []"
    by (simp_all add: search_packager_1_0_def search_packager_simps)
  show ?thesis
    by (simp add: do_require_def search_packager_simps py_del_def search_env_simps
        find_panda3d_1_0 Package_init_requires requirePackage_def c r w)
qed

text \<open>
  With no version given, the package is looked up, and found, under the version
  1.7.0 of the running panda3d.
\<close>

theorem C5_require_panda3d_witness:
  "currentPackage search_packager = Some (Package_init ''app'')
   \<and> findPackage search_env search_packager ''panda3d'' None
        (Some (getPackageVersionString search_env)) (Some (getPackageHostUrl search_env))
        (requires (Package_init ''app'')) = Inr (Some panda3d_1_7_0, search_packager_1_7_0)
   \<and> do_require search_env search_packager [''panda3d''] []
       = (search_packager_1_7_0
            \<lparr> notify := [],
              currentPackage := Some ((Package_init ''app'')\<lparr> requires := [panda3d_1_7_0] \<rparr>) \<rparr>,
          None)"
proof -
  have c: "currentPackage search_packager = Some (Package_init ''app'')"
    by (simp add: search_packager_simps)
  have k: "([] :: (string \<times> string) list) = []
             \<and> getPackageVersionString search_env = getPackageVersionString search_env
           \<or> [] = [(''version'', getPackageVersionString search_env)]"
    by simp
  have f: "findPackage search_env search_packager ''panda3d'' None
        (Some (getPackageVersionString search_env)) (Some (getPackageHostUrl search_env))
        (requires (Package_init ''app'')) = Inr (Some panda3d_1_7_0, search_packager_1_7_0)"
    using find_panda3d_1_7_0 by (simp add: search_env_simps Package_init_requires)
  have r: "Package_requirePackage (Package_init ''app'') panda3d_1_7_0
             = (Package_init ''app'')\<lparr> requires := [panda3d_1_7_0] \<rparr>"
    unfolding panda3d_1_7_0_def by (rule require_into_app)
  have w: "mismatchWarnings search_env panda3d_1_7_0 = []"
    by (simp add: mismatchWarnings_def search_env_simps panda3d_1_7_0_def)
  from C5_require_panda3d [OF c k f] c f r w show ?thesis
    by (simp add: search_packager_simps)
qed

subsection \<open>Writing a descriptor and reading it back\<close>

text \<open>
  The tag, the attributes and the children of an element under the operations that
  build the descriptor.
\<close>

lemma tag_SetAttribute [simp]: "tag (SetAttribute x k v) = tag x"
  by (cases x) simp

lemma tag_InsertEndChild [simp]: "tag (InsertEndChild x c) = tag x"
  by (cases x) simp

lemma tag_setIfTruthy [simp]: "tag (setIfTruthy x k v) = tag x"
  by (simp add: setIfTruthy_def split: option.split)

lemma tag_setIfTruthyValue [simp]: "tag (setIfTruthyValue x k v) = tag x"
  by (simp add: setIfTruthyValue_def split: option.split)

lemma map_of_replace:
  "map_of (map (\<lambda>item. if fst item = k then (k, v) else item) attrs) k'
     = (if k' = k then (if k \<in> fst ` set attrs then Some v else None) else map_of attrs k')"
proof (induction attrs)
  case Nil
  then show ?case by simp
next
  case (Cons a attrs)
  obtain a1 a2 where a: "a = (a1, a2)" by (cases a)
  show ?case
  proof (cases "a1 = k")
    case True
    with a Cons show ?thesis by simp
  next
    case False
    with a Cons show ?thesis by (auto split: if_splits)
  qed
qed

lemma map_of_append_new:
  "k \<notin> fst ` set attrs \<Longrightarrow>
   map_of (attrs @ [(k, v)]) k' = (if k' = k then Some v else map_of attrs k')"
  by (induction attrs) auto

lemma Attribute_SetAttribute:
  "Attribute (SetAttribute x k v) k' = (if k' = k then Some v else Attribute x k')"
proof (cases x)
  case (Element t attrs children)
  show ?thesis
  proof (cases "k \<in> fst ` set attrs")
    case True
    with Element show ?thesis
      by (simp add: map_of_replace)
  next
    case False
    with Element map_of_append_new [OF False, of v k'] show ?thesis
      by (simp del: map_of_append)
  qed
qed

lemma Attribute_InsertEndChild [simp]: "Attribute (InsertEndChild x c) k = Attribute x k"
  by (cases x) simp

lemma Attribute_setIfTruthy:
  "Attribute (setIfTruthy x k v) k' = (if k' = k \<and> truthy v then v else Attribute x k')"
  by (auto simp: setIfTruthy_def truthy_def Attribute_SetAttribute split: option.split)

lemma childElements_SetAttribute [simp]: "childElements (SetAttribute x k v) t = childElements x t"
  by (cases x) simp

lemma childElements_setIfTruthy [simp]: "childElements (setIfTruthy x k v) t = childElements x t"
  by (simp add: setIfTruthy_def split: option.split)

lemma childElements_setIfTruthyValue [simp]:
  "childElements (setIfTruthyValue x k v) t = childElements x t"
  by (simp add: setIfTruthyValue_def split: option.split)

lemma Attribute_setIfTruthyValue:
  "k' \<noteq> k \<Longrightarrow> Attribute (setIfTruthyValue x k v) k' = Attribute x k'"
  by (simp add: setIfTruthyValue_def Attribute_SetAttribute split: option.split)

lemma childElements_InsertEndChild:
  "childElements (InsertEndChild x c) t = childElements x t @ (if tag c = t then [c] else [])"
  by (cases x) simp

lemma Attribute_foldl_InsertEndChild [simp]:
  "Attribute (foldl InsertEndChild x cs) k = Attribute x k"
  by (induction cs arbitrary: x) simp_all

lemma childElements_foldl_InsertEndChild:
  "childElements (foldl InsertEndChild x cs) t = childElements x t @ filter (\<lambda>c. tag c = t) cs"
  by (induction cs arbitrary: x) (simp_all add: childElements_InsertEndChild)

lemma tag_getFileSpec [simp]: "tag (getFileSpec e element pathname name) = element"
  by (simp add: getFileSpec_def)

lemma Attribute_addConfigs [simp]: "Attribute (addConfigs self x) k = Attribute x k"
  by (simp add: addConfigs_def)

lemma tag_foldl_config:
  "tag (foldl (\<lambda>xconfig (variable, val). SetAttribute xconfig variable (config_string val)) x cs)
     = tag x"
  by (induction cs arbitrary: x) (simp_all add: case_prod_beta)

lemma childElements_addConfigs:
  "childElements (addConfigs self x) ''patch'' = childElements x ''patch''"
  by (simp add: addConfigs_def childElements_InsertEndChild tag_foldl_config)

lemma addRequires_keeps:
  "addRequires wp reqs x = Inr x' \<Longrightarrow>
   Attribute x' k = Attribute x k \<and> childElements x' ''patch'' = childElements x ''patch''
   \<and> tag x' = tag x"
proof (induction reqs arbitrary: x)
  case Nil
  then show ?case by simp
next
  case (Cons package rest)
  then show ?case
    by (auto simp: Let_def childElements_InsertEndChild split: option.splits)
qed

lemma set_insert_by: "set (insert_by lt x ys) = insert x (set ys)"
  by (induction ys) auto

lemma set_sort_by: "set (sort_by lt xs) = set xs"
  by (induction xs) (simp_all add: sort_by_def set_insert_by)

text \<open>
  What \<open>readDescFile\<close> assigns: a patch version that is not the empty string, and a
  list of elements with the tag \<open>patch\<close>.
\<close>

lemma readDescFile_patchVersion: "patchVersion (readDescFile e pkgr p) \<noteq> []"
  by (simp add: readDescFile_def Let_def split: option.split)

lemma filter_tag_all: "list_all (\<lambda>x. tag x = t) (filter (\<lambda>child. tag child = t) cs)"
  by (simp add: list_all_iff)

lemma readDescFile_patches: "list_all (\<lambda>x. tag x = ''patch'') (patches (readDescFile e pkgr p))"
proof -
  have "\<And>x. list_all (\<lambda>x. tag x = ''patch'') (childElements x ''patch'')"
  proof -
    fix x show "list_all (\<lambda>x. tag x = ''patch'') (childElements x ''patch'')"
      by (cases x) (simp add: list_all_iff)
  qed
  then show ?thesis
    by (simp add: readDescFile_def Let_def split: option.split)
qed

lemma readDescFile_keeps:
  "packageDesc (readDescFile e pkgr p) = packageDesc p"
  "extracts (readDescFile e pkgr p) = extracts p"
  by (simp_all add: readDescFile_def Let_def split: option.split)

lemma filter_none: "list_all (\<lambda>x. tag x \<noteq> t) cs \<Longrightarrow> filter (\<lambda>c. tag c = t) cs = []"
  by (simp add: list_all_iff filter_empty_conv)

lemma filter_all: "list_all (\<lambda>x. tag x = t) cs \<Longrightarrow> filter (\<lambda>c. tag c = t) cs = cs"
  by (simp add: list_all_iff filter_id_conv)

text \<open>
  The document that \<open>writeDescFile\<close> saves: its package element has no
  \<open>patch_version\<close>, has the patch version of the package as \<open>last_patch_version\<close>,
  and its children with the tag \<open>patch\<close> are the patch records of the package, in
  their order.
\<close>

lemma writeDescFile_document:
  assumes w: "writeDescFile e pkgr self = Inr (self2, e2)"
    and pt: "list_all (\<lambda>x. tag x = ''patch'') (patches self)"
    and ex: "extracts_wf self"
  shows "\<exists>x. xmlFiles e2 (Filename2 (installDir pkgr) (packageDesc self))
               = Some [Declaration ''1.0'' ''utf-8'' [], ElementNode x]
             \<and> tag x = ''package''
             \<and> Attribute x ''patch_version'' = None
             \<and> Attribute x ''last_patch_version'' = Some (patchVersion self)
             \<and> childElements x ''patch'' = patches self"
    and "packageDesc self2 = packageDesc self"
proof -
  let ?x5 = "addConfigs self
               (SetAttribute
                  (setIfTruthyValue
                     (setIfTruthy (SetAttribute (Element ''package'' [] []) ''name'' (packageName self))
                        ''platform'' (platform self))
                     ''version'' (version self))
                  ''last_patch_version'' (patchVersion self))"
  from w obtain x6 where x6: "addRequires (truthy (platform self)) (requires self) ?x5 = Inr x6"
    by (auto simp: writeDescFile_def Let_def split: sum.splits)
  have a5: "Attribute ?x5 ''patch_version'' = None"
    "Attribute ?x5 ''last_patch_version'' = Some (patchVersion self)"
    by (simp_all add: Attribute_SetAttribute Attribute_setIfTruthy Attribute_setIfTruthyValue)
  have c5: "childElements ?x5 ''patch'' = []"
    by (simp add: childElements_addConfigs)
  have t5: "tag ?x5 = ''package''"
    by (simp add: addConfigs_def)
  have a6: "Attribute x6 ''patch_version'' = None"
    "Attribute x6 ''last_patch_version'' = Some (patchVersion self)"
    "childElements x6 ''patch'' = []"
    using addRequires_keeps [OF x6] a5 c5 by simp_all
  have t6: "tag x6 = ''package''"
    using addRequires_keeps [OF x6] t5 by simp
  let ?x9 = "(let x7 = InsertEndChild x6
                         (getFileSpec e ''uncompressed_archive'' (packageFullpath self)
                            (packageBasename self));
                  x8 = InsertEndChild x7
                         (getFileSpec e ''compressed_archive'' (packageFullpath self @ ''.pz'')
                            (packageBasename self @ ''.pz''))
              in if fs_exists e (packageFullpath self @ ''.base'')
                 then InsertEndChild x8
                        (getFileSpec e ''base_version'' (packageFullpath self @ ''.base'')
                           (packageBasename self @ ''.base''))
                 else x8)"
  have a9: "Attribute ?x9 ''patch_version'' = None"
    "Attribute ?x9 ''last_patch_version'' = Some (patchVersion self)"
    "childElements ?x9 ''patch'' = []"
    "tag ?x9 = ''package''"
    using a6 t6 by (simp_all add: Let_def childElements_InsertEndChild)
  let ?sorted = "sort_by (\<lambda>a b. py_str_less (fst a) (fst b)) (extracts self)"
  let ?x11 = "foldl InsertEndChild (foldl InsertEndChild ?x9 (patches self)) (map snd ?sorted)"
  have ex2: "filter (\<lambda>c. tag c = ''patch'') (map snd ?sorted) = []"
    using ex by (auto simp: extracts_wf_def list_all_iff filter_empty_conv set_sort_by)
  have p2: "filter (\<lambda>c. tag c = ''patch'') (patches self) = patches self"
    using pt by (rule filter_all)
  have a11: "Attribute ?x11 ''patch_version'' = None"
    "Attribute ?x11 ''last_patch_version'' = Some (patchVersion self)"
    using a9 by simp_all
  have c11: "childElements ?x11 ''patch'' = patches self"
    using a9(3) ex2 p2 by (simp add: childElements_foldl_InsertEndChild)
  have t11: "tag ?x11 = ''package''"
  proof -
    have "\<And>x cs. tag (foldl InsertEndChild x cs) = tag x"
    proof -
      fix x :: xml and cs show "tag (foldl InsertEndChild x cs) = tag x"
        by (induction cs arbitrary: x) simp_all
    qed
    with a9(4) show ?thesis by simp
  qed
  from w x6 have e2: "e2 = e\<lparr> xmlFiles := (xmlFiles e)
                            (Filename2 (installDir pkgr) (packageDesc self)
                               \<mapsto> [Declaration ''1.0'' ''utf-8'' [], ElementNode ?x11]) \<rparr>"
    and s2: "self2 = self\<lparr> extracts := ?sorted \<rparr>"
    by (simp_all add: writeDescFile_def Let_def)
  from e2 a11 c11 t11
  show "\<exists>x. xmlFiles e2 (Filename2 (installDir pkgr) (packageDesc self))
               = Some [Declaration ''1.0'' ''utf-8'' [], ElementNode x]
             \<and> tag x = ''package''
             \<and> Attribute x ''patch_version'' = None
             \<and> Attribute x ''last_patch_version'' = Some (patchVersion self)
             \<and> childElements x ''patch'' = patches self"
    by simp
  from s2 show "packageDesc self2 = packageDesc self" by simp
qed

text \<open>
  \<open>addComponent\<close> keeps the extract table well-formed.
\<close>

lemma addComponent_extracts_wf:
  "extracts_wf p \<Longrightarrow> extracts_wf (addComponent e p file)"
  by (simp add: addComponent_def extracts_wf_def Let_def)

text \<open>
  C8: \<open>writeDescFile\<close> is called for a package with the patch-version counter
  \<open>patchVersion self\<close> and the list of patch records \<open>patches self\<close>, and returns
  normally.  Then a \<open>readDescFile\<close> on the same path loads the document, finds its
  package element, and assigns the same patch version and the same list of patch
  records, in the same order.  The patch version is not the empty string, the patch
  records are elements with the tag \<open>patch\<close>, and the extract table holds elements with
  the tag \<open>extract\<close>: this holds of every package the code writes, because
  \<open>readDescFile\<close> is the only method that assigns the patch version and the patch
  records (\<open>readDescFile_patchVersion\<close>, \<open>readDescFile_patches\<close>) and
  \<open>addComponent\<close> the only one that adds to the extract table
  (\<open>addComponent_extracts_wf\<close>).
\<close>

theorem C8_descriptor_roundtrip:
  assumes w: "writeDescFile e pkgr self = Inr (self2, e2)"
    and pv: "patchVersion self \<noteq> []"
    and pt: "list_all (\<lambda>x. tag x = ''patch'') (patches self)"
    and ex: "extracts_wf self"
  shows "(\<exists>doc xpackage. xmlFiles e2 (Filename2 (installDir pkgr) (packageDesc self2)) = Some doc
            \<and> doc_FirstChildElement doc ''package'' = Some xpackage)
       \<and> patchVersion (readDescFile e2 pkgr self2) = patchVersion self
       \<and> patches (readDescFile e2 pkgr self2) = patches self"
proof -
  from writeDescFile_document [OF w pt ex]
  obtain x where x: "xmlFiles e2 (Filename2 (installDir pkgr) (packageDesc self))
               = Some [Declaration ''1.0'' ''utf-8'' [], ElementNode x]"
      "tag x = ''package''"
      "Attribute x ''patch_version'' = None"
      "Attribute x ''last_patch_version'' = Some (patchVersion self)"
      "childElements x ''patch'' = patches self"
    and d: "packageDesc self2 = packageDesc self"
    by blast
  from x d pv show ?thesis
    by (simp add: readDescFile_def Let_def truthy_def)
qed

text \<open>
  The package \<open>pkg_models_3\<close> is what \<open>readDescFile\<close> makes of \<open>pkg_models\<close> when
  the descriptor on disk has patch version 3 and two patch records.
\<close>

lemma read_old_descriptor:
  "readDescFile desc_env example_packager pkg_models = pkg_models_3"
  by (simp add: readDescFile_def desc_env_def pkg_models_def pkg_models_3_def Package_init_def
      example_packager_def Packager_init_def Filename2_def old_descriptor_def Let_def truthy_def)

text \<open>
  \<open>pkg_models_3\<close> is written where no descriptor exists, and read back.
\<close>

theorem C8_descriptor_roundtrip_witness:
  "patchVersion pkg_models_3 \<noteq> []
   \<and> list_all (\<lambda>x. tag x = ''patch'') (patches pkg_models_3)
   \<and> extracts_wf pkg_models_3
   \<and> xmlFiles example_env = Map.empty
   \<and> (\<exists>p2 e2. writeDescFile example_env example_packager pkg_models_3 = Inr (p2, e2)
          \<and> patchVersion (readDescFile e2 example_packager p2) = ''3''
          \<and> patches (readDescFile e2 example_packager p2)
              = [Element ''patch'' [(''filename'', ''models.1.patch'')] [],
                 Element ''patch'' [(''filename'', ''models.2.patch'')] []])"
proof -
  have pv: "patchVersion pkg_models_3 \<noteq> []"
    by (simp add: pkg_models_3_def)
  have pt: "list_all (\<lambda>x. tag x = ''patch'') (patches pkg_models_3)"
    by (simp add: pkg_models_3_def)
  have ex: "extracts_wf pkg_models_3"
    by (simp add: extracts_wf_def pkg_models_3_def pkg_models_def)
  have r: "requires pkg_models_3 = []"
    by (simp add: pkg_models_3_def pkg_models_def Package_init_def)
  have "\<exists>p2 e2. writeDescFile example_env example_packager pkg_models_3 = Inr (p2, e2)"
    by (simp add: writeDescFile_def Let_def r)
  then obtain p2 e2 where w: "writeDescFile example_env example_packager pkg_models_3 = Inr (p2, e2)"
    by blast
  have v: "patchVersion pkg_models_3 = ''3''"
    "patches pkg_models_3 = [Element ''patch'' [(''filename'', ''models.1.patch'')] [],
                 Element ''patch'' [(''filename'', ''models.2.patch'')] []]"
    by (simp_all add: pkg_models_3_def)
  have m: "xmlFiles example_env = Map.empty"
    by (simp add: example_env_def)
  from C8_descriptor_roundtrip [OF w pv pt ex] pv pt ex w m show ?thesis
    by (simp add: v)
qed

subsection \<open>Closing a package without a main module\<close>

text \<open>
  The steps of \<open>close\<close> before the install method keep what the package definition
  declared.
\<close>

lemma same_declaration_refl: "same_declaration a a"
  by (simp add: same_declaration_def)

lemma same_declaration_trans:
  "same_declaration a b \<Longrightarrow> same_declaration b c \<Longrightarrow> same_declaration a c"
  by (simp add: same_declaration_def)

lemma closeConfigs_same: "same_declaration self (closeConfigs pkgr self)"
  by (simp add: closeConfigs_def same_declaration_def Let_def split: option.split)

lemma closeConfigs_platformSpecificConfig:
  "platformSpecificConfig (closeConfigs pkgr self) \<noteq> None"
  by (simp add: closeConfigs_def Let_def split: option.split)

lemma requireOne_same:
  "same_declaration a (requireOne a p2)
   \<and> platformSpecificConfig (requireOne a p2) = platformSpecificConfig a"
  by (simp add: requireOne_def same_declaration_def)

lemma foldl_requireOne_same:
  "same_declaration a (foldl requireOne a ps)
   \<and> platformSpecificConfig (foldl requireOne a ps) = platformSpecificConfig a"
proof (induction ps arbitrary: a)
  case Nil
  then show ?case by (simp add: same_declaration_refl)
next
  case (Cons p2 ps)
  from requireOne_same [of a p2] Cons [of "requireOne a p2"] show ?case
    by (auto intro: same_declaration_trans)
qed

lemma Package_requirePackage_same:
  "same_declaration a (Package_requirePackage a package)
   \<and> platformSpecificConfig (Package_requirePackage a package) = platformSpecificConfig a"
  unfolding Package_requirePackage_def by (rule foldl_requireOne_same)

lemma require_loop_same:
  "currentPackage pkgr = Some c0 \<Longrightarrow> require_loop e pkgr vers hst names = (pkgr1, r) \<Longrightarrow>
   \<exists>c1. currentPackage pkgr1 = Some c1 \<and> same_declaration c0 c1
        \<and> platformSpecificConfig c1 = platformSpecificConfig c0"
proof (induction names arbitrary: pkgr c0)
  case Nil
  then show ?case by (auto simp: same_declaration_refl)
next
  case (Cons pname rest)
  let ?pv = "if pname = ''panda3d'' \<and> vers = None then Some (getPackageVersionString e) else vers"
  let ?ph = "if pname = ''panda3d'' \<and> hst = None then Some (getPackageHostUrl e) else hst"
  show ?case
  proof (cases "findPackage e pkgr pname None ?pv ?ph (requires c0)")
    case (Inl err)
    with Cons.prems show ?thesis
      by (auto simp: Let_def same_declaration_refl)
  next
    case (Inr res)
    obtain found pkgrA where res: "res = (found, pkgrA)" by (cases res)
    from Inr res have keep: "currentPackage pkgrA = Some c0"
      using findPackage_keeps [of e pkgr pname None ?pv ?ph "requires c0" found pkgrA] Cons.prems(1)
      by simp
    show ?thesis
    proof (cases found)
      case None
      with Cons.prems Inr res keep show ?thesis
        by (auto simp: Let_def same_declaration_refl)
    next
      case (Some package)
      let ?c = "Package_requirePackage c0 package"
      let ?pkgrB = "pkgrA\<lparr> notify := notify pkgrA @ mismatchWarnings e package,
                           currentPackage := Some ?c \<rparr>"
      have rp: "requirePackage e pkgrA package = (?pkgrB, None)"
        using keep by (simp add: requirePackage_def)
      from Cons.prems Inr res Some rp
      have loop: "require_loop e ?pkgrB vers hst rest = (pkgr1, r)"
        by (simp add: Let_def)
      have cur: "currentPackage ?pkgrB = Some ?c" by simp
      from Cons.IH [OF cur loop] obtain c1 where
        c1: "currentPackage pkgr1 = Some c1" "same_declaration ?c c1"
            "platformSpecificConfig c1 = platformSpecificConfig ?c"
        by blast
      with Package_requirePackage_same [of c0 package] show ?thesis
        by (auto intro: same_declaration_trans)
    qed
  qed
qed

lemma do_require_same:
  "currentPackage pkgr = Some c0 \<Longrightarrow> do_require e pkgr names kw = (pkgr1, r) \<Longrightarrow>
   \<exists>c1. currentPackage pkgr1 = Some c1 \<and> same_declaration c0 c1
        \<and> platformSpecificConfig c1 = platformSpecificConfig c0"
proof -
  assume cur: "currentPackage pkgr = Some c0" and d: "do_require e pkgr names kw = (pkgr1, r)"
  show ?thesis
  proof (cases "require_cleanup [''version'', ''host''] kw")
    case (Inl err)
    with cur d show ?thesis
      by (auto simp: do_require_def same_declaration_refl)
  next
    case (Inr kw1)
    show ?thesis
    proof (cases kw1)
      case Nil
      with cur d Inr have "require_loop e pkgr (map_of kw ''version'') (map_of kw ''host'') names
                             = (pkgr1, r)"
        by (simp add: do_require_def)
      from require_loop_same [OF cur this] show ?thesis .
    next
      case (Cons item items)
      with cur d Inr show ?thesis
        by (auto simp: do_require_def same_declaration_refl)
    qed
  qed
qed

lemma closeRequire_same:
  "closeRequire e pkgr self = (pkgr1, r) \<Longrightarrow>
   \<exists>c1. currentPackage pkgr1 = Some c1 \<and> same_declaration self c1
        \<and> platformSpecificConfig c1 = platformSpecificConfig self"
proof (cases "p3dApplication self")
  case True
  assume c: "closeRequire e pkgr self = (pkgr1, r)"
  let ?s = "self\<lparr> compressionLevel := 6 \<rparr>"
  have cur: "currentPackage (pkgr\<lparr> currentPackage := Some ?s \<rparr>) = Some ?s" by simp
  from c True have d: "do_require e (pkgr\<lparr> currentPackage := Some ?s \<rparr>) [''panda3d''] [] = (pkgr1, r)"
    by (simp add: closeRequire_def)
  from do_require_same [OF cur d] show ?thesis
    by (auto simp: same_declaration_def)
next
  case False
  assume "closeRequire e pkgr self = (pkgr1, r)"
  with False show ?thesis
    by (auto simp: closeRequire_def same_declaration_refl)
qed

lemma inheritVersion_same:
  "same_declaration a (inheritVersion a)
   \<and> platformSpecificConfig (inheritVersion a) = platformSpecificConfig a"
  by (simp add: inheritVersion_def same_declaration_def split: option.split)

text \<open>
  The exceptions of the install methods: none of them is the error of the main-module
  check, except the one that the check raises.
\<close>

lemma isExcluded_total:
  "platformSpecificConfig pkg \<noteq> None \<Longrightarrow> \<exists>b. isExcluded e pkgr pkg file = Inr b"
  by (auto simp: isExcluded_def Let_def split: option.split)

lemma isExcluded_freezer:
  "isExcluded e pkgr (self\<lparr> freezerModules := ms \<rparr>) file = isExcluded e pkgr self file"
  by (simp add: isExcluded_def Let_def)

lemma isExcluded_error:
  "isExcluded e pkgr pkg file = Inl err \<Longrightarrow> err = AttributeError ''platformSpecificConfig''"
  by (auto simp: isExcluded_def Let_def split: option.splits if_splits)

lemma otherError_simps [simp]:
  "otherError (AttributeError a)"
  "otherError (TypeError a)"
  "otherError (StandardError a)"
  "otherError (KeyError a)"
  "otherError OutsideOfPackageError"
  "c \<noteq> CHR ''N'' \<Longrightarrow> otherError (PackagerError (c # msg))"
  by (simp_all add: otherError_def mainModuleError_def)

lemma addPyFile_keeps:
  "packageName (addPyFile self pf) = packageName self"
  "p3dApplication (addPyFile self pf) = p3dApplication self"
  "mainModule (addPyFile self pf) = mainModule self"
  "platformSpecificConfig (addPyFile self pf) = platformSpecificConfig self"
  "multifile (addPyFile self pf) = multifile self"
  by (simp_all add: addPyFile_def Let_def)

lemma scanModules_keeps:
  "scanModules e pkgr self fs = (self2, r) \<Longrightarrow>
   packageName self2 = packageName self \<and> p3dApplication self2 = p3dApplication self
   \<and> mainModule self2 = mainModule self \<and> multifile self2 = multifile self"
proof (induction fs arbitrary: self)
  case Nil
  then show ?case by simp
next
  case (Cons pf rest)
  show ?case
  proof (cases "isExcluded e pkgr self pf")
    case (Inl err)
    with Cons.prems show ?thesis by simp
  next
    case (Inr excluded)
    show ?thesis
    proof (cases "excluded \<or> unprocessed pf")
      case True
      with Cons.prems Inr have "scanModules e pkgr self rest = (self2, r)"
        by (auto split: if_splits)
      from Cons.IH [OF this] show ?thesis .
    next
      case False
      show ?thesis
      proof (cases "getExtension (newName pf) = ''dc''")
        case True
        show ?thesis
        proof (cases "dcImportModules e (filename pf)")
          case None
          with Cons.prems Inr False True show ?thesis by simp
        next
          case (Some names)
          with Cons.prems Inr False True
          have "scanModules e pkgr
                  (self\<lparr> freezerModules := foldl addModule (freezerModules self) names \<rparr>) rest
                  = (self2, r)"
            by simp
          from Cons.IH [OF this] show ?thesis by simp
        qed
      next
        case notdc: False
        show ?thesis
        proof (cases "getExtension (newName pf) = ''py''")
          case True
          with Cons.prems Inr False notdc
          have "scanModules e pkgr (addPyFile self pf) rest = (self2, r)"
            by simp
          from Cons.IH [OF this] show ?thesis by (simp add: addPyFile_keeps)
        next
          case notpy: False
          with Cons.prems Inr False notdc
          have "scanModules e pkgr self rest = (self2, r)"
            by simp
          from Cons.IH [OF this] show ?thesis .
        qed
      qed
    qed
  qed
qed

lemma scanModules_error:
  "scanModules e pkgr self fs = (self2, Some err) \<Longrightarrow> otherError err"
proof (induction fs arbitrary: self)
  case Nil
  then show ?case by simp
next
  case (Cons pf rest)
  show ?case
  proof (cases "isExcluded e pkgr self pf")
    case (Inl err1)
    with Cons.prems isExcluded_error [OF Inl] show ?thesis by auto
  next
    case (Inr excluded)
    with Cons.prems Cons.IH show ?thesis
      by (auto split: if_splits option.splits)
  qed
qed

lemma scanModules_succeeds:
  "platformSpecificConfig self \<noteq> None \<Longrightarrow>
   list_all (\<lambda>f. getExtension (newName f) = ''dc'' \<and> \<not> unprocessed f
                   \<longrightarrow> dcImportModules e (filename f) \<noteq> None) fs \<Longrightarrow>
   snd (scanModules e pkgr self fs) = None"
proof (induction fs arbitrary: self)
  case Nil
  then show ?case by simp
next
  case (Cons pf rest)
  from isExcluded_total [OF Cons.prems(1)] obtain b where b: "isExcluded e pkgr self pf = Inr b"
    by blast
  from Cons.prems(2)
  have rest: "list_all (\<lambda>f. getExtension (newName f) = ''dc'' \<and> \<not> unprocessed f
                              \<longrightarrow> dcImportModules e (filename f) \<noteq> None) rest"
    by simp
  have 1: "snd (scanModules e pkgr self rest) = None"
    using Cons.IH [OF Cons.prems(1) rest] .
  have 2: "snd (scanModules e pkgr
                  (self\<lparr> freezerModules := foldl addModule (freezerModules self) names \<rparr>) rest)
             = None" for names
    using Cons.IH [OF _ rest, of "self\<lparr> freezerModules := foldl addModule (freezerModules self) names \<rparr>"]
      Cons.prems(1) by simp
  have 3: "snd (scanModules e pkgr (addPyFile self pf) rest) = None"
    using Cons.IH [OF _ rest, of "addPyFile self pf"] Cons.prems(1)
    by (simp add: addPyFile_keeps)
  show ?case
  proof (cases "\<not> b \<and> \<not> unprocessed pf \<and> getExtension (newName pf) = ''dc''")
    case True
    with Cons.prems(2) obtain names where n: "dcImportModules e (filename pf) = Some names"
      by auto
    from True b n 2 [of names] show ?thesis by simp
  next
    case False
    with b 1 3 show ?thesis by auto
  qed
qed

lemma openReadWrite_simps [simp]:
  "dcImportModules (openReadWrite e f) = dcImportModules e"
  "assembleContents (openReadWrite e f) = assembleContents e"
  "xmlFiles (openReadWrite e f) = xmlFiles e"
  "multifiles (openReadWrite e f) f = Some []"
  "fs_exists (openReadWrite e f) f"
  "g \<noteq> f \<Longrightarrow> multifiles (openReadWrite e f) g = multifiles e g"
  "g \<noteq> f \<Longrightarrow> fs_exists (openReadWrite e f) g = fs_exists e g"
  by (simp_all add: openReadWrite_def)

lemma installMultifile_without_main:
  assumes "p3dApplication self" and "mainModule self = None"
  shows "\<exists>self1 err. installMultifile e pkgr self
           = ((openReadWrite e (fs_temporary e (packageName self @ ''.'') ''.mf''), pkgr, self1),
              Some err)"
    and "platformSpecificConfig self \<noteq> None \<Longrightarrow>
         list_all (\<lambda>f. getExtension (newName f) = ''dc'' \<and> \<not> unprocessed f
                         \<longrightarrow> dcImportModules e (filename f) \<noteq> None) (files self) \<Longrightarrow>
         \<exists>self1. installMultifile e pkgr self
           = ((openReadWrite e (fs_temporary e (packageName self @ ''.'') ''.mf''), pkgr, self1),
              Some (mainModuleError (packageName self)))"
proof -
  let ?self1 = "self\<lparr> multifile := [],
                       multifileHeader := (if p3dApplication self
                                           then ''#! /usr/bin/env panda3d'' @ [CHR 0x0A] else []),
                       extracts := [], components := [] \<rparr>"
  let ?e1 = "openReadWrite e (fs_temporary e (packageName self @ ''.'') ''.mf'')"
  obtain self2 r where s: "scanModules ?e1 pkgr ?self1 (files ?self1) = (self2, r)"
    by (cases "scanModules ?e1 pkgr ?self1 (files ?self1)")
  from scanModules_keeps [OF s] assms
  have k: "packageName self2 = packageName self" "p3dApplication self2" "mainModule self2 = None"
    by simp_all
  from s k show "\<exists>self1 err. installMultifile e pkgr self = ((?e1, pkgr, self1), Some err)"
    by (cases r) (simp_all add: installMultifile_def Let_def)
  assume "platformSpecificConfig self \<noteq> None"
    and "list_all (\<lambda>f. getExtension (newName f) = ''dc'' \<and> \<not> unprocessed f
                         \<longrightarrow> dcImportModules e (filename f) \<noteq> None) (files self)"
  then have "snd (scanModules ?e1 pkgr ?self1 (files ?self1)) = None"
    using scanModules_succeeds [of ?self1 ?e1 "files ?self1" pkgr] by simp
  with s have "r = None" by simp
  with s k show "\<exists>self1. installMultifile e pkgr self
                   = ((?e1, pkgr, self1), Some (mainModuleError (packageName self)))"
    by (simp add: installMultifile_def Let_def mainModuleError_def)
qed

lemma platformSpecificFiles_error:
  "platformSpecificFiles e pkgr self fs acc = Inl err \<Longrightarrow> otherError err"
proof (induction fs arbitrary: acc)
  case Nil
  then show ?case by simp
next
  case (Cons pf rest)
  show ?case
  proof (cases "isExcluded e pkgr self pf")
    case (Inl err1)
    with Cons.prems isExcluded_error [OF Inl] show ?thesis by auto
  next
    case (Inr excluded)
    with Cons.prems Cons.IH show ?thesis by auto
  qed
qed

lemma considerPlatform_error:
  "considerPlatform e pkgr self = Inl err \<Longrightarrow> otherError err"
  by (auto simp: considerPlatform_def split: option.splits sum.splits
      dest: platformSpecificFiles_error)

lemma considerPlatform_keeps:
  "considerPlatform e pkgr self = Inr self1 \<Longrightarrow>
   p3dApplication self1 = p3dApplication self \<and> packageName self1 = packageName self"
  by (auto simp: considerPlatform_def split: option.splits sum.splits if_splits)

lemma notExcluded_error:
  "notExcluded e pkgr self fs = Inl err \<Longrightarrow> otherError err"
proof (induction fs arbitrary: err)
  case Nil
  then show ?case by simp
next
  case (Cons pf rest)
  show ?case
  proof (cases "isExcluded e pkgr self pf")
    case (Inl err1)
    with Cons.prems isExcluded_error [OF Inl] show ?thesis by auto
  next
    case (Inr excluded)
    with Cons.prems Cons.IH show ?thesis by (auto split: sum.splits)
  qed
qed

lemma addTruthyValue_error:
  "addTruthyValue s sep v = Inl err \<Longrightarrow> otherError err"
  by (auto simp: addTruthyValue_def split: option.splits if_splits config_value.splits)

lemma addRequires_error:
  "addRequires wp reqs x = Inl err \<Longrightarrow> otherError err"
proof (induction reqs arbitrary: x)
  case Nil
  then show ?case by simp
next
  case (Cons package rest)
  then show ?case
    by (auto simp: Let_def split: option.splits)
qed

lemma writeDescFile_error:
  "writeDescFile e pkgr self = Inl err \<Longrightarrow> otherError err"
  by (auto simp: writeDescFile_def Let_def split: sum.splits dest: addRequires_error)

lemma writeImportDescFile_error:
  "writeImportDescFile e pkgr self = Inl err \<Longrightarrow> otherError err"
  by (auto simp: writeImportDescFile_def Let_def split: sum.splits option.splits
      dest: addRequires_error)

lemma makeP3dInfo_error:
  "makeP3dInfo self = Inl err \<Longrightarrow> otherError err"
  by (auto simp: makeP3dInfo_def Let_def split: sum.splits option.splits dest: addRequires_error)

lemma publishMultifile_error:
  "snd (publishMultifile e pkgr self) = Some err \<Longrightarrow> otherError err"
  by (auto simp: publishMultifile_def Let_def split: if_splits sum.splits prod.splits
      dest: writeDescFile_error writeImportDescFile_error)

lemma finishMultifile_error:
  assumes "snd (finishMultifile e pkgr self tmp) = Some err"
  shows "otherError err"
proof (cases "considerPlatform e pkgr self")
  case (Inl err1)
  with assms considerPlatform_error [OF Inl] show ?thesis
    by (simp add: finishMultifile_def)
next
  case (Inr self1)
  show ?thesis
  proof (cases "addTruthyValue (packageName self1) ''.'' (version self1)")
    case (Inl err1)
    with assms Inr addTruthyValue_error [OF Inl] show ?thesis
      by (simp add: finishMultifile_def)
  next
    case basev: (Inr basev)
    show ?thesis
    proof (cases "addTruthyValue (packageName self1) ''/'' (version self1)")
      case (Inl err1)
      with assms Inr basev addTruthyValue_error [OF Inl] show ?thesis
        by (simp add: finishMultifile_def)
    next
      case dirv: (Inr dirv)
      with assms Inr basev show ?thesis
        by (auto simp: finishMultifile_def Let_def split: if_splits sum.splits
            dest: makeP3dInfo_error publishMultifile_error)
    qed
  qed
qed

lemma installMultifile_error:
  assumes "\<not> p3dApplication self" and "snd (installMultifile e pkgr self) = Some err"
  shows "otherError err"
proof -
  let ?self1 = "self\<lparr> multifile := [],
                       multifileHeader := (if p3dApplication self
                                           then ''#! /usr/bin/env panda3d'' @ [CHR 0x0A] else []),
                       extracts := [], components := [] \<rparr>"
  let ?e1 = "openReadWrite e (fs_temporary e (packageName self @ ''.'') ''.mf'')"
  obtain self2 r where s: "scanModules ?e1 pkgr ?self1 (files ?self1) = (self2, r)"
    by (cases "scanModules ?e1 pkgr ?self1 (files ?self1)")
  from scanModules_keeps [OF s] assms(1) have napp: "\<not> p3dApplication self2" by simp
  show ?thesis
  proof (cases r)
    case (Some err1)
    with s assms(2) scanModules_error [of ?e1 pkgr ?self1 "files ?self1" self2 err1] show ?thesis
      by (simp add: installMultifile_def Let_def)
  next
    case None
    with s napp assms(2) show ?thesis
      by (auto simp: installMultifile_def Let_def split: sum.splits option.splits
          dest: finishMultifile_error)
  qed
qed

lemma installSolo_error:
  "snd (installSolo e pkgr self) = Some err \<Longrightarrow> otherError err"
  by (auto simp: installSolo_def Let_def split: sum.splits list.splits
      dest: considerPlatform_error notExcluded_error addTruthyValue_error)

text \<open>
  \<open>Package.close\<close>, step by step.
\<close>

lemma Package_close_unfold:
  "Package_close e pkgr self =
     (if packageName (closeVersion e (closeConfigs pkgr self)) = ''panda3d''
         \<and> version (closeVersion e (closeConfigs pkgr self))
             \<noteq> Some (CStr (getPackageVersionString e))
      then ((e, pkgr, closeVersion e (closeConfigs pkgr self)),
            Some (PackagerError (''mismatched Panda3D version: requested ''
                    @ format_value (version (closeVersion e (closeConfigs pkgr self)))
                    @ '', but Panda3D is built as '' @ getPackageVersionString e)))
      else if packageName (closeVersion e (closeConfigs pkgr self)) = ''panda3d''
              \<and> host (closeVersion e (closeConfigs pkgr self)) \<noteq> Some (getPackageHostUrl e)
      then ((e, pkgr, closeVersion e (closeConfigs pkgr self)),
            Some (PackagerError (''mismatched Panda3D host: requested ''
                    @ py_str (host (closeVersion e (closeConfigs pkgr self)))
                    @ '', but Panda3D is built as '' @ getPackageHostUrl e)))
      else closeInstall e (closeVersion e (closeConfigs pkgr self))
             (closeRequire e pkgr (closeVersion e (closeConfigs pkgr self))))"
  by (simp add: Package_close_def Let_def)

lemma closeVersion_same:
  "same_declaration a (closeVersion e a)
   \<and> platformSpecificConfig (closeVersion e a) = platformSpecificConfig a"
  by (simp add: closeVersion_def same_declaration_def)

lemma Package_close_application:
  assumes nomain: "mainModule self = None" and app: "p3dApplication self" and ns: "\<not> solo self"
  shows "\<exists>e1 pkgr1 self1 err. Package_close e pkgr self = ((e1, pkgr1, self1), Some err)
           \<and> (e1 = e \<or> e1 = openReadWrite e (fs_temporary e (packageName self @ ''.'') ''.mf''))"
    and "packageName self \<noteq> ''panda3d'' \<Longrightarrow>
         snd (closeRequire e pkgr (closeConfigs pkgr self)) = None \<Longrightarrow>
         list_all (\<lambda>f. getExtension (newName f) = ''dc'' \<and> \<not> unprocessed f
                         \<longrightarrow> dcImportModules e (filename f) \<noteq> None) (files self) \<Longrightarrow>
         \<exists>pkgr1 self1. Package_close e pkgr self
           = ((openReadWrite e (fs_temporary e (packageName self @ ''.'') ''.mf''), pkgr1, self1),
              Some (mainModuleError (packageName self)))"
proof -
  let ?e1 = "openReadWrite e (fs_temporary e (packageName self @ ''.'') ''.mf'')"
  define self4 where "self4 = closeVersion e (closeConfigs pkgr self)"
  have s4: "same_declaration self self4"
    unfolding self4_def
    using closeConfigs_same [of self pkgr] closeVersion_same [of "closeConfigs pkgr self" e]
    by (blast intro: same_declaration_trans)
  have p4: "platformSpecificConfig self4 \<noteq> None"
    unfolding self4_def
    using closeConfigs_platformSpecificConfig [of pkgr self]
      closeVersion_same [of "closeConfigs pkgr self" e] by simp
  obtain pkgr1 r where cr: "closeRequire e pkgr self4 = (pkgr1, r)"
    by (cases "closeRequire e pkgr self4")
  from closeRequire_same [OF cr] obtain c1 where
    c1: "currentPackage pkgr1 = Some c1" "same_declaration self4 c1"
        "platformSpecificConfig c1 = platformSpecificConfig self4"
    by blast
  define self6 where "self6 = inheritVersion c1"
  have s6: "same_declaration self self6"
    unfolding self6_def
    using s4 c1(2) inheritVersion_same [of c1] by (blast intro: same_declaration_trans)
  then have d6: "mainModule self6 = None" "p3dApplication self6" "\<not> solo self6"
    "packageName self6 = packageName self" "files self6 = files self"
    using nomain app ns by (simp_all add: same_declaration_def)
  have p6: "platformSpecificConfig self6 \<noteq> None"
    unfolding self6_def using p4 c1(3) inheritVersion_same [of c1] by simp
  from installMultifile_without_main(1) [OF d6(2) d6(1), of e pkgr1] d6(4)
  obtain selfA errA where inst: "installMultifile e pkgr1 self6 = ((?e1, pkgr1, selfA), Some errA)"
    by auto
  have ci: "\<exists>e1 self1 err. closeInstall e self4 (pkgr1, r) = ((e1, pkgr1, self1), Some err)
              \<and> (e1 = e \<or> e1 = ?e1)"
  proof (cases r)
    case None
    with c1(1) inst d6(3) show ?thesis
      by (simp add: closeInstall_def Let_def self6_def)
  next
    case (Some err1)
    then show ?thesis
      by (simp add: closeInstall_def)
  qed
  from ci cr show "\<exists>e1 pkgr1 self1 err. Package_close e pkgr self = ((e1, pkgr1, self1), Some err)
           \<and> (e1 = e \<or> e1 = ?e1)"
    unfolding Package_close_unfold self4_def [symmetric]
    by (auto split: if_splits)
  assume np: "packageName self \<noteq> ''panda3d''"
    and ok: "snd (closeRequire e pkgr (closeConfigs pkgr self)) = None"
    and dc: "list_all (\<lambda>f. getExtension (newName f) = ''dc'' \<and> \<not> unprocessed f
                         \<longrightarrow> dcImportModules e (filename f) \<noteq> None) (files self)"
  from np have n3: "packageName (closeConfigs pkgr self) \<noteq> ''panda3d''"
    using closeConfigs_same [of self pkgr] by (simp add: same_declaration_def)
  then have e4: "self4 = closeConfigs pkgr self"
    by (simp add: self4_def closeVersion_def)
  with cr ok have r: "r = None" by simp
  from installMultifile_without_main(2) [OF d6(2) d6(1) p6, of e pkgr1] dc d6(5) d6(4)
  obtain selfB where "installMultifile e pkgr1 self6
      = ((?e1, pkgr1, selfB), Some (mainModuleError (packageName self)))"
    by auto
  with r c1(1) d6(3)
  have "closeInstall e self4 (pkgr1, r)
          = ((?e1, pkgr1, selfB), Some (mainModuleError (packageName self)))"
    by (simp add: closeInstall_def Let_def self6_def)
  with cr n3 e4 show "\<exists>pkgr1 self1. Package_close e pkgr self
      = ((?e1, pkgr1, self1), Some (mainModuleError (packageName self)))"
    unfolding Package_close_unfold self4_def [symmetric]
    by simp
qed

lemma Package_close_library:
  assumes napp: "\<not> p3dApplication self" and err: "snd (Package_close e pkgr self) = Some err"
  shows "otherError err"
proof -
  define self4 where "self4 = closeVersion e (closeConfigs pkgr self)"
  have s4: "same_declaration self self4"
    unfolding self4_def
    using closeConfigs_same [of self pkgr] closeVersion_same [of "closeConfigs pkgr self" e]
    by (blast intro: same_declaration_trans)
  then have n4: "\<not> p3dApplication self4"
    using napp by (simp add: same_declaration_def)
  then have cr: "closeRequire e pkgr self4 = (pkgr\<lparr> currentPackage := Some self4 \<rparr>, None)"
    by (simp add: closeRequire_def)
  define self6 where "self6 = inheritVersion self4"
  have n6: "\<not> p3dApplication self6"
    unfolding self6_def using n4 inheritVersion_same [of self4] by (simp add: same_declaration_def)
  have ci: "closeInstall e self4 (closeRequire e pkgr self4)
              = (if solo self6 then installSolo e (pkgr\<lparr> currentPackage := Some self4 \<rparr>) self6
                 else installMultifile e (pkgr\<lparr> currentPackage := Some self4 \<rparr>) self6)"
    by (simp add: cr closeInstall_def Let_def self6_def)
  from err have "
      (\<exists>msg. err = PackagerError (CHR ''m'' # msg))
      \<or> snd (installSolo e (pkgr\<lparr> currentPackage := Some self4 \<rparr>) self6) = Some err
      \<or> snd (installMultifile e (pkgr\<lparr> currentPackage := Some self4 \<rparr>) self6) = Some err"
    unfolding Package_close_unfold self4_def [symmetric] ci
    by (auto split: if_splits)
  then show ?thesis
    using installSolo_error installMultifile_error [OF n6] by auto
qed

text \<open>
  C9, for a package with no main module.  If the package is an application and not a
  solo package, \<open>close\<close> raises an exception, and the only change it has made in the
  environment by then is the temporary Multifile, created with no subfiles: no
  archive and no descriptor is written to the install directory.  The exception is
  \<open>PackagerError\<close> with the message "No main_module specified for application" and the
  name of the package, raised with the temporary Multifile in place, provided the
  steps before the check pass: the package is not named panda3d, its implicit
  requirement of panda3d is resolved, and each of its files with the extension
  \<open>dc\<close> that is not marked unprocessed is parsed.  If the package is not an
  application, \<open>close\<close> never raises this exception.
\<close>

theorem C9_main_module_check:
  assumes "mainModule self = None"
  shows "(p3dApplication self \<and> \<not> solo self \<longrightarrow>
            (\<exists>e1 pkgr1 self1 err. Package_close e pkgr self = ((e1, pkgr1, self1), Some err)
               \<and> (e1 = e
                   \<or> e1 = openReadWrite e (fs_temporary e (packageName self @ ''.'') ''.mf'')))
            \<and> (packageName self \<noteq> ''panda3d''
               \<and> snd (closeRequire e pkgr (closeConfigs pkgr self)) = None
               \<and> list_all (\<lambda>f. getExtension (newName f) = ''dc'' \<and> \<not> unprocessed f
                               \<longrightarrow> dcImportModules e (filename f) \<noteq> None) (files self)
               \<longrightarrow> (\<exists>pkgr1 self1. Package_close e pkgr self
                      = ((openReadWrite e (fs_temporary e (packageName self @ ''.'') ''.mf''),
                          pkgr1, self1),
                         Some (mainModuleError (packageName self))))))
       \<and> (\<not> p3dApplication self \<longrightarrow>
            snd (Package_close e pkgr self) \<noteq> Some (mainModuleError (packageName self)))"
proof -
  have lib: "\<not> p3dApplication self \<Longrightarrow>
             snd (Package_close e pkgr self) \<noteq> Some (mainModuleError (packageName self))"
  proof
    assume n: "\<not> p3dApplication self"
      and "snd (Package_close e pkgr self) = Some (mainModuleError (packageName self))"
    from Package_close_library [OF this] show False
      by (auto simp: otherError_def)
  qed
  from Package_close_application [OF assms, of e pkgr] lib show ?thesis
    by blast
qed

text \<open>
  Closing the packages \<open>viewer_app\<close> and \<open>viewer_solo\<close> in \<open>search_env\<close>.
\<close>

lemma findPackage_currentPackage:
  "findPackage e (pkgr\<lparr> currentPackage := c \<rparr>) n pl v h reqs
     = (case findPackage e pkgr n pl v h reqs of
          Inl err \<Rightarrow> Inl err
        | Inr (found, pkgr1) \<Rightarrow> Inr (found, pkgr1\<lparr> currentPackage := c \<rparr>))"
  by (simp add: findPackage_def Let_def split: option.split sum.split)

lemma closeRequire_search:
  assumes "p3dApplication self" and "requires self = []"
  shows "closeRequire search_env (search_packager\<lparr> currentPackage := c \<rparr>) self
     = (search_packager_1_7_0
          \<lparr> notify := [],
            currentPackage :=
              Some (Package_requirePackage (self\<lparr> compressionLevel := 6 \<rparr>) panda3d_1_7_0) \<rparr>,
        None)"
proof -
  have w: "mismatchWarnings search_env panda3d_1_7_0 = []"
    by (simp add: mismatchWarnings_def search_env_simps panda3d_1_7_0_def)
  have n: "notify search_packager_1_7_0 = []"
    by (simp add: search_packager_1_7_0_def search_packager_simps)
  from assms show ?thesis
    by (simp add: closeRequire_def do_require_def search_env_simps findPackage_currentPackage
        find_panda3d_1_7_0 requirePackage_def w n)
qed

lemma closeConfigs_Package_init:
  "closeConfigs pkgr ((Package_init name)\<lparr> p3dApplication := a, solo := s \<rparr>)
     = (Package_init name)\<lparr> p3dApplication := a, solo := s, host := Some (packager_host pkgr),
          platformSpecificConfig := Some None \<rparr>"
  by (simp add: closeConfigs_def Package_init_def truthy_def Let_def)

lemma require_first:
  "requires self = [] \<Longrightarrow>
   Package_requirePackage self (ReqPackage n pl v h [] [] [])
     = self\<lparr> requires := [ReqPackage n pl v h [] [] []] \<rparr>"
  by (simp add: Package_requirePackage_def requireOne_def)

lemma search_env_scanDirectory: "fs_scanDirectory search_env d = []"
  by (simp add: search_env_def example_env_def)

lemma installSolo_empty:
  "files self = [] \<Longrightarrow> platformSpecificConfig self = Some None \<Longrightarrow> version self = None \<Longrightarrow>
   snd (installSolo search_env pkgr self) = None"
  by (simp add: installSolo_def considerPlatform_def addTruthyValue_def Let_def
      search_env_scanDirectory)

text \<open>
  C9 does not hold of a solo package: the application \<open>viewer_solo\<close>, a solo package
  with no main module, closes normally.  \<open>close\<close> installs a solo package with
  \<open>installSolo\<close>, which has no main-module check.
\<close>

theorem C9_counterexample:
  "p3dApplication viewer_solo \<and> solo viewer_solo \<and> mainModule viewer_solo = None
   \<and> currentPackage solo_packager = Some viewer_solo
   \<and> snd (Package_close search_env solo_packager viewer_solo) = None"
proof -
  define s4 where "s4 = (Package_init ''viewer'')
        \<lparr> p3dApplication := True, solo := True, host := Some (packager_host solo_packager),
          platformSpecificConfig := Some None \<rparr>"
  have c: "closeVersion search_env (closeConfigs solo_packager viewer_solo) = s4"
    by (simp add: viewer_solo_def closeConfigs_Package_init s4_def)
       (simp add: closeVersion_def Package_init_def)
  have f4: "p3dApplication s4" "requires s4 = []" "packageName s4 \<noteq> ''panda3d''"
    by (simp_all add: s4_def Package_init_def)
  define s5 where "s5 = s4\<lparr> compressionLevel := 6, requires := [panda3d_1_7_0] \<rparr>"
  have r: "Package_requirePackage (s4\<lparr> compressionLevel := 6 \<rparr>) panda3d_1_7_0 = s5"
    unfolding panda3d_1_7_0_def s5_def by (rule require_first) (simp add: f4)
  have f5: "p3dApplication s5" "solo s5" "files s5 = []" "platformSpecificConfig s5 = Some None"
    "version s5 = None"
    by (simp_all add: s5_def s4_def Package_init_def)
  have inh: "inheritVersion s5 = s5"
    by (simp add: inheritVersion_def f5)
  have "snd (Package_close search_env solo_packager viewer_solo) = None"
    unfolding Package_close_unfold c
    using f4(3)
    by (simp add: solo_packager_def closeRequire_search [OF f4(1) f4(2)] r closeInstall_def inh f5
        installSolo_empty Let_def)
  then show ?thesis
    by (simp add: viewer_solo_def Package_init_def solo_packager_def)
qed

text \<open>
  The application \<open>viewer_app\<close> has no main module and is not a solo package.  Its
  files are \<open>main.py\<close>, which is no dc file, and \<open>viewer.dc\<close>, which parses.
  \<open>close\<close> raises the error of the main-module check, and leaves the empty temporary
  Multifile \<open>/tmp/viewer.0.mf\<close> behind.
\<close>

theorem C9_main_module_check_witness:
  "mainModule viewer_app = None \<and> p3dApplication viewer_app \<and> \<not> solo viewer_app
   \<and> packageName viewer_app \<noteq> ''panda3d''
   \<and> currentPackage viewer_packager = Some viewer_app
   \<and> snd (closeRequire search_env viewer_packager (closeConfigs viewer_packager viewer_app)) = None
   \<and> map (\<lambda>f. (filename f, getExtension (newName f), unprocessed f)) (files viewer_app)
       = [(''/src/main.py'', ''py'', False), (''/src/viewer.dc'', ''dc'', False)]
   \<and> dcImportModules search_env ''/src/main.py'' = None
   \<and> dcImportModules search_env ''/src/viewer.dc'' = Some [''direct.distributed.DistributedObject'']
   \<and> (\<exists>pkgr1 self1. Package_close search_env viewer_packager viewer_app
          = ((openReadWrite search_env ''/tmp/viewer.0.mf'', pkgr1, self1),
             Some (PackagerError ''No main_module specified for application viewer'')))
   \<and> multifiles (openReadWrite search_env ''/tmp/viewer.0.mf'') ''/tmp/viewer.0.mf'' = Some []
   \<and> xmlFiles (openReadWrite search_env ''/tmp/viewer.0.mf'') = xmlFiles search_env"
proof -
  have m: "mainModule viewer_app = None"
    by (simp add: viewer_app_def Package_init_def)
  have f: "p3dApplication viewer_app" "\<not> solo viewer_app" "packageName viewer_app = ''viewer''"
    "files viewer_app = [file_main_py, file_viewer_dc]"
    by (simp_all add: viewer_app_def Package_init_def)
  have x: "getExtension (newName file_main_py) = ''py''"
    "getExtension (newName file_viewer_dc) = ''dc''"
    "filename file_main_py = ''/src/main.py''" "filename file_viewer_dc = ''/src/viewer.dc''"
    "\<not> unprocessed file_main_py" "\<not> unprocessed file_viewer_dc"
    by (simp_all add: file_main_py_def file_viewer_dc_def getExtension_def getBasename_def)
  have d: "dcImportModules search_env ''/src/main.py'' = None"
    "dcImportModules search_env ''/src/viewer.dc'' = Some [''direct.distributed.DistributedObject'']"
    by (simp_all add: search_env_def)
  have t: "fs_temporary search_env (''viewer'' @ ''.'') ''.mf'' = ''/tmp/viewer.0.mf''"
    by (simp add: search_env_def example_env_def)
  have cc: "p3dApplication (closeConfigs viewer_packager viewer_app)"
    "requires (closeConfigs viewer_packager viewer_app) = []"
    by (simp_all add: closeConfigs_def viewer_app_def Package_init_def Let_def truthy_def)
  have cr: "snd (closeRequire search_env viewer_packager
                   (closeConfigs viewer_packager viewer_app)) = None"
  proof -
    have "closeRequire search_env viewer_packager X
            = closeRequire search_env (search_packager\<lparr> currentPackage := Some viewer_app \<rparr>) X"
      for X
      by (simp only: viewer_packager_def)
    with closeRequire_search [OF cc, of "Some viewer_app"] show ?thesis by simp
  qed
  have cp: "currentPackage viewer_packager = Some viewer_app"
    by (simp add: viewer_packager_def)
  have dc: "list_all (\<lambda>f. getExtension (newName f) = ''dc'' \<and> \<not> unprocessed f
                         \<longrightarrow> dcImportModules search_env (filename f) \<noteq> None) (files viewer_app)"
    by (simp add: f x d)
  from C9_main_module_check [OF m, of search_env viewer_packager] m f cr cp dc x d t show ?thesis
    by (simp add: mainModuleError_def)
qed

text \<open>
  A package that is not an application, with no main module and no files, closes
  normally and publishes its (empty) archive and descriptors.
\<close>

lemma example_env_install_simps:
  "fs_renameOk example_env a b = True"
  "fs_compressOk example_env a b = True"
  "assembleContents example_env p = Inr p"
  "xmlFiles example_env = Map.empty"
  "fs_temporary example_env prefix suffix = ''/tmp/'' @ prefix @ ''0'' @ suffix"
  by (simp_all add: example_env_def)

lemma publishMultifile_succeeds:
  assumes "fs_compressOk e (packageFullpath self)
             (Filename2 (installDir pkgr) (packageFilename self @ ''.pz''))"
    and "requires self = []" and "host self = Some h"
  shows "snd (publishMultifile e pkgr self) = None"
proof -
  let ?e1 = "e\<lparr> fs_exists := (fs_exists e)
                 (Filename2 (installDir pkgr) (packageFilename self @ ''.pz'') := True) \<rparr>"
  have r: "requires (readDescFile ?e1 pkgr self) = []" "host (readDescFile ?e1 pkgr self) = Some h"
    using assms by (simp_all add: readDescFile_def Let_def split: option.split)
  obtain self2 e2 where w: "writeDescFile ?e1 pkgr (readDescFile ?e1 pkgr self) = Inr (self2, e2)"
    using r by (simp add: writeDescFile_def Let_def)
  then have r2: "requires self2 = []" "host self2 = Some h"
    using r by (auto simp: writeDescFile_def Let_def)
  obtain self3 e3 where wi: "writeImportDescFile e2 pkgr self2 = Inr (self3, e3)"
    using r2 by (simp add: writeImportDescFile_def Let_def)
  from assms(1) w wi show ?thesis
    by (simp add: publishMultifile_def Let_def)
qed

lemma library_closes_normally:
  "\<not> p3dApplication models_library \<and> mainModule models_library = None
   \<and> currentPackage library_packager = Some models_library
   \<and> snd (Package_close example_env library_packager models_library) = None"
proof -
  define s4 where "s4 = (Package_init ''models'')
        \<lparr> p3dApplication := False, solo := False, host := Some (packager_host library_packager),
          platformSpecificConfig := Some None \<rparr>"
  have ml: "models_library = (Package_init ''models'')\<lparr> p3dApplication := False, solo := False \<rparr>"
    by (simp add: models_library_def Package_init_def)
  have c: "closeVersion example_env (closeConfigs library_packager models_library) = s4"
    unfolding ml
    by (simp add: closeConfigs_Package_init s4_def)
       (simp add: closeVersion_def Package_init_def)
  have f4: "\<not> p3dApplication s4" "requires s4 = []" "packageName s4 = ''models''"
    "\<not> solo s4" "files s4 = []" "platformSpecificConfig s4 = Some None" "version s4 = None"
    "mainModule s4 = None" "host s4 = Some (packager_host library_packager)"
    "platform s4 = None"
    by (simp_all add: s4_def Package_init_def)
  have inh: "inheritVersion s4 = s4"
    by (simp add: inheritVersion_def f4 truthy_value_def)
  define s5 where "s5 = s4\<lparr> multifile := [], multifileHeader := [], extracts := [],
                              components := [] \<rparr>"
  have f5: "\<not> p3dApplication s5" "requires s5 = []" "packageName s5 = ''models''"
    "files s5 = []" "platformSpecificConfig s5 = Some None" "version s5 = None"
    "mainModule s5 = None" "host s5 = Some (packager_host library_packager)"
    "platform s5 = None"
    by (simp_all add: s5_def f4)
  have cp: "considerPlatform e0 pkgr s5 = Inr s5" for pkgr e0
    by (simp add: considerPlatform_def f5)
  define s6 where "s6 pkgr0 = s5\<lparr> packageBasename := ''models.mf'',
                              packageDesc := ''models/models.xml'',
                              packageImportDesc := ''models/models.import.xml'',
                              packageFilename := ''models/models.mf'',
                              packageFullpath := Filename2 (installDir pkgr0) ''models/models.mf'' \<rparr>"
    for pkgr0 :: packager
  have f6: "requires (s6 pkgr0) = []" "host (s6 pkgr0) = Some (packager_host library_packager)"
    for pkgr0
    by (simp_all add: s6_def f5)
  have fin: "snd (finishMultifile e0 pkgr0 s5 tmp) = None"
    if "fs_compressOk e0 = fs_compressOk example_env" "fs_renameOk e0 = fs_renameOk example_env"
    for e0 pkgr0 tmp
  proof -
    have "snd (publishMultifile e2 pkgr0 (s6 pkgr0)) = None"
      if "fs_compressOk e2 = fs_compressOk example_env" for e2
      using that f6 [of pkgr0]
      by (intro publishMultifile_succeeds) (simp_all add: example_env_install_simps)
    then show ?thesis
      using that
      by (simp add: finishMultifile_def cp f5 Let_def withTruthy_def addTruthyValue_def
          example_env_install_simps s6_def renameTo_def repack_def)
  qed
  have inst: "snd (installMultifile example_env pkgr0 s4) = None" for pkgr0
    by (simp add: installMultifile_def f4 Let_def s5_def [symmetric] f5
        example_env_install_simps fin openReadWrite_def)
  have "snd (Package_close example_env library_packager models_library) = None"
    unfolding Package_close_unfold c
    by (simp add: f4 closeRequire_def closeInstall_def inh inst Let_def)
  then show ?thesis
    by (simp add: models_library_def Package_init_def library_packager_def)
qed

end
